theory Spec2Isabelle
  imports Main
begin

unbundle bit_operations_syntax

section \<open>The Clang declaration importer (lib/ClangImporter/ImportDecl.cpp)\<close>

text \<open>
  A shallow embedding of the importer that turns Clang declarations into Swift
  declarations. Pointers to Clang declarations are indices into a read-only
  table; pointers to Swift declarations are indices into the arena of the
  importer's state, so that object identity is equality of indices. A function
  of the source that can fail an assertion, reach \<open>llvm_unreachable\<close> or
  follow a null pointer returns \<open>None\<close> there.
\<close>

subsection \<open>Identifiers and selectors\<close>

type_synonym cdecl_id = nat
type_synonym decl_ref = nat
type_synonym module_ref = nat

text \<open>A Swift \<open>Identifier\<close>; the empty string is the empty identifier.\<close>
type_synonym ident = string

text \<open>
  A \<open>clang::Selector\<close>: the identifier of each slot (a slot may have no
  identifier) and the number of arguments.
\<close>
datatype selector = Selector "string option list" nat

fun getIdentifierInfoForSlot :: "selector \<Rightarrow> nat \<Rightarrow> string option" where
  "getIdentifierInfoForSlot (Selector slots n) i =
     (if i < length slots then slots ! i else None)"

subsection \<open>Initializer recognition\<close>

text \<open>\<open>islower\<close> of the C locale.\<close>
definition islower :: "char \<Rightarrow> bool" where
  "islower c = (97 \<le> (of_char c :: nat) \<and> (of_char c :: nat) \<le> 122)"

definition startswith :: "string \<Rightarrow> string \<Rightarrow> bool" where
  "startswith name word = (take (length word) name = word)"

definition startsWithWord :: "string \<Rightarrow> string \<Rightarrow> bool" where
  "startsWithWord name word =
     (if length name < length word then False
      else ((if length name = length word then True
             else \<not> islower (name ! length word))
            \<and> startswith name word))"

datatype method_family =
    OMF_None | OMF_alloc | OMF_copy | OMF_init | OMF_mutableCopy | OMF_new
  | OMF_autorelease | OMF_dealloc | OMF_finalize | OMF_release | OMF_retain
  | OMF_retainCount | OMF_self | OMF_performSelector


subsection \<open>The Clang side: types, declaration contexts, declarations\<close>

text \<open>
  A Clang type. \<open>TagDeclType d\<close> is \<open>ASTContext::getTagDeclType\<close> of the enum
  or record \<open>d\<close>; every other type is opaque, and what Clang knows of it is asked
  through the functions of the environment below.
\<close>
datatype ctype = TagDeclType cdecl_id | OpaqueType nat

datatype fltSemantics =
  IEEEhalf | IEEEsingle | IEEEdouble | IEEEquad | PPCDoubleDouble | x87DoubleExtended

text \<open>
  A \<open>clang::DeclContext\<close>: the translation unit, or the context formed by the
  declaration with the given index, with its parent context.
\<close>
datatype ctx_kind =
    Ctx_Namespace | Ctx_Record | Ctx_Enum | Ctx_LinkageSpec
  | Ctx_ObjCInterface | Ctx_ObjCCategory | Ctx_ObjCProtocol | Ctx_ObjCImpl
  | Ctx_Function | Ctx_ObjCMethod | Ctx_Block

datatype cdeclctx = TranslationUnit | Ctx ctx_kind cdecl_id cdeclctx

fun isTranslationUnit :: "cdeclctx \<Rightarrow> bool" where
  "isTranslationUnit TranslationUnit = True"
| "isTranslationUnit (Ctx k d p) = False"

fun isFileContext :: "cdeclctx \<Rightarrow> bool" where
  "isFileContext TranslationUnit = True"
| "isFileContext (Ctx k d p) = (k = Ctx_Namespace)"

fun isRecord :: "cdeclctx \<Rightarrow> bool" where
  "isRecord TranslationUnit = False"
| "isRecord (Ctx k d p) = (k = Ctx_Record)"

text \<open>\<open>dyn_cast<clang::NamedDecl>(dc)\<close>: linkage specifications and blocks have no name.\<close>
fun asNamedDecl :: "cdeclctx \<Rightarrow> cdecl_id option" where
  "asNamedDecl TranslationUnit = None"
| "asNamedDecl (Ctx k d p) = (if k = Ctx_LinkageSpec \<or> k = Ctx_Block then None else Some d)"

text \<open>\<open>getRedeclContext\<close> skips the transparent contexts (linkage specifications, enums).\<close>
fun getRedeclContext :: "cdeclctx \<Rightarrow> cdeclctx" where
  "getRedeclContext TranslationUnit = TranslationUnit"
| "getRedeclContext (Ctx k d p) =
     (if k = Ctx_LinkageSpec \<or> k = Ctx_Enum then getRedeclContext p else Ctx k d p)"

text \<open>
  The loop of \<open>VisitEnumConstantDecl\<close>:
  \<open>while (!clangDC->isFileContext()) clangDC = clangDC->getParent();\<close>
\<close>
fun enclosingFileContext :: "cdeclctx \<Rightarrow> cdeclctx" where
  "enclosingFileContext TranslationUnit = TranslationUnit"
| "enclosingFileContext (Ctx k d p) =
     (if isFileContext (Ctx k d p) then Ctx k d p else enclosingFileContext p)"

record enum_info =
  enum_definition :: "cdecl_id option"
  enum_typedefNameForAnonDecl :: "string option"
  enum_integerType :: ctype
  enum_enumerators :: "cdecl_id list"

record record_info =
  rec_isUnion :: bool
  rec_isInterface :: bool
  rec_isAnonymousStructOrUnion :: bool
  rec_definition :: "cdecl_id option"
  rec_typedefNameForAnonDecl :: "string option"
  rec_decls :: "cdecl_id list"

record parm_info =
  parm_name :: "string option"
  parm_type :: ctype

record function_info =
  fn_mostRecentDecl :: cdecl_id
  fn_hasPrototype :: bool
  fn_isInlined :: bool
  fn_hasAlwaysInlineAttr :: bool
  fn_resultType :: ctype
  fn_params :: "parm_info list"
  fn_isVariadic :: bool

record field_info =
  fld_type :: ctype
  fld_isAnonymousStructOrUnion :: bool
  fld_hasIBOutletAttr :: bool

record method_info =
  meth_selector :: selector
  meth_isInstanceMethod :: bool
  meth_methodFamily :: method_family
  meth_resultType :: ctype
  meth_params :: "parm_info list"
  meth_isVariadic :: bool
  meth_hasIBActionAttr :: bool
  meth_classInterface :: "cdecl_id option"
  meth_findPropertyDecl :: "cdecl_id option"

record container_info =
  oc_definition :: "cdecl_id option"
  oc_superClass :: "cdecl_id option"
  oc_classInterface :: "cdecl_id option"
  oc_referencedProtocols :: "cdecl_id list"
  oc_visibleCategories :: "cdecl_id list"
  oc_decls :: "cdecl_id list"

record property_info =
  prop_type :: ctype
  prop_getterMethodDecl :: "cdecl_id option"
  prop_setterMethodDecl :: "cdecl_id option"
  prop_hasIBOutletAttr :: bool

text \<open>
  The classes of Clang declarations whose \<open>Visit...\<close> method returns
  \<open>nullptr\<close> whatever the declaration is. \<open>OtherNamedDecl\<close> and \<open>OtherDecl\<close>
  are the classes that fall through to \<open>VisitDecl\<close>.
\<close>
datatype never_imported =
    TranslationUnitDecl
  | NamespaceDecl
  | UsingDirectiveDecl
  | NamespaceAliasDecl
  | LabelDecl
  | UnresolvedUsingTypenameDecl
  | ClassTemplateSpecializationDecl
  | ClassTemplatePartialSpecializationDecl
  | TemplateTypeParmDecl
  | UnresolvedUsingValueDecl
  | CXXMethodDecl
  | ObjCAtDefsFieldDecl
  | ImplicitParamDecl
  | ParmVarDecl
  | NonTypeTemplateParmDecl
  | TemplateDecl
  | UsingDecl
  | UsingShadowDecl
  | ObjCImplDecl
  | ObjCCompatibleAliasDecl
  | LinkageSpecDecl
  | ObjCPropertyImplDecl
  | FileScopeAsmDecl
  | AccessSpecDecl
  | FriendDecl
  | FriendTemplateDecl
  | StaticAssertDecl
  | BlockDecl
  | ClassScopeFunctionSpecializationDecl
  | ImportDecl
  | OtherNamedDecl
  | OtherDecl

text \<open>
  The dynamic class of a Clang declaration, as the \<open>DeclVisitor\<close> dispatches on
  it, with what the \<open>Visit...\<close> method of that class reads of the declaration.
\<close>
datatype cdecl_kind =
    NeverImported never_imported
  | TypedefNameDecl ctype
  | EnumDecl enum_info
  | RecordDecl record_info
  | EnumConstantDecl int
  | IndirectFieldDecl "cdecl_id list" ctype
  | FunctionDecl function_info
  | FieldDecl field_info
  | ObjCIvarDecl field_info
  | VarDecl ctype
  | ObjCMethodDecl method_info
  | ObjCCategoryDecl container_info
  | ObjCProtocolDecl container_info
  | ObjCInterfaceDecl container_info
  | ObjCPropertyDecl property_info

record cdecl =
  declName :: "string option"
  declContext :: cdeclctx
  canonicalDecl :: cdecl_id
  declKind :: cdecl_kind

text \<open>\<open>dyn_cast<clang::NamedDecl>\<close> on a declaration.\<close>
definition isNamedDecl :: "cdecl_kind \<Rightarrow> bool" where
  "isNamedDecl k =
     (case k of
        NeverImported n \<Rightarrow>
          n \<notin> {TranslationUnitDecl, LinkageSpecDecl, ObjCPropertyImplDecl, FileScopeAsmDecl,
                 AccessSpecDecl, FriendDecl, FriendTemplateDecl, StaticAssertDecl, BlockDecl,
                 ClassScopeFunctionSpecializationDecl, ImportDecl, OtherDecl}
      | _ \<Rightarrow> True)"


subsection \<open>The Swift side: types, patterns, expressions, declarations\<close>

text \<open>A \<open>swift::DeclContext\<close>: a module, or a declaration of the arena.\<close>
datatype sdeclctx = ModuleContext module_ref | DeclContextOf decl_ref

text \<open>
  A Swift type. \<open>NominalType d\<close> is the declared type of the type declaration
  \<open>d\<close> of the arena; \<open>StdlibType\<close> stands for the types that the type
  translation and the standard library hand out.
\<close>
datatype stype =
    NominalType decl_ref
  | StdlibType string
  | MetaTypeType stype
  | FunctionType stype stype
  | TupleType "(stype \<times> ident) list"

text \<open>
  The variable of a named pattern (a \<open>VarDecl\<close>), kept by value inside the
  pattern: its name, type and declaration context.
\<close>
record pvar =
  v_name :: ident
  v_type :: stype
  v_context :: "sdeclctx option"

text \<open>A pattern node with the type that \<open>setType\<close> gave it.\<close>
datatype pattern =
    NamedPattern pvar stype
  | TypedPattern pattern stype
  | TuplePattern "pattern list" stype

fun patternType :: "pattern \<Rightarrow> stype" where
  "patternType (NamedPattern v t) = t"
| "patternType (TypedPattern p t) = t"
| "patternType (TuplePattern ps t) = t"

fun getBoundName :: "pattern \<Rightarrow> ident" where
  "getBoundName (NamedPattern v t) = v_name v"
| "getBoundName (TypedPattern p t) = getBoundName p"
| "getBoundName (TuplePattern ps t) = []"

text \<open>
  \<open>setVarDeclContexts\<close>: set the declaration context of each variable within
  the patterns. \<open>getSemanticsProvidingPattern\<close> looks through typed patterns.
\<close>
fun setVarDeclContext :: "sdeclctx option \<Rightarrow> pattern \<Rightarrow> pattern" where
  "setVarDeclContext dc (NamedPattern v t) = NamedPattern (v\<lparr>v_context := dc\<rparr>) t"
| "setVarDeclContext dc (TypedPattern p t) = TypedPattern (setVarDeclContext dc p) t"
| "setVarDeclContext dc (TuplePattern ps t) = TuplePattern (map (setVarDeclContext dc) ps) t"

definition setVarDeclContexts :: "pattern list \<Rightarrow> sdeclctx option \<Rightarrow> pattern list" where
  "setVarDeclContexts patterns dc = map (setVarDeclContext dc) patterns"

datatype expr =
    IntegerLiteralExpr string
  | FloatLiteralExpr string
  | DeclRefExpr decl_ref
  | VarRefExpr pvar
  | OverloadedDeclRefExpr "decl_ref list"
  | MemberRefExpr expr decl_ref
  | PrefixUnaryExpr expr expr
  | CallExpr expr expr
  | DotSyntaxCallExpr expr expr
  | MetatypeExpr stype
  | TupleExpr "expr list"
  | AssignExpr expr expr
  | DowncastExpr expr stype
  | ReturnStmt expr

datatype decl_kind =
    DeclKind_TypeAlias | DeclKind_Struct | DeclKind_Enum | DeclKind_EnumElement
  | DeclKind_Class | DeclKind_Protocol | DeclKind_Extension | DeclKind_Func
  | DeclKind_Var | DeclKind_Constructor | DeclKind_Destructor | DeclKind_Subscript
  | DeclKind_AssociatedType | DeclKind_PatternBinding

text \<open>
  A Swift declaration of the arena. The fields are those the importer sets or
  reads; a field that a class of declarations does not have keeps its default.
\<close>
record sdecl =
  d_kind :: decl_kind
  d_name :: ident
  d_context :: "sdeclctx option"
  d_type :: "stype option"
  d_clangNode :: "cdecl_id option"
  d_members :: "decl_ref list"
  d_isStatic :: bool
  d_isObjC :: bool
  d_isImplicit :: bool
  d_attrs :: "string list"
  d_overridden :: "decl_ref option"
  d_isComputed :: bool
  d_getter :: "decl_ref option"
  d_setter :: "decl_ref option"
  d_accessorOf :: "decl_ref option"
  d_argPatterns :: "pattern list"
  d_bodyPatterns :: "pattern list"
  d_resultType :: "stype option"
  d_body :: "expr list option"
  d_initializerType :: "stype option"
  d_allocSelfExpr :: "expr option"
  d_selfDecl :: "pvar option"
  d_superclass :: "stype option"
  d_protocols :: "decl_ref list"
  d_extensions :: "decl_ref list"

definition mkDecl :: "decl_kind \<Rightarrow> ident \<Rightarrow> sdeclctx option \<Rightarrow> sdecl" where
  "mkDecl k n dc =
     \<lparr> d_kind = k, d_name = n, d_context = dc, d_type = None, d_clangNode = None,
       d_members = [], d_isStatic = False, d_isObjC = False, d_isImplicit = False,
       d_attrs = [], d_overridden = None, d_isComputed = False, d_getter = None,
       d_setter = None, d_accessorOf = None, d_argPatterns = [], d_bodyPatterns = [],
       d_resultType = None, d_body = None, d_initializerType = None,
       d_allocSelfExpr = None, d_selfDecl = None, d_superclass = None,
       d_protocols = [], d_extensions = [] \<rparr>"

subsection \<open>The importer's state\<close>

text \<open>
  \<open>ClangImporter::Implementation\<close>: the arena of the Swift declarations made so
  far (\<open>SwiftContext\<close>), the cache \<open>ImportedDecls\<close> keyed by the canonical Clang
  declaration (a key may be mapped to \<open>nullptr\<close>), the cache of mirrored
  protocol members, the cache of subscripts keyed by the getter and setter, the
  set of special typedef names and the external definitions handed to the
  Swift context. The maps are association lists; the first pair of a key is
  its entry.
\<close>
record impl =
  arena :: "sdecl list"
  ImportedDecls :: "(cdecl_id \<times> decl_ref option) list"
  ImportedProtocolDecls :: "((cdecl_id \<times> sdeclctx) \<times> decl_ref option) list"
  Subscripts :: "((decl_ref option \<times> decl_ref option) \<times> decl_ref) list"
  SpecialTypedefNames :: "cdecl_id list"
  externalDecls :: "decl_ref list"

text \<open>
  A computation of the importer: it reads and changes the state and returns a
  value, or does not return normally (\<open>None\<close>).
\<close>
type_synonym 'a imp = "impl \<Rightarrow> ('a \<times> impl) option"

definition ret :: "'a \<Rightarrow> 'a imp" where
  "ret x = (\<lambda>s. Some (x, s))"

definition bnd :: "'a imp \<Rightarrow> ('a \<Rightarrow> 'b imp) \<Rightarrow> 'b imp" where
  "bnd m f = (\<lambda>s. case m s of None \<Rightarrow> None | Some (x, s') \<Rightarrow> f x s')"

definition abort :: "'a imp" where
  "abort = (\<lambda>s. None)"

text \<open>\<open>x = m; if (!x) return nullptr; ...\<close>\<close>
definition orNull :: "'a option imp \<Rightarrow> ('a \<Rightarrow> 'b option imp) \<Rightarrow> 'b option imp" where
  "orNull m f = bnd m (\<lambda>x. case x of None \<Rightarrow> ret None | Some v \<Rightarrow> f v)"

text \<open>A value that must not be null: \<open>cast<>\<close>, an assertion, a dereference.\<close>
definition nonNull :: "'a option \<Rightarrow> 'a imp" where
  "nonNull x = (case x of None \<Rightarrow> abort | Some v \<Rightarrow> ret v)"

definition getState :: "impl imp" where
  "getState = (\<lambda>s. Some (s, s))"

text \<open>\<open>new (context) ...Decl(...)\<close>: the new declaration's index is the arena's size.\<close>
definition newDecl :: "sdecl \<Rightarrow> decl_ref imp" where
  "newDecl d = (\<lambda>s. Some (length (arena s), s\<lparr>arena := arena s @ [d]\<rparr>))"

definition getDecl :: "decl_ref \<Rightarrow> sdecl imp" where
  "getDecl r = (\<lambda>s. if r < length (arena s) then Some (arena s ! r, s) else None)"

definition updDecl :: "decl_ref \<Rightarrow> (sdecl \<Rightarrow> sdecl) \<Rightarrow> unit imp" where
  "updDecl r f =
     (\<lambda>s. if r < length (arena s)
          then Some ((), s\<lparr>arena := (arena s)[r := f (arena s ! r)]\<rparr>) else None)"

definition addedExternalDecl :: "decl_ref \<Rightarrow> unit imp" where
  "addedExternalDecl r = (\<lambda>s. Some ((), s\<lparr>externalDecls := externalDecls s @ [r]\<rparr>))"

definition setImportedDecl :: "cdecl_id \<Rightarrow> decl_ref option \<Rightarrow> unit imp" where
  "setImportedDecl canon r = (\<lambda>s. Some ((), s\<lparr>ImportedDecls := (canon, r) # ImportedDecls s\<rparr>))"

text \<open>\<open>ImportedDecls.find(canon)\<close>: \<open>None\<close> when the key has no entry.\<close>
definition findImportedDecl :: "cdecl_id \<Rightarrow> decl_ref option option imp" where
  "findImportedDecl canon = (\<lambda>s. Some (map_of (ImportedDecls s) canon, s))"


subsection \<open>The collaborators of the importer\<close>

datatype MappedCTypeKind =
    UnsignedInt | SignedInt | FloatIEEEsingle | FloatIEEEdouble
  | FloatX87DoubleExtended | ObjCBool | ObjCSel

text \<open>
  One \<open>MAP_TYPE\<close> entry of \<open>MappedTypes.def\<close>. The languages of an entry are
  the bit mask \<open>unsigned(MappedLanguages::LANGUAGES)\<close>.
\<close>
record mapped_type =
  mt_cTypeName :: string
  mt_cTypeKind :: MappedCTypeKind
  mt_bitwidth :: nat
  mt_swiftModuleName :: string
  mt_swiftTypeName :: string
  mt_languages :: nat
  mt_canBeMissing :: bool

datatype ImportTypeKind = Normal | Result | Parameter | Property

text \<open>
  What the importer asks of code that is not in this file: the Clang AST (the
  table of declarations and Clang's own queries on types and Objective-C
  containers), the tables and modules of the importer, the translation of
  names and of types, and Swift's name lookup. \<open>MappedTypes.def\<close> and the
  values of \<open>MappedLanguages\<close> are parameters as well.
\<close>
record env =
  ast :: "cdecl list"
  importName :: "string option \<Rightarrow> string \<Rightarrow> ident"
  getClangModuleForDecl :: "cdecl_id \<Rightarrow> module_ref option"
  firstClangModule :: "module_ref option"
  getSwiftModule :: "module_ref option"
  getNamedModule :: "string \<Rightarrow> module_ref option"
  getNamedSwiftType :: "module_ref \<Rightarrow> string \<Rightarrow> stype option"
  mappedTypes :: "mapped_type list"
  MappedLanguages_All :: nat
  MappedLanguages_ObjC1 :: nat
  LangOpts_ObjC1 :: bool
  getTypeSize :: "ctype \<Rightarrow> nat"
  isUnsignedIntegerType :: "ctype \<Rightarrow> bool"
  isSignedIntegerType :: "ctype \<Rightarrow> bool"
  isFloatingType :: "ctype \<Rightarrow> bool"
  getFloatTypeSemantics :: "ctype \<Rightarrow> fltSemantics"
  isObjCBuiltinBoolTy :: "ctype \<Rightarrow> bool"
  getAsPointerType :: "ctype \<Rightarrow> ctype option"
  isObjCSelBuiltinType :: "ctype \<Rightarrow> bool"
  importOtherType :: "ctype \<Rightarrow> ImportTypeKind \<Rightarrow> stype option"
  importFunctionType ::
    "ctype \<Rightarrow> parm_info list \<Rightarrow> bool \<Rightarrow> selector option \<Rightarrow> bool
       \<Rightarrow> (stype \<times> pattern \<times> pattern) option"
  lookupMethod :: "cdecl_id \<Rightarrow> selector \<Rightarrow> bool \<Rightarrow> cdecl_id option"
  getMethod :: "cdecl_id \<Rightarrow> selector \<Rightarrow> bool \<Rightarrow> cdecl_id option"
  lookupQualified :: "impl \<Rightarrow> stype option \<Rightarrow> ident \<Rightarrow> decl_ref list"
  unqualifiedLookup :: "ident \<Rightarrow> decl_ref option list"
  getUnlabeledType :: "stype \<Rightarrow> stype"
  getImplicitProtocols :: "impl \<Rightarrow> decl_ref \<Rightarrow> decl_ref list"

text \<open>The Clang declaration behind a pointer; a dangling pointer has none.\<close>
definition getCDecl :: "env \<Rightarrow> cdecl_id \<Rightarrow> cdecl option" where
  "getCDecl E d = (if d < length (ast E) then Some (ast E ! d) else None)"

subsection \<open>Well-known C types (\<open>getSwiftStdlibType\<close>)\<close>

text \<open>
  The \<open>switch (CTypeKind)\<close> of \<open>getSwiftStdlibType\<close>: \<open>Some True\<close> when the
  switch is left by \<open>break\<close>, \<open>Some False\<close> when it returns the empty pair, and
  \<open>None\<close> when an assertion on the table's bit width fails.
\<close>
definition checkCTypeKind :: "env \<Rightarrow> MappedCTypeKind \<Rightarrow> nat \<Rightarrow> ctype \<Rightarrow> bool option" where
  "checkCTypeKind E CTypeKind Bitwidth ClangType =
     (case CTypeKind of
        UnsignedInt \<Rightarrow> Some (isUnsignedIntegerType E ClangType)
      | SignedInt \<Rightarrow> Some (isSignedIntegerType E ClangType)
      | FloatIEEEsingle \<Rightarrow>
          (if \<not> isFloatingType E ClangType then Some False
           else if Bitwidth \<noteq> 32 then None
           else Some (getFloatTypeSemantics E ClangType = IEEEsingle))
      | FloatIEEEdouble \<Rightarrow>
          (if \<not> isFloatingType E ClangType then Some False
           else if Bitwidth \<noteq> 64 then None
           else Some (getFloatTypeSemantics E ClangType = IEEEdouble))
      | FloatX87DoubleExtended \<Rightarrow>
          (if \<not> isFloatingType E ClangType then Some False
           else if Bitwidth \<noteq> 80 then None
           else Some (getFloatTypeSemantics E ClangType = x87DoubleExtended))
      | ObjCBool \<Rightarrow> Some (isObjCBuiltinBoolTy E ClangType)
      | ObjCSel \<Rightarrow>
          (case getAsPointerType E ClangType of
             Some PT \<Rightarrow> Some (isObjCSelBuiltinType E PT)
           | None \<Rightarrow> Some True))"

text \<open>
  The result is the pair of the Swift type and its name, with the value left
  in \<open>*IsError\<close>.
\<close>
definition getSwiftStdlibType ::
    "env \<Rightarrow> ctype \<Rightarrow> ident \<Rightarrow> ((stype option \<times> string) \<times> bool) option" where
  "getSwiftStdlibType E ClangType Name =
     (case find (\<lambda>m. Name = mt_cTypeName m) (mappedTypes E) of
        None \<Rightarrow> Some ((None, []), False)
      | Some m \<Rightarrow>
          if mt_languages m \<noteq> MappedLanguages_All E
             \<and> (mt_languages m AND MappedLanguages_ObjC1 E) \<noteq> 0
             \<and> \<not> LangOpts_ObjC1 E
          then Some ((None, []), False)
          else if mt_bitwidth m \<noteq> 0 \<and> mt_bitwidth m \<noteq> getTypeSize E ClangType
          then Some ((None, []), False)
          else
            (case checkCTypeKind E (mt_cTypeKind m) (mt_bitwidth m) ClangType of
               None \<Rightarrow> None
             | Some False \<Rightarrow> Some ((None, []), False)
             | Some True \<Rightarrow>
                 (case (if mt_swiftModuleName m = ''swift'' then getSwiftModule E
                        else getNamedModule E (mt_swiftModuleName m)) of
                    None \<Rightarrow> Some ((None, []), True)
                  | Some M \<Rightarrow>
                      (case getNamedSwiftType E M (mt_swiftTypeName m) of
                         None \<Rightarrow>
                           if \<not> mt_canBeMissing m then Some ((None, []), True)
                           else Some ((None, mt_swiftTypeName m), False)
                       | Some SwiftType \<Rightarrow>
                           Some ((Some SwiftType, mt_swiftTypeName m), False)))))"

subsection \<open>Enum classification and initializer methods\<close>

datatype EnumKind = Constants | Options | Enum

text \<open>
  The name that \<open>classifyEnum\<close>, \<open>VisitEnumDecl\<close> and \<open>VisitRecordDecl\<close> compute
  for a tag: the imported declaration name, else the imported name of the
  typedef for the anonymous declaration, else the empty identifier.
\<close>
definition importTagName :: "env \<Rightarrow> string option \<Rightarrow> string option \<Rightarrow> ident" where
  "importTagName E name typedefName =
     (case name of
        Some n \<Rightarrow> importName E (Some n) []
      | None \<Rightarrow>
          (case typedefName of
             Some t \<Rightarrow> importName E (Some t) []
           | None \<Rightarrow> []))"

definition classifyEnum :: "env \<Rightarrow> cdecl \<Rightarrow> enum_info \<Rightarrow> EnumKind" where
  "classifyEnum E decl ei =
     (let name = importTagName E (declName decl) (enum_typedefNameForAnonDecl ei)
      in if name = [] then Constants else Options)"

definition isReallyInitMethod :: "method_info \<Rightarrow> bool" where
  "isReallyInitMethod method =
     (if \<not> meth_isInstanceMethod method then False
      else (case getIdentifierInfoForSlot (meth_selector method) 0 of
              None \<Rightarrow> False
            | Some first \<Rightarrow> startsWithWord first ''init''))"


subsection \<open>Reading and changing Swift declarations\<close>

definition setClangNode :: "decl_ref \<Rightarrow> cdecl_id \<Rightarrow> unit imp" where
  "setClangNode r canon = updDecl r (\<lambda>d. d\<lparr>d_clangNode := Some canon\<rparr>)"

definition setMembers :: "decl_ref \<Rightarrow> decl_ref list \<Rightarrow> unit imp" where
  "setMembers r ms = updDecl r (\<lambda>d. d\<lparr>d_members := ms\<rparr>)"

definition setOverriddenDecl :: "decl_ref \<Rightarrow> decl_ref \<Rightarrow> unit imp" where
  "setOverriddenDecl r over = updDecl r (\<lambda>d. d\<lparr>d_overridden := Some over\<rparr>)"

text \<open>\<open>computeType\<close> of a nominal type declaration: the metatype of its declared type.\<close>
definition computeType :: "decl_ref \<Rightarrow> unit imp" where
  "computeType r = updDecl r (\<lambda>d. d\<lparr>d_type := Some (MetaTypeType (NominalType r))\<rparr>)"

definition isNominalTypeDecl :: "sdecl \<Rightarrow> bool" where
  "isNominalTypeDecl d =
     (d_kind d \<in> {DeclKind_Struct, DeclKind_Enum, DeclKind_Class, DeclKind_Protocol})"

text \<open>\<open>isa<TypeDecl>\<close>.\<close>
definition isTypeDecl :: "sdecl \<Rightarrow> bool" where
  "isTypeDecl d =
     (isNominalTypeDecl d \<or> d_kind d = DeclKind_TypeAlias \<or> d_kind d = DeclKind_AssociatedType)"

text \<open>
  \<open>dc->getDeclaredTypeOfContext()\<close> (and \<open>getDeclaredTypeInContext\<close>; the
  importer makes no generic declaration): the declared type of a nominal type,
  the extended type of an extension (kept in its \<open>d_type\<close>), null otherwise.
\<close>
definition getDeclaredTypeOfContext :: "sdeclctx \<Rightarrow> stype option imp" where
  "getDeclaredTypeOfContext dc =
     (case dc of
        ModuleContext m \<Rightarrow> ret None
      | DeclContextOf r \<Rightarrow>
          bnd (getDecl r) (\<lambda>d.
            if isNominalTypeDecl d then ret (Some (NominalType r))
            else if d_kind d = DeclKind_Extension then ret (d_type d)
            else ret None))"

text \<open>
  \<open>proto->getSelf()\<close>: the member of the protocol that is the associated type
  named \<open>Self\<close>.
\<close>
definition getSelf :: "sdecl \<Rightarrow> decl_ref imp" where
  "getSelf proto =
     bnd getState (\<lambda>s.
       nonNull (find (\<lambda>m. m < length (arena s)
                          \<and> d_kind (arena s ! m) = DeclKind_AssociatedType
                          \<and> d_name (arena s ! m) = ''Self'')
                     (d_members proto)))"

text \<open>\<open>getSelfTypeForContext\<close>: for a protocol, the type is \<open>Self\<close>.\<close>
definition getSelfTypeForContext :: "sdeclctx \<Rightarrow> stype option imp" where
  "getSelfTypeForContext dc =
     (case dc of
        ModuleContext m \<Rightarrow> getDeclaredTypeOfContext dc
      | DeclContextOf r \<Rightarrow>
          bnd (getDecl r) (\<lambda>d.
            if d_kind d = DeclKind_Protocol
            then bnd (getSelf d) (\<lambda>self. ret (Some (NominalType self)))
            else getDeclaredTypeOfContext dc))"

text \<open>\<open>type->castTo<FunctionType>()\<close>, then \<open>getInput()\<close> or \<open>getResult()\<close>.\<close>
definition getInput :: "stype \<Rightarrow> stype imp" where
  "getInput t = (case t of FunctionType a b \<Rightarrow> ret a | _ \<Rightarrow> abort)"

definition getResult :: "stype \<Rightarrow> stype imp" where
  "getResult t = (case t of FunctionType a b \<Rightarrow> ret b | _ \<Rightarrow> abort)"

text \<open>\<open>dyn_cast_or_null<T>\<close> and \<open>cast_or_null<T>\<close> to a class of Swift declarations.\<close>
definition dynCastDecl :: "(sdecl \<Rightarrow> bool) \<Rightarrow> decl_ref option \<Rightarrow> decl_ref option imp" where
  "dynCastDecl isa r =
     (case r of
        None \<Rightarrow> ret None
      | Some x \<Rightarrow> bnd (getDecl x) (\<lambda>d. ret (if isa d then Some x else None)))"

definition castOrNullDecl :: "(sdecl \<Rightarrow> bool) \<Rightarrow> decl_ref option \<Rightarrow> decl_ref option imp" where
  "castOrNullDecl isa r =
     (case r of
        None \<Rightarrow> ret None
      | Some x \<Rightarrow> bnd (getDecl x) (\<lambda>d. if isa d then ret (Some x) else abort))"

definition isFuncDecl :: "sdecl \<Rightarrow> bool" where
  "isFuncDecl d = (d_kind d = DeclKind_Func)"

definition isClassDecl :: "sdecl \<Rightarrow> bool" where
  "isClassDecl d = (d_kind d = DeclKind_Class)"

definition isProtocolDecl :: "sdecl \<Rightarrow> bool" where
  "isProtocolDecl d = (d_kind d = DeclKind_Protocol)"

definition isConstructorDecl :: "sdecl \<Rightarrow> bool" where
  "isConstructorDecl d = (d_kind d = DeclKind_Constructor)"

definition isSubscriptDecl :: "sdecl \<Rightarrow> bool" where
  "isSubscriptDecl d = (d_kind d = DeclKind_Subscript)"

text \<open>
  After \<open>FuncDecl::create\<close> and the like, \<open>setVarDeclContexts(patterns, result)\<close>
  on the argument and body patterns of the new declaration.
\<close>
definition setPatternContexts :: "decl_ref \<Rightarrow> unit imp" where
  "setPatternContexts r =
     updDecl r (\<lambda>d. d\<lparr>d_argPatterns := setVarDeclContexts (d_argPatterns d) (Some (DeclContextOf r)),
                        d_bodyPatterns := setVarDeclContexts (d_bodyPatterns d) (Some (DeclContextOf r))\<rparr>)"

subsection \<open>Requests to the importer, and the translation of types\<close>

text \<open>
  The two entry points that the converter calls back: \<open>importDecl(decl)\<close> and
  \<open>importMirroredDecl(decl, dc)\<close>. A function of the converter takes the
  importer it calls back as its first argument.
\<close>
datatype request =
    ImportDeclReq "cdecl_id option"
  | ImportMirroredDeclReq "cdecl_id option" sdeclctx

type_synonym importer = "request \<Rightarrow> decl_ref option imp"

text \<open>
  Modelled from the spec: \<open>importType\<close> (the type translation of ImportType.cpp,
  which is not under src/). The spec gives it the contract
  \<open>translateType(foreignType, importKindHint) -> TargetType?\<close> and says that it
  may import the declarations a type refers to. The type of an enum follows
  the enum's classification, as the comments of \<open>VisitEnumDecl\<close> and
  \<open>VisitEnumConstantDecl\<close> say: an enum of constants is mapped to the underlying
  integer type, any other enum and a record to the declared type of the type
  declaration that importing the tag yields. Every other type is translated
  by the environment.
\<close>
definition importType :: "importer \<Rightarrow> env \<Rightarrow> ctype \<Rightarrow> ImportTypeKind \<Rightarrow> stype option imp" where
  "importType rec E t kind =
     (case t of
        OpaqueType n \<Rightarrow> ret (importOtherType E t kind)
      | TagDeclType tag \<Rightarrow>
          bnd (nonNull (getCDecl E tag)) (\<lambda>cd.
            let viaDecl =
                  orNull (rec (ImportDeclReq (Some tag))) (\<lambda>r.
                    bnd (getDecl r) (\<lambda>d.
                      ret (if isTypeDecl d then Some (NominalType r) else None)))
            in case declKind cd of
                 EnumDecl ei \<Rightarrow>
                   (case classifyEnum E cd ei of
                      Constants \<Rightarrow> ret (importOtherType E (enum_integerType ei) kind)
                    | Options \<Rightarrow> viaDecl
                    | Enum \<Rightarrow> viaDecl)
               | RecordDecl ri \<Rightarrow> viaDecl
               | _ \<Rightarrow> ret None))"

subsection \<open>Declaration contexts\<close>

definition importDeclContext :: "importer \<Rightarrow> env \<Rightarrow> cdeclctx \<Rightarrow> sdeclctx option imp" where
  "importDeclContext rec E dc =
     (if isTranslationUnit dc then ret (map_option ModuleContext (firstClangModule E))
      else
        (case asNamedDecl dc of
           None \<Rightarrow> ret None
         | Some decl \<Rightarrow>
             orNull (rec (ImportDeclReq (Some decl))) (\<lambda>swiftDecl.
               bnd (getDecl swiftDecl) (\<lambda>d.
                 if isNominalTypeDecl d \<or> d_kind d = DeclKind_Extension
                    \<or> d_kind d = DeclKind_Constructor \<or> d_kind d = DeclKind_Destructor
                 then ret (Some (DeclContextOf swiftDecl))
                 else ret None))))"

definition importDeclContextOf :: "importer \<Rightarrow> env \<Rightarrow> cdecl_id \<Rightarrow> cdecl \<Rightarrow> sdeclctx option imp" where
  "importDeclContextOf rec E D cd =
     (let DC = declContext cd in
      if isTranslationUnit DC then
        (case getClangModuleForDecl E D of
           Some M \<Rightarrow> ret (Some (ModuleContext M))
         | None \<Rightarrow> importDeclContext rec E DC)
      else importDeclContext rec E DC)"


subsection \<open>Constants and value constructors\<close>

datatype ConstantConvertKind = ConvertKind_None | Construction | Coerce | Downcast

text \<open>
  A \<open>clang::APValue\<close>: an integer, a floating-point value (whether it is
  finite, and what \<open>toString\<close> prints for it), or a value of another kind.
\<close>
datatype APValue = APValue_Int int | APValue_Float bool string | APValue_Other

fun natToString :: "nat \<Rightarrow> string" where
  "natToString n =
     (if n < 10 then [''0123456789'' ! n]
      else natToString (n div 10) @ [''0123456789'' ! (n mod 10)])"

declare natToString.simps [simp del]

text \<open>\<open>APInt::toString\<close> in radix 10, signed.\<close>
definition intToString :: "int \<Rightarrow> string" where
  "intToString v = (if v < 0 then CHR ''-'' # natToString (nat (- v)) else natToString (nat v))"

text \<open>The results of a lookup that have a value declaration that is a function.\<close>
fun foundFuncDecls :: "decl_ref option list \<Rightarrow> decl_ref list imp" where
  "foundFuncDecls [] = ret []"
| "foundFuncDecls (None # rs) = foundFuncDecls rs"
| "foundFuncDecls (Some r # rs) =
     bnd (getDecl r) (\<lambda>d.
       bnd (foundFuncDecls rs) (\<lambda>found.
         ret (if isFuncDecl d then r # found else found)))"

text \<open>
  The literal of \<open>createConstant\<close>: the printed value without its sign, negated
  through the functions named \<open>-\<close> when the value is negative; null when the
  lookup of \<open>-\<close> fails or finds no function.
\<close>
definition literalExpr :: "env \<Rightarrow> APValue \<Rightarrow> expr option imp" where
  "literalExpr E v =
     (case v of
        APValue_Other \<Rightarrow> abort
      | APValue_Float isFinite printed \<Rightarrow>
          (if \<not> isFinite then abort
           else
             (case printed of
                [] \<Rightarrow> abort
              | c # cs \<Rightarrow>
                  if c \<noteq> CHR ''-'' then ret (Some (FloatLiteralExpr printed))
                  else if unqualifiedLookup E ''-'' = [] then ret None
                  else
                    bnd (foundFuncDecls (unqualifiedLookup E ''-'')) (\<lambda>found.
                      if found = [] then ret None
                      else ret (Some (PrefixUnaryExpr
                             (if length found = 1 then DeclRefExpr (hd found)
                              else OverloadedDeclRefExpr found)
                             (FloatLiteralExpr cs))))))
      | APValue_Int i \<Rightarrow>
          (case intToString i of
             [] \<Rightarrow> abort
           | c # cs \<Rightarrow>
               if c \<noteq> CHR ''-'' then ret (Some (IntegerLiteralExpr (intToString i)))
               else if unqualifiedLookup E ''-'' = [] then ret None
               else
                 bnd (foundFuncDecls (unqualifiedLookup E ''-'')) (\<lambda>found.
                   if found = [] then ret None
                   else ret (Some (PrefixUnaryExpr
                          (if length found = 1 then DeclRefExpr (hd found)
                           else OverloadedDeclRefExpr found)
                          (IntegerLiteralExpr cs))))))"

definition convertExpr :: "ConstantConvertKind \<Rightarrow> stype \<Rightarrow> expr \<Rightarrow> expr" where
  "convertExpr convertKind type e =
     (case convertKind of
        ConvertKind_None \<Rightarrow> e
      | Construction \<Rightarrow> CallExpr (MetatypeExpr (MetaTypeType type)) e
      | Coerce \<Rightarrow> e
      | Downcast \<Rightarrow> DowncastExpr e type)"

text \<open>The curried function type over the types of the argument patterns.\<close>
definition curriedType :: "pattern list \<Rightarrow> stype \<Rightarrow> stype" where
  "curriedType args res = foldr (\<lambda>p t. FunctionType (patternType p) t) args res"

definition emptyTuplePattern :: pattern where
  "emptyTuplePattern = TuplePattern [] (TupleType [])"

definition createConstant ::
    "env \<Rightarrow> ident \<Rightarrow> sdeclctx \<Rightarrow> stype \<Rightarrow> APValue \<Rightarrow> ConstantConvertKind \<Rightarrow> decl_ref option imp" where
  "createConstant E name dc type v convertKind =
     bnd (newDecl ((mkDecl DeclKind_Var name (Some dc))\<lparr>d_type := Some type\<rparr>)) (\<lambda>var.
     bnd (newDecl ((mkDecl DeclKind_Func [] (Some dc))
            \<lparr>d_type := Some (curriedType [emptyTuplePattern] type),
             d_argPatterns := [emptyTuplePattern], d_bodyPatterns := [emptyTuplePattern],
             d_resultType := Some type\<rparr>)) (\<lambda>func.
     bnd (setPatternContexts func) (\<lambda>_.
     orNull (literalExpr E v) (\<lambda>e.
     bnd (updDecl func (\<lambda>d. d\<lparr>d_body := Some [ReturnStmt (convertExpr convertKind type e)],
                               d_accessorOf := Some var\<rparr>)) (\<lambda>_.
     bnd (updDecl var (\<lambda>d. d\<lparr>d_isComputed := True, d_getter := Some func,
                              d_setter := None\<rparr>)) (\<lambda>_.
     bnd (addedExternalDecl func) (\<lambda>_.
     ret (Some var))))))))"

text \<open>The stored variables among the members, with their types.\<close>
fun storedVars :: "decl_ref list \<Rightarrow> (decl_ref \<times> ident \<times> stype) list imp" where
  "storedVars [] = ret []"
| "storedVars (m # ms) =
     bnd (getDecl m) (\<lambda>d.
       bnd (storedVars ms) (\<lambda>vs.
         if d_kind d = DeclKind_Var \<and> \<not> d_isComputed d
         then bnd (nonNull (d_type d)) (\<lambda>t. ret ((m, d_name d, t) # vs))
         else ret vs))"

text \<open>\<open>createValueConstructor\<close>: a constructor that initializes a struct from its members.\<close>
definition createValueConstructor :: "decl_ref \<Rightarrow> decl_ref list \<Rightarrow> decl_ref imp" where
  "createValueConstructor structDecl members =
     bnd (storedVars members) (\<lambda>vars.
     bnd (newDecl (mkDecl DeclKind_Constructor ''init'' (Some (DeclContextOf structDecl)))) (\<lambda>constructor.
       let selfType = NominalType structDecl;
           selfMetaType = MetaTypeType selfType;
           here = Some (DeclContextOf constructor);
           selfDecl = \<lparr>v_name = ''self'', v_type = selfType, v_context = here\<rparr>;
           params = map (\<lambda>(m, n, t). \<lparr>v_name = n, v_type = t, v_context = here\<rparr>) vars;
           paramTy = TupleType (map (\<lambda>(m, n, t). (t, n)) vars);
           paramPattern =
             TuplePattern (map (\<lambda>p. TypedPattern (NamedPattern p (v_type p)) (v_type p)) params)
               paramTy;
           fnTy = FunctionType paramTy selfType;
           stmts = map (\<lambda>((m, n, t), p).
                      AssignExpr (MemberRefExpr (VarRefExpr selfDecl) m) (VarRefExpr p))
                    (zip vars params)
       in
       bnd (updDecl constructor (\<lambda>d.
              d\<lparr>d_argPatterns := [paramPattern], d_bodyPatterns := [paramPattern],
                d_selfDecl := Some selfDecl,
                d_type := Some (FunctionType selfMetaType fnTy),
                d_initializerType := Some (FunctionType selfType fnTy),
                d_body := Some stmts\<rparr>)) (\<lambda>_.
       bnd (addedExternalDecl constructor) (\<lambda>_.
       ret constructor))))"


subsection \<open>The converter: typedefs, enums, records, fields, functions, variables\<close>

text \<open>
  A \<open>Visit...\<close> method that can set the converter's \<open>forwardDeclaration\<close> flag
  returns the declaration together with the flag; the other methods never set
  it.
\<close>

definition insertSpecialTypedefName :: "cdecl_id \<Rightarrow> unit imp" where
  "insertSpecialTypedefName d =
     (\<lambda>s. Some ((), s\<lparr>SpecialTypedefNames := List.insert d (SpecialTypedefNames s)\<rparr>))"

text \<open>\<open>SwiftType->castTo<StructType>()->getDecl()\<close>\<close>
definition structDeclOfType :: "stype \<Rightarrow> decl_ref imp" where
  "structDeclOfType t =
     (case t of
        NominalType r \<Rightarrow>
          bnd (getDecl r) (\<lambda>d. if d_kind d = DeclKind_Struct then ret r else abort)
      | _ \<Rightarrow> abort)"

text \<open>
  The end of \<open>VisitTypedefNameDecl\<close>: translate the underlying type unless a
  standard library type was found, and make the type alias (whose underlying
  type is kept in \<open>d_resultType\<close>).
\<close>
definition makeTypeAlias ::
    "importer \<Rightarrow> env \<Rightarrow> ctype \<Rightarrow> ident \<Rightarrow> sdeclctx \<Rightarrow> stype option \<Rightarrow> decl_ref option imp" where
  "makeTypeAlias rec E underlying Name DC found =
     orNull (case found of
               Some t \<Rightarrow> ret (Some t)
             | None \<Rightarrow> importType rec E underlying Normal) (\<lambda>SwiftType.
       bnd (newDecl ((mkDecl DeclKind_TypeAlias Name (Some DC))\<lparr>d_resultType := Some SwiftType\<rparr>))
         (\<lambda>r. ret (Some r)))"

definition VisitTypedefNameDecl ::
    "importer \<Rightarrow> env \<Rightarrow> cdecl_id \<Rightarrow> cdecl \<Rightarrow> ctype \<Rightarrow> decl_ref option imp" where
  "VisitTypedefNameDecl rec E Decl cd underlying =
     (let Name = importName E (declName cd) [] in
      if Name = [] then ret None
      else
        orNull (importDeclContextOf rec E Decl cd) (\<lambda>DC.
          if isTranslationUnit (getRedeclContext (declContext cd)) then
            bnd (nonNull (getSwiftStdlibType E underlying Name)) (\<lambda>((SwiftType, StdlibTypeName), IsError).
              if IsError then ret None
              else
                (case SwiftType of
                   None \<Rightarrow> makeTypeAlias rec E underlying Name DC None
                 | Some st \<Rightarrow>
                     bnd (insertSpecialTypedefName Decl) (\<lambda>_.
                       if Name = StdlibTypeName
                       then bnd (structDeclOfType st) (\<lambda>r. ret (Some r))
                       else makeTypeAlias rec E underlying Name DC (Some st))))
          else makeTypeAlias rec E underlying Name DC None))"

text \<open>Import each declaration of the list and keep the results that are not null.\<close>
fun importEach :: "importer \<Rightarrow> cdecl_id list \<Rightarrow> decl_ref list imp" where
  "importEach rec [] = ret []"
| "importEach rec (x # xs) =
     bnd (rec (ImportDeclReq (Some x))) (\<lambda>ood.
       bnd (importEach rec xs) (\<lambda>members.
         ret (case ood of None \<Rightarrow> members | Some m \<Rightarrow> m # members)))"

text \<open>
  \<open>VisitEnumDecl\<close> for the \<open>Options\<close> kind, up to the struct with its members:
  the struct, the variable \<open>value\<close> of the underlying type, its pattern
  binding (the pattern is kept in \<open>d_argPatterns\<close>) and the value constructor.
\<close>
definition makeOptionsStruct ::
    "importer \<Rightarrow> env \<Rightarrow> enum_info \<Rightarrow> ident \<Rightarrow> sdeclctx \<Rightarrow> decl_ref option imp" where
  "makeOptionsStruct rec E ei name dc =
     bnd (newDecl (mkDecl DeclKind_Struct name (Some dc))) (\<lambda>structDecl.
     bnd (computeType structDecl) (\<lambda>_.
     orNull (importType rec E (enum_integerType ei) Normal) (\<lambda>underlyingType.
     bnd (newDecl ((mkDecl DeclKind_Var ''value'' (Some (DeclContextOf structDecl)))
            \<lparr>d_type := Some underlyingType\<rparr>)) (\<lambda>var.
       let varPattern =
             TypedPattern
               (NamedPattern \<lparr>v_name = ''value'', v_type = underlyingType,
                              v_context = Some (DeclContextOf structDecl)\<rparr> underlyingType)
               underlyingType
       in
       bnd (newDecl ((mkDecl DeclKind_PatternBinding [] (Some (DeclContextOf structDecl)))
              \<lparr>d_argPatterns := [varPattern]\<rparr>)) (\<lambda>patternBinding.
       bnd (createValueConstructor structDecl [var]) (\<lambda>constructor.
       bnd (setMembers structDecl [constructor, patternBinding, var]) (\<lambda>_.
       ret (Some structDecl))))))))"

text \<open>\<open>VisitEnumDecl\<close> once the definition \<open>decl\<close> of the enum is at hand.\<close>
definition VisitEnumDefinition :: "importer \<Rightarrow> env \<Rightarrow> cdecl_id \<Rightarrow> decl_ref option imp" where
  "VisitEnumDefinition rec E decl =
     bnd (nonNull (getCDecl E decl)) (\<lambda>cd.
       case declKind cd of
         EnumDecl ei \<Rightarrow>
           (let name = importTagName E (declName cd) (enum_typedefNameForAnonDecl ei) in
            if name = [] then ret None
            else
              orNull (importDeclContextOf rec E decl cd) (\<lambda>dc.
              orNull (case classifyEnum E cd ei of
                        Constants \<Rightarrow> ret None
                      | Options \<Rightarrow>
                          orNull (makeOptionsStruct rec E ei name dc) (\<lambda>r. ret (Some (r, False)))
                      | Enum \<Rightarrow>
                          bnd (newDecl (mkDecl DeclKind_Enum name (Some dc))) (\<lambda>r.
                            ret (Some (r, True)))) (\<lambda>(result, isEnumDecl).
              bnd (setImportedDecl (canonicalDecl cd) (Some result)) (\<lambda>_.
              bnd (setClangNode result (canonicalDecl cd)) (\<lambda>_.
              bnd (importEach rec (enum_enumerators ei)) (\<lambda>members.
              bnd (if isEnumDecl then setMembers result members else ret ()) (\<lambda>_.
              ret (Some result))))))))
       | _ \<Rightarrow> abort)"

definition VisitEnumDecl :: "importer \<Rightarrow> env \<Rightarrow> enum_info \<Rightarrow> (decl_ref option \<times> bool) imp" where
  "VisitEnumDecl rec E ei =
     (case enum_definition ei of
        None \<Rightarrow> ret (None, True)
      | Some decl \<Rightarrow> bnd (VisitEnumDefinition rec E decl) (\<lambda>r. ret (r, False)))"

text \<open>
  The members of a record: each named declaration that is not the field of an
  anonymous struct or union is imported; the null results are left out.
\<close>
fun importRecordMembers :: "importer \<Rightarrow> env \<Rightarrow> cdecl_id list \<Rightarrow> decl_ref list imp" where
  "importRecordMembers rec E [] = ret []"
| "importRecordMembers rec E (m # ms) =
     bnd (nonNull (getCDecl E m)) (\<lambda>nd.
       if \<not> isNamedDecl (declKind nd) then importRecordMembers rec E ms
       else if (case declKind nd of
                  FieldDecl fi \<Rightarrow> fld_isAnonymousStructOrUnion fi
                | ObjCIvarDecl fi \<Rightarrow> fld_isAnonymousStructOrUnion fi
                | _ \<Rightarrow> False)
       then importRecordMembers rec E ms
       else
         bnd (rec (ImportDeclReq (Some m))) (\<lambda>member.
           bnd (importRecordMembers rec E ms) (\<lambda>members.
             ret (case member of None \<Rightarrow> members | Some x \<Rightarrow> x # members))))"

text \<open>\<open>VisitRecordDecl\<close> once the definition \<open>decl\<close> of the record is at hand.\<close>
definition VisitRecordDefinition :: "importer \<Rightarrow> env \<Rightarrow> cdecl_id \<Rightarrow> decl_ref option imp" where
  "VisitRecordDefinition rec E decl =
     bnd (nonNull (getCDecl E decl)) (\<lambda>cd.
       case declKind cd of
         RecordDecl ri \<Rightarrow>
           (let name = importTagName E (declName cd) (rec_typedefNameForAnonDecl ri) in
            if name = [] then ret None
            else
              orNull (importDeclContextOf rec E decl cd) (\<lambda>dc.
              bnd (newDecl (mkDecl DeclKind_Struct name (Some dc))) (\<lambda>result.
              bnd (computeType result) (\<lambda>_.
              bnd (setImportedDecl (canonicalDecl cd) (Some result)) (\<lambda>_.
              bnd (setClangNode result (canonicalDecl cd)) (\<lambda>_.
              bnd (importRecordMembers rec E (rec_decls ri)) (\<lambda>members.
              bnd (setMembers result members) (\<lambda>_.
              bnd (addedExternalDecl result) (\<lambda>_.
              ret (Some result))))))))))
       | _ \<Rightarrow> abort)"

definition VisitRecordDecl :: "importer \<Rightarrow> env \<Rightarrow> record_info \<Rightarrow> (decl_ref option \<times> bool) imp" where
  "VisitRecordDecl rec E ri =
     (if rec_isUnion ri then ret (None, False)
      else if rec_isInterface ri then ret (None, False)
      else if rec_isAnonymousStructOrUnion ri then ret (None, False)
      else
        (case rec_definition ri of
           None \<Rightarrow> ret (None, True)
         | Some decl \<Rightarrow> bnd (VisitRecordDefinition rec E decl) (\<lambda>r. ret (r, False))))"

text \<open>\<open>cast<clang::EnumDecl>(decl->getDeclContext())\<close>\<close>
definition enumOfContext :: "env \<Rightarrow> cdeclctx \<Rightarrow> (cdecl_id \<times> cdecl \<times> enum_info) imp" where
  "enumOfContext E dc =
     (case dc of
        Ctx k e p \<Rightarrow>
          (if k = Ctx_Enum then
             bnd (nonNull (getCDecl E e)) (\<lambda>ecd.
               case declKind ecd of
                 EnumDecl ei \<Rightarrow> ret (e, ecd, ei)
               | _ \<Rightarrow> abort)
           else abort)
      | TranslationUnit \<Rightarrow> abort)"

text \<open>
  The \<open>Constants\<close> and \<open>Options\<close> cases of \<open>VisitEnumConstantDecl\<close>, which
  differ in the conversion of the constant only: the constant goes into the
  import of the file context that encloses the enum.
\<close>
definition importEnumConstant ::
    "importer \<Rightarrow> env \<Rightarrow> cdecl \<Rightarrow> int \<Rightarrow> ident \<Rightarrow> cdecl_id \<Rightarrow> cdecl
       \<Rightarrow> ConstantConvertKind \<Rightarrow> decl_ref option imp" where
  "importEnumConstant rec E cd initVal name clangEnum ecd convertKind =
     (let clangDC = enclosingFileContext (declContext ecd) in
      orNull (importDeclContext rec E clangDC) (\<lambda>dc.
      orNull (importType rec E (TagDeclType clangEnum) Normal) (\<lambda>type.
      bnd (findImportedDecl (canonicalDecl cd)) (\<lambda>known.
        case known of
          Some k \<Rightarrow> ret k
        | None \<Rightarrow>
            bnd (createConstant E name dc type (APValue_Int initVal) convertKind) (\<lambda>result.
            bnd (setImportedDecl (canonicalDecl cd) result) (\<lambda>_.
            ret result))))))"

text \<open>\<open>cast<EnumDecl>(dc)\<close> on a Swift declaration context.\<close>
definition enumDeclOfContext :: "sdeclctx \<Rightarrow> decl_ref imp" where
  "enumDeclOfContext dc =
     (case dc of
        DeclContextOf r \<Rightarrow>
          bnd (getDecl r) (\<lambda>d. if d_kind d = DeclKind_Enum then ret r else abort)
      | ModuleContext m \<Rightarrow> abort)"

definition VisitEnumConstantDecl ::
    "importer \<Rightarrow> env \<Rightarrow> cdecl_id \<Rightarrow> cdecl \<Rightarrow> int \<Rightarrow> decl_ref option imp" where
  "VisitEnumConstantDecl rec E decl cd initVal =
     (let name = importName E (declName cd) [] in
      if name = [] then ret None
      else
        bnd (enumOfContext E (declContext cd)) (\<lambda>(clangEnum, ecd, ei).
          case classifyEnum E ecd ei of
            Constants \<Rightarrow> importEnumConstant rec E cd initVal name clangEnum ecd Coerce
          | Options \<Rightarrow> importEnumConstant rec E cd initVal name clangEnum ecd Construction
          | Enum \<Rightarrow>
              orNull (importDeclContextOf rec E decl cd) (\<lambda>dc.
              bnd (findImportedDecl (canonicalDecl cd)) (\<lambda>known.
                case known of
                  Some k \<Rightarrow> ret k
                | None \<Rightarrow>
                    bnd (newDecl (mkDecl DeclKind_EnumElement name (Some dc))) (\<lambda>element.
                    bnd (enumDeclOfContext dc) (\<lambda>theEnum.
                    bnd (updDecl element (\<lambda>d.
                           d\<lparr>d_type := Some (FunctionType (MetaTypeType (NominalType theEnum))
                                                  (NominalType theEnum))\<rparr>)) (\<lambda>_.
                    bnd (setImportedDecl (canonicalDecl cd) (Some element)) (\<lambda>_.
                    ret (Some element)))))))))"

text \<open>
  Whether the context of any field of the chain of an indirect field is a
  union.
\<close>
fun chainThroughUnion :: "env \<Rightarrow> cdecl_id list \<Rightarrow> bool imp" where
  "chainThroughUnion E [] = ret False"
| "chainThroughUnion E (f # fs) =
     bnd (nonNull (getCDecl E f)) (\<lambda>fd.
       case declContext fd of
         Ctx k r p \<Rightarrow>
           (if k = Ctx_Record then
              bnd (nonNull (getCDecl E r)) (\<lambda>rd.
                case declKind rd of
                  RecordDecl ri \<Rightarrow>
                    if rec_isUnion ri then ret True else chainThroughUnion E fs
                | _ \<Rightarrow> abort)
            else chainThroughUnion E fs)
       | TranslationUnit \<Rightarrow> chainThroughUnion E fs)"

definition VisitIndirectFieldDecl ::
    "importer \<Rightarrow> env \<Rightarrow> cdecl_id \<Rightarrow> cdecl \<Rightarrow> cdecl_id list \<Rightarrow> ctype \<Rightarrow> decl_ref option imp" where
  "VisitIndirectFieldDecl rec E decl cd chain t =
     bnd (chainThroughUnion E chain) (\<lambda>union.
       if union then ret None
       else
         (let name = importName E (declName cd) [] in
          if name = [] then ret None
          else
            orNull (importType rec E t Normal) (\<lambda>type.
            orNull (importDeclContextOf rec E decl cd) (\<lambda>dc.
            bnd (newDecl ((mkDecl DeclKind_Var name (Some dc))\<lparr>d_type := Some type\<rparr>)) (\<lambda>r.
            ret (Some r))))))"

definition VisitFunctionDecl :: "importer \<Rightarrow> env \<Rightarrow> function_info \<Rightarrow> decl_ref option imp" where
  "VisitFunctionDecl rec E fi0 =
     (let decl = fn_mostRecentDecl fi0 in
      bnd (nonNull (getCDecl E decl)) (\<lambda>cd.
        case declKind cd of
          FunctionDecl fi \<Rightarrow>
            if \<not> fn_hasPrototype fi then ret None
            else if fn_isInlined fi \<or> fn_hasAlwaysInlineAttr fi then ret None
            else
              orNull (importDeclContextOf rec E decl cd) (\<lambda>dc.
                case importFunctionType E (fn_resultType fi) (fn_params fi) (fn_isVariadic fi)
                       None False of
                  None \<Rightarrow> ret None
                | Some (type, argPattern, bodyPattern) \<Rightarrow>
                    bnd (getResult type) (\<lambda>resultTy.
                      let name = importName E (declName cd) [] in
                      if name = [] then ret None
                      else
                        bnd (newDecl ((mkDecl DeclKind_Func name (Some dc))
                               \<lparr>d_type := Some type, d_argPatterns := [argPattern],
                                d_bodyPatterns := [bodyPattern],
                                d_resultType := Some resultTy\<rparr>)) (\<lambda>result.
                        bnd (setPatternContexts result) (\<lambda>_.
                        ret (Some result)))))
        | _ \<Rightarrow> abort))"

definition VisitFieldDecl ::
    "importer \<Rightarrow> env \<Rightarrow> cdecl_id \<Rightarrow> cdecl \<Rightarrow> field_info \<Rightarrow> decl_ref option imp" where
  "VisitFieldDecl rec E decl cd fi =
     (let name = importName E (declName cd) [] in
      if name = [] then ret None
      else
        orNull (importType rec E (fld_type fi) Normal) (\<lambda>type.
        orNull (importDeclContextOf rec E decl cd) (\<lambda>dc.
        bnd (newDecl ((mkDecl DeclKind_Var name (Some dc))
               \<lparr>d_type := Some type,
                d_attrs := (if fld_hasIBOutletAttr fi then [''IBOutlet''] else [])\<rparr>)) (\<lambda>result.
        ret (Some result)))))"

definition VisitVarDecl ::
    "importer \<Rightarrow> env \<Rightarrow> cdecl_id \<Rightarrow> cdecl \<Rightarrow> ctype \<Rightarrow> decl_ref option imp" where
  "VisitVarDecl rec E decl cd t =
     (if isRecord (declContext cd) then ret None
      else
        (let name = importName E (declName cd) [] in
         if name = [] then ret None
         else
           orNull (importType rec E t Normal) (\<lambda>type.
           orNull (importDeclContextOf rec E decl cd) (\<lambda>dc.
           bnd (newDecl ((mkDecl DeclKind_Var name (Some dc))\<lparr>d_type := Some type\<rparr>)) (\<lambda>r.
           ret (Some r))))))"


subsection \<open>Special members: thunks, subscripts, constructors\<close>

text \<open>
  Modelled from the spec: the four subscripting selectors of the importer
  (\<open>Impl.objectAtIndexedSubscript\<close> and its siblings are initialised in
  ClangImporter.cpp, which is not under src/): get-by-index, set-by-index,
  get-by-key and set-by-key.
\<close>
definition objectAtIndexedSubscript :: selector where
  "objectAtIndexedSubscript = Selector [Some ''objectAtIndexedSubscript''] 1"

definition setObjectAtIndexedSubscript :: selector where
  "setObjectAtIndexedSubscript = Selector [Some ''setObject'', Some ''atIndexedSubscript''] 2"

definition objectForKeyedSubscript :: selector where
  "objectForKeyedSubscript = Selector [Some ''objectForKeyedSubscript''] 1"

definition setObjectForKeyedSubscript :: selector where
  "setObjectForKeyedSubscript = Selector [Some ''setObject'', Some ''forKeyedSubscript''] 2"

text \<open>\<open>dyn_cast_or_null<clang::ObjCMethodDecl>(decl->getClangDecl())\<close>\<close>
definition objcMethodOfDecl :: "env \<Rightarrow> decl_ref \<Rightarrow> (cdecl_id \<times> cdecl \<times> method_info) option imp" where
  "objcMethodOfDecl E decl =
     bnd (getDecl decl) (\<lambda>d.
       case d_clangNode d of
         None \<Rightarrow> ret None
       | Some c \<Rightarrow>
           bnd (nonNull (getCDecl E c)) (\<lambda>cd.
             case declKind cd of
               ObjCMethodDecl mi \<Rightarrow> ret (Some (c, cd, mi))
             | _ \<Rightarrow> ret None))"

text \<open>\<open>addImplicitSelfParameter\<close>: the pattern of the implicit \<open>self\<close>.\<close>
definition implicitSelfPattern :: "env \<Rightarrow> stype \<Rightarrow> pattern" where
  "implicitSelfPattern E selfTy =
     TypedPattern
       (NamedPattern \<lparr>v_name = ''self'', v_type = selfTy,
                      v_context = map_option ModuleContext (firstClangModule E)\<rparr> selfTy)
       selfTy"

text \<open>The tuple pattern of one element around the (cloned) pattern.\<close>
definition singleTuplePattern :: "pattern \<Rightarrow> pattern" where
  "singleTuplePattern p = TuplePattern [p] (TupleType [(patternType p, getBoundName p)])"

definition buildGetterThunk :: "env \<Rightarrow> decl_ref \<Rightarrow> sdeclctx \<Rightarrow> pattern option \<Rightarrow> decl_ref imp" where
  "buildGetterThunk E getter dc indices =
     bnd (getDecl getter) (\<lambda>g.
     bnd (nonNull (d_type g)) (\<lambda>gt.
     bnd (getResult gt) (\<lambda>inner.
     bnd (getResult inner) (\<lambda>elementTy.
     bnd (getDeclaredTypeOfContext dc) (\<lambda>selfTyOpt.
     bnd (nonNull selfTyOpt) (\<lambda>selfTy.
       let getterArgs =
             [implicitSelfPattern E selfTy]
             @ (case indices of None \<Rightarrow> [] | Some i \<Rightarrow> [singleTuplePattern i])
             @ [emptyTuplePattern]
       in
       bnd (newDecl ((mkDecl DeclKind_Func [] (d_context g))
              \<lparr>d_type := Some (curriedType getterArgs elementTy),
               d_argPatterns := getterArgs, d_bodyPatterns := getterArgs,
               d_resultType := Some elementTy\<rparr>)) (\<lambda>thunk.
       bnd (setPatternContexts thunk) (\<lambda>_.
       bnd (updDecl thunk (\<lambda>d. d\<lparr>d_isObjC := True\<rparr>)) (\<lambda>_.
       ret thunk)))))))))"

text \<open>\<open>cast<TuplePattern>(decl->getBodyParamPatterns()[1])\<close>: the fields of the tuple.\<close>
definition secondTupleFields :: "pattern list \<Rightarrow> pattern list option" where
  "secondTupleFields ps =
     (case ps of
        p0 # TuplePattern elts t # rest \<Rightarrow> Some elts
      | _ \<Rightarrow> None)"

definition buildSetterThunk :: "env \<Rightarrow> decl_ref \<Rightarrow> sdeclctx \<Rightarrow> pattern option \<Rightarrow> decl_ref imp" where
  "buildSetterThunk E setter dc indices =
     bnd (getDecl setter) (\<lambda>sd.
     bnd (nonNull (secondTupleFields (d_bodyPatterns sd))) (\<lambda>elts.
     bnd (getDeclaredTypeOfContext dc) (\<lambda>selfTyOpt.
     bnd (nonNull selfTyOpt) (\<lambda>selfTy.
       case elts of
         [] \<Rightarrow> abort
       | valuePattern # others \<Rightarrow>
           (let setterArgs =
                  [implicitSelfPattern E selfTy]
                  @ (case indices of None \<Rightarrow> [] | Some i \<Rightarrow> [singleTuplePattern i])
                  @ [singleTuplePattern valuePattern]
            in
            bnd (newDecl ((mkDecl DeclKind_Func [] (Some dc))
                   \<lparr>d_type := Some (curriedType setterArgs (TupleType [])),
                    d_argPatterns := setterArgs, d_bodyPatterns := setterArgs,
                    d_resultType := Some (TupleType [])\<rparr>)) (\<lambda>thunk.
            bnd (setPatternContexts thunk) (\<lambda>_.
            bnd (updDecl thunk (\<lambda>d. d\<lparr>d_isObjC := True\<rparr>)) (\<lambda>_.
            ret thunk))))))))"

text \<open>\<open>Impl.Subscripts[{getter, setter}]\<close>: null when the pair has no entry.\<close>
definition findSubscript :: "decl_ref option \<times> decl_ref option \<Rightarrow> decl_ref option imp" where
  "findSubscript k = (\<lambda>s. Some (map_of (Subscripts s) k, s))"

definition setSubscript :: "decl_ref option \<times> decl_ref option \<Rightarrow> decl_ref \<Rightarrow> unit imp" where
  "setSubscript k r = (\<lambda>s. Some ((), s\<lparr>Subscripts := (k, r) # Subscripts s\<rparr>))"

text \<open>\<open>cast<FuncDecl>(decl)\<close>\<close>
definition castFuncDecl :: "decl_ref \<Rightarrow> decl_ref imp" where
  "castFuncDecl r = bnd (getDecl r) (\<lambda>d. if isFuncDecl d then ret r else abort)"

text \<open>
  The counterpart of a subscript accessor: the instance method with the
  selector is looked up on the interface and imported as a function.
\<close>
definition importCounterpart ::
    "importer \<Rightarrow> env \<Rightarrow> cdecl_id \<Rightarrow> selector \<Rightarrow> (decl_ref \<times> bool) option imp" where
  "importCounterpart rec E interface sel =
     (case lookupMethod E interface sel True of
        None \<Rightarrow> ret None
      | Some objcMethod \<Rightarrow>
          bnd (rec (ImportDeclReq (Some objcMethod))) (\<lambda>r.
          bnd (castOrNullDecl isFuncDecl r) (\<lambda>f.
            case f of
              None \<Rightarrow> ret None
            | Some x \<Rightarrow> bnd (getDecl x) (\<lambda>d. ret (Some (x, d_isStatic d))))))"

text \<open>
  The first part of \<open>importSubscript\<close>: the getter and the setter of the
  subscript; the outer \<open>None\<close> is \<open>return nullptr\<close>.
\<close>
definition subscriptAccessors ::
    "importer \<Rightarrow> env \<Rightarrow> decl_ref \<Rightarrow> cdecl_id \<Rightarrow> selector
       \<Rightarrow> (decl_ref \<times> decl_ref option) option imp" where
  "subscriptAccessors rec E decl interface sel =
     (let asGetter = (\<lambda>setterSel.
            bnd (castFuncDecl decl) (\<lambda>getter.
            bnd (importCounterpart rec E interface setterSel) (\<lambda>c.
              case c of
                None \<Rightarrow> ret (Some (getter, None))
              | Some (setter, static) \<Rightarrow>
                  ret (Some (getter, if static then None else Some setter)))));
          asSetter = (\<lambda>getterSel.
            bnd (castFuncDecl decl) (\<lambda>setter.
            bnd (importCounterpart rec E interface getterSel) (\<lambda>c.
              case c of
                None \<Rightarrow> ret None
              | Some (getter, static) \<Rightarrow>
                  if static then ret None else ret (Some (getter, Some setter)))))
      in
      if sel = objectAtIndexedSubscript then asGetter setObjectAtIndexedSubscript
      else if sel = setObjectAtIndexedSubscript then asSetter objectAtIndexedSubscript
      else if sel = objectForKeyedSubscript then asGetter setObjectForKeyedSubscript
      else if sel = setObjectForKeyedSubscript then asSetter objectForKeyedSubscript
      else abort)"

text \<open>
  The form of the setter: \<open>Some None\<close> without a setter, \<open>Some (Some indices)\<close>
  for a setter that matches the getter, \<open>None\<close> for \<open>return nullptr\<close>.
\<close>
definition checkSetterForm ::
    "decl_ref option \<Rightarrow> stype \<Rightarrow> pattern \<Rightarrow> pattern option option imp" where
  "checkSetterForm setter elementTy getterIndices =
     (case setter of
        None \<Rightarrow> ret (Some None)
      | Some st \<Rightarrow>
          bnd (getDecl st) (\<lambda>sd.
            case d_bodyPatterns sd of
              p0 # TuplePattern elts t # rest \<Rightarrow>
                (case elts of
                   [valuePattern, setterIndices] \<Rightarrow>
                     if elementTy \<noteq> patternType valuePattern then ret None
                     else if patternType setterIndices \<noteq> patternType getterIndices then ret None
                     else ret (Some (Some setterIndices))
                 | _ \<Rightarrow> ret None)
            | p0 # p1 # rest \<Rightarrow> ret None
            | _ \<Rightarrow> abort))"

text \<open>The subscripts among the results of the lookup: the first whose unlabeled index type matches.\<close>
fun findOverriddenSubscript :: "env \<Rightarrow> stype \<Rightarrow> decl_ref list \<Rightarrow> decl_ref option imp" where
  "findOverriddenSubscript E unlabeledIndices [] = ret None"
| "findOverriddenSubscript E unlabeledIndices (r # rs) =
     bnd (getDecl r) (\<lambda>parentSub.
       if \<not> isSubscriptDecl parentSub then findOverriddenSubscript E unlabeledIndices rs
       else
         (case d_argPatterns parentSub of
            [] \<Rightarrow> abort
          | indices # others \<Rightarrow>
              if unlabeledIndices = getUnlabeledType E (patternType indices) then ret (Some r)
              else findOverriddenSubscript E unlabeledIndices rs))"

definition markSubscriptOverride ::
    "decl_ref \<Rightarrow> decl_ref \<Rightarrow> decl_ref option \<Rightarrow> decl_ref \<Rightarrow> unit imp" where
  "markSubscriptOverride subscript getterThunk setterThunk parentSub =
     bnd (setOverriddenDecl subscript parentSub) (\<lambda>_.
     bnd (getDecl parentSub) (\<lambda>pd.
     bnd (case d_getter pd of
            None \<Rightarrow> ret ()
          | Some parentGetter \<Rightarrow> setOverriddenDecl getterThunk parentGetter) (\<lambda>_.
     (case d_setter pd of
        None \<Rightarrow> ret ()
      | Some parentSetter \<Rightarrow>
          (case setterThunk of
             None \<Rightarrow> ret ()
           | Some st \<Rightarrow> setOverriddenDecl st parentSetter)))))"

text \<open>\<open>importSubscript\<close> from the check of the \<open>Subscripts\<close> cache on.\<close>
definition makeSubscript ::
    "env \<Rightarrow> sdeclctx \<Rightarrow> decl_ref \<Rightarrow> decl_ref option \<Rightarrow> decl_ref option imp" where
  "makeSubscript E dc getter setter =
     bnd (findSubscript (Some getter, setter)) (\<lambda>known.
       case known of
         Some subscript \<Rightarrow> ret (Some subscript)
       | None \<Rightarrow>
           bnd (getDecl getter) (\<lambda>g.
           bnd (nonNull (d_type g)) (\<lambda>gt.
           bnd (getResult gt) (\<lambda>inner.
           bnd (getResult inner) (\<lambda>elementTy.
             case d_argPatterns g of
               p0 # TuplePattern elts t # rest \<Rightarrow>
                 (case elts of
                    [getterIndices] \<Rightarrow>
                      orNull (checkSetterForm setter elementTy getterIndices) (\<lambda>setterIndices.
                      bnd (buildGetterThunk E getter dc (Some getterIndices)) (\<lambda>getterThunk.
                      bnd (case setter of
                             None \<Rightarrow> ret None
                           | Some st \<Rightarrow>
                               bnd (buildSetterThunk E st dc setterIndices) (\<lambda>t. ret (Some t)))
                        (\<lambda>setterThunk.
                      bnd (getDecl getterThunk) (\<lambda>gtd.
                      bnd (nonNull (case d_argPatterns gtd of
                                      q0 # q1 # qs \<Rightarrow> Some q1 | _ \<Rightarrow> None)) (\<lambda>cloned.
                        let argPatterns = setVarDeclContext (Some dc) cloned in
                        bnd (newDecl ((mkDecl DeclKind_Subscript ''__subscript'' (Some dc))
                               \<lparr>d_argPatterns := [argPatterns],
                                d_resultType := Some elementTy,
                                d_getter := Some getterThunk, d_setter := setterThunk,
                                d_type := Some (FunctionType (patternType argPatterns) elementTy),
                                d_isObjC := True\<rparr>)) (\<lambda>subscript.
                        bnd (updDecl getterThunk (\<lambda>d. d\<lparr>d_accessorOf := Some subscript\<rparr>)) (\<lambda>_.
                        bnd (case setterThunk of
                               None \<Rightarrow> ret ()
                             | Some st \<Rightarrow> updDecl st (\<lambda>d. d\<lparr>d_accessorOf := Some subscript\<rparr>))
                          (\<lambda>_.
                        bnd (getDeclaredTypeOfContext dc) (\<lambda>containerTy.
                        bnd getState (\<lambda>s.
                        bnd (findOverriddenSubscript E
                               (getUnlabeledType E (patternType argPatterns))
                               (lookupQualified E s containerTy ''__subscript'')) (\<lambda>parent.
                        bnd (case parent of
                               None \<Rightarrow> ret ()
                             | Some parentSub \<Rightarrow>
                                 markSubscriptOverride subscript getterThunk setterThunk parentSub)
                          (\<lambda>_.
                        bnd (setSubscript (Some getter, setter) subscript) (\<lambda>_.
                        bnd (setSubscript (Some getterThunk, None) subscript) (\<lambda>_.
                        ret (Some subscript)))))))))))))))
                  | _ \<Rightarrow> ret None)
             | p0 # p1 # rest \<Rightarrow> abort
             | _ \<Rightarrow> abort)))))"

text \<open>
  \<open>importSubscript\<close>: given either the getter or the setter for a subscript
  operation, create the Swift subscript declaration.
\<close>
definition importSubscript ::
    "importer \<Rightarrow> env \<Rightarrow> decl_ref \<Rightarrow> method_info \<Rightarrow> sdeclctx \<Rightarrow> decl_ref option imp" where
  "importSubscript rec E decl objcMethod dc =
     (if \<not> meth_isInstanceMethod objcMethod then abort
      else
        (case meth_classInterface objcMethod of
           None \<Rightarrow> ret None
         | Some interface \<Rightarrow>
             orNull (subscriptAccessors rec E decl interface (meth_selector objcMethod))
               (\<lambda>(getter, setter). makeSubscript E dc getter setter)))"


text \<open>The selector of \<open>alloc\<close>, a selector without arguments.\<close>
definition allocSel :: selector where
  "allocSel = Selector [Some ''alloc''] 0"

text \<open>
  \<open>importConstructor\<close>: given an imported method, try to import it as a
  constructor. \<open>objcMethod\<close> is the method with its declaration.
\<close>
definition importConstructor ::
    "importer \<Rightarrow> env \<Rightarrow> decl_ref \<Rightarrow> cdecl_id \<Rightarrow> cdecl \<Rightarrow> method_info \<Rightarrow> sdeclctx
       \<Rightarrow> decl_ref option imp" where
  "importConstructor rec E decl objcMethod cd mi dc =
     bnd (getDeclaredTypeOfContext dc) (\<lambda>containerTyOpt.
     bnd (nonNull containerTyOpt) (\<lambda>containerTy.
       if meth_methodFamily mi \<noteq> OMF_init then abort
       else if \<not> isReallyInitMethod mi then abort
       else
         orNull (case declContext cd of
                   Ctx Ctx_ObjCProtocol p parent \<Rightarrow>
                     (case containerTy of
                        NominalType c \<Rightarrow>
                          bnd (getDecl c) (\<lambda>classDecl.
                            if \<not> isClassDecl classDecl then ret None
                            else
                              (case d_clangNode classDecl of
                                 None \<Rightarrow> ret None
                               | Some n \<Rightarrow>
                                   bnd (nonNull (getCDecl E n)) (\<lambda>nd.
                                     case declKind nd of
                                       ObjCInterfaceDecl ci \<Rightarrow> ret (Some n)
                                     | _ \<Rightarrow> ret None)))
                      | _ \<Rightarrow> ret None)
                 | _ \<Rightarrow> ret (meth_classInterface mi)) (\<lambda>interface.
         orNull (ret (lookupMethod E interface allocSel False)) (\<lambda>allocMethod.
         orNull (bnd (rec (ImportDeclReq (Some allocMethod))) (castOrNullDecl isFuncDecl)) (\<lambda>alloc.
         bnd (getDecl decl) (\<lambda>declD.
         bnd (getSelfTypeForContext dc) (\<lambda>selfTyOpt.
         bnd (nonNull selfTyOpt) (\<lambda>selfTy.
           let selfMetaTy = MetaTypeType selfTy;
               selfPat = implicitSelfPattern E selfMetaTy
           in
           bnd (nonNull (importFunctionType E (meth_resultType mi) (meth_params mi)
                           (meth_isVariadic mi) (Some (meth_selector mi)) True))
             (\<lambda>(type0, argPattern, bodyPattern).
           bnd (getInput type0) (\<lambda>input.
             let type = FunctionType input selfTy;
                 allocType = FunctionType selfMetaTy type;
                 initType = FunctionType selfTy type
             in
             bnd (newDecl ((mkDecl DeclKind_Constructor ''init'' (Some dc))
                    \<lparr>d_argPatterns := [argPattern], d_bodyPatterns := [bodyPattern],
                     d_type := Some allocType, d_initializerType := Some initType,
                     d_isObjC := True, d_clangNode := Some objcMethod\<rparr>)) (\<lambda>result.
             bnd (setPatternContexts result) (\<lambda>_.
             bnd (updDecl result (\<lambda>d.
                    d\<lparr>d_selfDecl := Some \<lparr>v_name = ''self'', v_type = selfTy,
                                          v_context = Some (DeclContextOf result)\<rparr>,
                      d_allocSelfExpr :=
                        Some (DowncastExpr
                                (CallExpr (DotSyntaxCallExpr (DeclRefExpr alloc)
                                             (MetatypeExpr selfMetaTy))
                                          (TupleExpr []))
                                selfTy)\<rparr>)) (\<lambda>_.
             bnd (addedExternalDecl result) (\<lambda>_.
             ret (Some result)))))))))))))))"

text \<open>
  \<open>importSpecialMethod\<close>: given an imported method, try to import it as some
  kind of special declaration, a constructor or a subscript.
\<close>
definition importSpecialMethod ::
    "importer \<Rightarrow> env \<Rightarrow> decl_ref \<Rightarrow> sdeclctx \<Rightarrow> decl_ref option imp" where
  "importSpecialMethod rec E decl dc =
     orNull (objcMethodOfDecl E decl) (\<lambda>(objcMethod, cd, mi).
       case meth_methodFamily mi of
         OMF_None \<Rightarrow>
           if meth_isInstanceMethod mi
              \<and> (meth_selector mi = objectAtIndexedSubscript
                 \<or> meth_selector mi = setObjectAtIndexedSubscript
                 \<or> meth_selector mi = objectForKeyedSubscript
                 \<or> meth_selector mi = setObjectForKeyedSubscript)
           then importSubscript rec E decl mi dc
           else ret None
       | OMF_init \<Rightarrow>
           if isReallyInitMethod mi then importConstructor rec E decl objcMethod cd mi dc
           else ret None
       | _ \<Rightarrow> ret None)"

subsection \<open>The converter: Objective-C methods\<close>

text \<open>
  The method that an Objective-C method overrides: the superclass of the class
  type of \<open>self\<close> is looked up for a method with the same selector, and the
  method found there is imported (mirrored, when it comes from a protocol).
\<close>
definition importOverriddenMethod ::
    "importer \<Rightarrow> env \<Rightarrow> stype \<Rightarrow> method_info \<Rightarrow> decl_ref option imp" where
  "importOverriddenMethod rec E selfTy mi =
     (case selfTy of
        NominalType c \<Rightarrow>
          bnd (getDecl c) (\<lambda>classDecl.
            if \<not> isClassDecl classDecl then ret None
            else
              (case d_superclass classDecl of
                 None \<Rightarrow> ret None
               | Some superTy \<Rightarrow>
                   (case superTy of
                      NominalType superDecl \<Rightarrow>
                        bnd (getDecl superDecl) (\<lambda>sd.
                          if \<not> isClassDecl sd then abort
                          else
                            (case d_clangNode sd of
                               None \<Rightarrow> ret None
                             | Some n \<Rightarrow>
                                 bnd (nonNull (getCDecl E n)) (\<lambda>nd.
                                   case declKind nd of
                                     ObjCInterfaceDecl ci \<Rightarrow>
                                       (case lookupMethod E n (meth_selector mi)
                                               (meth_isInstanceMethod mi) of
                                          None \<Rightarrow> ret None
                                        | Some superObjCMethod \<Rightarrow>
                                            bnd (nonNull (getCDecl E superObjCMethod)) (\<lambda>smd.
                                              bnd (case declContext smd of
                                                     Ctx Ctx_ObjCProtocol p parent \<Rightarrow>
                                                       rec (ImportMirroredDeclReq
                                                              (Some superObjCMethod)
                                                              (DeclContextOf superDecl))
                                                   | _ \<Rightarrow>
                                                       rec (ImportDeclReq (Some superObjCMethod)))
                                                (castOrNullDecl isFuncDecl)))
                                   | _ \<Rightarrow> ret None)))
                    | _ \<Rightarrow> abort)))
      | _ \<Rightarrow> ret None)"

text \<open>\<open>VisitObjCMethodDecl(decl, dc)\<close>\<close>
definition VisitObjCMethodDeclIn ::
    "importer \<Rightarrow> env \<Rightarrow> cdecl \<Rightarrow> method_info \<Rightarrow> sdeclctx \<Rightarrow> decl_ref option imp" where
  "VisitObjCMethodDeclIn rec E cd mi dc =
     (let name = importName E (getIdentifierInfoForSlot (meth_selector mi) 0) [] in
      if name = [] then ret None
      else
        bnd (getDeclaredTypeOfContext dc) (\<lambda>declared.
        bnd (nonNull declared) (\<lambda>_.
        bnd (getSelfTypeForContext dc) (\<lambda>selfTyOpt.
        bnd (nonNull selfTyOpt) (\<lambda>selfTy0.
          let selfTy = (if \<not> meth_isInstanceMethod mi then MetaTypeType selfTy0 else selfTy0);
              selfPat = implicitSelfPattern E selfTy
          in
          case importFunctionType E (meth_resultType mi) (meth_params mi) (meth_isVariadic mi)
                 (Some (meth_selector mi)) False of
            None \<Rightarrow> ret None
          | Some (type0, argPattern, bodyPattern) \<Rightarrow>
              bnd (getResult type0) (\<lambda>resultTy.
              bnd (newDecl ((mkDecl DeclKind_Func name (Some dc))
                     \<lparr>d_type := Some (FunctionType selfTy type0),
                      d_argPatterns := [selfPat, argPattern],
                      d_bodyPatterns := [selfPat, bodyPattern],
                      d_resultType := Some resultTy,
                      d_attrs := [''ObjC''], d_isObjC := True,
                      d_isStatic := (\<not> meth_isInstanceMethod mi)\<rparr>)) (\<lambda>result.
              bnd (setPatternContexts result) (\<lambda>_.
              bnd (importOverriddenMethod rec E selfTy mi) (\<lambda>superMethod.
              bnd (case superMethod of
                     None \<Rightarrow> ret ()
                   | Some sm \<Rightarrow> setOverriddenDecl result sm) (\<lambda>_.
              bnd (if meth_hasIBActionAttr mi
                   then updDecl result (\<lambda>d. d\<lparr>d_attrs := d_attrs d @ [''IBAction'']\<rparr>)
                   else ret ()) (\<lambda>_.
              bnd (setClangNode result (canonicalDecl cd)) (\<lambda>_.
              bnd (findImportedDecl (canonicalDecl cd)) (\<lambda>known.
              bnd (if known = None \<or> known = Some None
                   then setImportedDecl (canonicalDecl cd) (Some result)
                   else ret ()) (\<lambda>_.
              bnd (if meth_methodFamily mi \<noteq> OMF_init \<or> \<not> isReallyInitMethod mi
                   then bnd (importSpecialMethod rec E result dc) (\<lambda>_. ret ())
                   else ret ()) (\<lambda>_.
              ret (Some result))))))))))))))))"

text \<open>\<open>VisitObjCMethodDecl(decl)\<close>\<close>
definition VisitObjCMethodDecl ::
    "importer \<Rightarrow> env \<Rightarrow> cdecl_id \<Rightarrow> cdecl \<Rightarrow> method_info \<Rightarrow> decl_ref option imp" where
  "VisitObjCMethodDecl rec E decl cd mi =
     orNull (importDeclContextOf rec E decl cd) (\<lambda>dc. VisitObjCMethodDeclIn rec E cd mi dc)"


subsection \<open>The converter: Objective-C containers and properties\<close>

text \<open>
  \<open>importObjCProtocols\<close>: the implicit protocols of a nominal type, then each
  imported protocol of the Clang list that is not yet known.
\<close>
fun importProtocolList :: "importer \<Rightarrow> cdecl_id list \<Rightarrow> decl_ref list \<Rightarrow> decl_ref list imp" where
  "importProtocolList rec [] protocols = ret protocols"
| "importProtocolList rec (cp # cps) protocols =
     bnd (rec (ImportDeclReq (Some cp))) (\<lambda>r.
     bnd (castOrNullDecl isProtocolDecl r) (\<lambda>proto.
       case proto of
         None \<Rightarrow> importProtocolList rec cps protocols
       | Some p \<Rightarrow>
           if p \<in> set protocols then importProtocolList rec cps protocols
           else importProtocolList rec cps (protocols @ [p])))"

definition importObjCProtocols ::
    "importer \<Rightarrow> env \<Rightarrow> decl_ref \<Rightarrow> cdecl_id list \<Rightarrow> decl_ref list imp" where
  "importObjCProtocols rec E decl clangProtocols =
     bnd (getDecl decl) (\<lambda>d.
     bnd getState (\<lambda>s.
       importProtocolList rec clangProtocols
         (if isNominalTypeDecl d then getImplicitProtocols E s decl else [])))"

text \<open>
  One turn of the loop of \<open>importObjCMembers\<close>, on the declaration \<open>m\<close> of the
  container: the set \<open>knownMembers\<close> and the list \<open>members\<close> after it.
\<close>
definition importObjCMember ::
    "importer \<Rightarrow> env \<Rightarrow> sdeclctx \<Rightarrow> cdecl_id \<Rightarrow> decl_ref list \<times> decl_ref list
       \<Rightarrow> (decl_ref list \<times> decl_ref list) imp" where
  "importObjCMember rec E swiftContext m km =
     (let knownMembers = fst km; members = snd km in
      bnd (nonNull (getCDecl E m)) (\<lambda>nd.
        if \<not> isNamedDecl (declKind nd) then ret (knownMembers, members)
        else
          bnd (rec (ImportDeclReq (Some m))) (\<lambda>imported.
            case imported of
              None \<Rightarrow> ret (knownMembers, members)
            | Some member \<Rightarrow>
                (case declKind nd of
                   ObjCMethodDecl objcMethod \<Rightarrow>
                     bnd (case meth_findPropertyDecl objcMethod of
                            None \<Rightarrow> ret None
                          | Some property \<Rightarrow> rec (ImportDeclReq (Some property))) (\<lambda>prop.
                       if prop \<noteq> None then ret (knownMembers, members)
                       else
                         bnd (importSpecialMethod rec E member swiftContext) (\<lambda>sp.
                           case sp of
                             None \<Rightarrow> ret (knownMembers, members @ [member])
                           | Some special \<Rightarrow>
                               (let known' = List.insert special knownMembers;
                                    members' = (if special \<in> set knownMembers then members
                                                else members @ [special])
                                in
                                bnd (getDecl special) (\<lambda>sd.
                                  if isConstructorDecl sd then ret (known', members')
                                  else ret (known', members' @ [member])))))
                 | _ \<Rightarrow> ret (knownMembers, members @ [member])))))"

fun importObjCMembersLoop ::
    "importer \<Rightarrow> env \<Rightarrow> sdeclctx \<Rightarrow> cdecl_id list \<Rightarrow> decl_ref list \<times> decl_ref list
       \<Rightarrow> (decl_ref list \<times> decl_ref list) imp" where
  "importObjCMembersLoop rec E swiftContext [] km = ret km"
| "importObjCMembersLoop rec E swiftContext (m # ms) km =
     bnd (importObjCMember rec E swiftContext m km) (\<lambda>km'.
       importObjCMembersLoop rec E swiftContext ms km')"

text \<open>
  \<open>importObjCMembers\<close>: import the members of the Objective-C container with
  the declarations \<open>decls\<close> and add them to the list \<open>members\<close>.
\<close>
definition importObjCMembers ::
    "importer \<Rightarrow> env \<Rightarrow> cdecl_id list \<Rightarrow> sdeclctx \<Rightarrow> decl_ref list \<Rightarrow> decl_ref list imp" where
  "importObjCMembers rec E decls swiftContext members =
     bnd (importObjCMembersLoop rec E swiftContext decls ([], members)) (\<lambda>km. ret (snd km))"

text \<open>
  \<open>importMirroredProtocolMembers\<close>: the methods of the protocols that the
  container \<open>decl\<close> does not declare itself are imported into \<open>dc\<close>.
\<close>
fun mirrorMembers ::
    "importer \<Rightarrow> env \<Rightarrow> cdecl_id \<Rightarrow> sdeclctx \<Rightarrow> decl_ref list \<Rightarrow> decl_ref list
       \<Rightarrow> decl_ref list imp" where
  "mirrorMembers rec E decl dc [] members = ret members"
| "mirrorMembers rec E decl dc (member # ms) members =
     bnd (getDecl member) (\<lambda>func.
       if \<not> isFuncDecl func then mirrorMembers rec E decl dc ms members
       else
         bnd (objcMethodOfDecl E member) (\<lambda>om.
           case om of
             None \<Rightarrow> mirrorMembers rec E decl dc ms members
           | Some (objcMethod, cd, mi) \<Rightarrow>
               if getMethod E decl (meth_selector mi) (meth_isInstanceMethod mi) \<noteq> None
               then mirrorMembers rec E decl dc ms members
               else
                 bnd (rec (ImportMirroredDeclReq (Some objcMethod) dc)) (\<lambda>r.
                   case r of
                     None \<Rightarrow> mirrorMembers rec E decl dc ms members
                   | Some imported \<Rightarrow>
                       bnd (importSpecialMethod rec E imported dc) (\<lambda>sp.
                         mirrorMembers rec E decl dc ms
                           (members @ [imported]
                            @ (case sp of None \<Rightarrow> [] | Some special \<Rightarrow> [special]))))))"

fun importMirroredProtocolMembers ::
    "importer \<Rightarrow> env \<Rightarrow> cdecl_id \<Rightarrow> sdeclctx \<Rightarrow> decl_ref list \<Rightarrow> decl_ref list
       \<Rightarrow> decl_ref list imp" where
  "importMirroredProtocolMembers rec E decl dc [] members = ret members"
| "importMirroredProtocolMembers rec E decl dc (proto # protocols) members =
     bnd (getDecl proto) (\<lambda>pd.
     bnd (mirrorMembers rec E decl dc (d_members pd) members) (\<lambda>members'.
       importMirroredProtocolMembers rec E decl dc protocols members'))"

text \<open>\<open>cast<clang::ObjCContainerDecl>\<close> and the like: what Clang holds of a container.\<close>
definition containerOf :: "env \<Rightarrow> cdecl_id \<Rightarrow> container_info imp" where
  "containerOf E c =
     bnd (nonNull (getCDecl E c)) (\<lambda>cd.
       case declKind cd of
         ObjCInterfaceDecl ci \<Rightarrow> ret ci
       | ObjCCategoryDecl ci \<Rightarrow> ret ci
       | ObjCProtocolDecl ci \<Rightarrow> ret ci
       | _ \<Rightarrow> abort)"

text \<open>
  \<open>hasMethodShallow\<close>: whether the class declares the method itself or in one
  of its visible categories.
\<close>
definition hasMethodShallow :: "env \<Rightarrow> selector \<Rightarrow> bool \<Rightarrow> cdecl_id \<Rightarrow> container_info \<Rightarrow> bool" where
  "hasMethodShallow E sel isInstance objcClass ci =
     (getMethod E objcClass sel isInstance \<noteq> None
      \<or> (\<exists>cat \<in> set (oc_visibleCategories ci). getMethod E cat sel isInstance \<noteq> None))"

text \<open>
  The lambda \<open>inheritConstructors\<close> of \<open>importInheritedConstructors\<close>, over the
  declarations of one container: the set \<open>knownSelectors\<close> and the list
  \<open>members\<close> after it.
\<close>
fun inheritConstructors ::
    "importer \<Rightarrow> env \<Rightarrow> cdecl_id \<Rightarrow> container_info \<Rightarrow> sdeclctx \<Rightarrow> cdecl_id list
       \<Rightarrow> selector list \<times> decl_ref list \<Rightarrow> (selector list \<times> decl_ref list) imp" where
  "inheritConstructors rec E objcClass ci dc [] km = ret km"
| "inheritConstructors rec E objcClass ci dc (meth # ms) km =
     bnd (nonNull (getCDecl E meth)) (\<lambda>cd.
       case declKind cd of
         ObjCMethodDecl mi \<Rightarrow>
           if meth_methodFamily mi = OMF_init \<and> isReallyInitMethod mi
              \<and> \<not> hasMethodShallow E (meth_selector mi) (meth_isInstanceMethod mi) objcClass ci
              \<and> meth_selector mi \<notin> set (fst km)
           then
             bnd (rec (ImportDeclReq (Some meth))) (\<lambda>r.
               case r of
                 None \<Rightarrow>
                   inheritConstructors rec E objcClass ci dc ms (meth_selector mi # fst km, snd km)
               | Some imported \<Rightarrow>
                   bnd (importConstructor rec E imported meth cd mi dc) (\<lambda>sp.
                     inheritConstructors rec E objcClass ci dc ms
                       (meth_selector mi # fst km,
                        snd km @ (case sp of None \<Rightarrow> [] | Some special \<Rightarrow> [special]))))
           else inheritConstructors rec E objcClass ci dc ms km
       | _ \<Rightarrow> inheritConstructors rec E objcClass ci dc ms km)"

fun inheritFromContainers ::
    "importer \<Rightarrow> env \<Rightarrow> cdecl_id \<Rightarrow> container_info \<Rightarrow> sdeclctx \<Rightarrow> cdecl_id list
       \<Rightarrow> selector list \<times> decl_ref list \<Rightarrow> (selector list \<times> decl_ref list) imp" where
  "inheritFromContainers rec E objcClass ci dc [] km = ret km"
| "inheritFromContainers rec E objcClass ci dc (c # cs) km =
     bnd (containerOf E c) (\<lambda>cci.
     bnd (inheritConstructors rec E objcClass ci dc (oc_decls cci) km) (\<lambda>km'.
       inheritFromContainers rec E objcClass ci dc cs km'))"

text \<open>
  The walk of \<open>importInheritedConstructors\<close> up the superclasses, from
  \<open>curObjCClass\<close>. The first argument bounds the number of classes visited: a
  walk that does not end within it never ends.
\<close>
primrec inheritFromClasses ::
    "nat \<Rightarrow> importer \<Rightarrow> env \<Rightarrow> cdecl_id \<Rightarrow> container_info \<Rightarrow> sdeclctx \<Rightarrow> cdecl_id option
       \<Rightarrow> selector list \<times> decl_ref list \<Rightarrow> (selector list \<times> decl_ref list) imp" where
  "inheritFromClasses 0 rec E objcClass ci dc cur km =
     (case cur of None \<Rightarrow> ret km | Some c \<Rightarrow> abort)"
| "inheritFromClasses (Suc n) rec E objcClass ci dc cur km =
     (case cur of
        None \<Rightarrow> ret km
      | Some curObjCClass \<Rightarrow>
          bnd (containerOf E curObjCClass) (\<lambda>cci.
          bnd (inheritFromContainers rec E objcClass ci dc
                 (curObjCClass # oc_visibleCategories cci) km) (\<lambda>km'.
            inheritFromClasses n rec E objcClass ci dc (oc_superClass cci) km')))"

definition importInheritedConstructors ::
    "importer \<Rightarrow> env \<Rightarrow> cdecl_id \<Rightarrow> container_info \<Rightarrow> sdeclctx \<Rightarrow> decl_ref list
       \<Rightarrow> decl_ref list imp" where
  "importInheritedConstructors rec E objcClass ci dc members =
     bnd (inheritFromClasses (length (ast E)) rec E objcClass ci dc (Some objcClass) ([], members))
       (\<lambda>km. ret (snd km))"

definition setProtocols :: "decl_ref \<Rightarrow> decl_ref list \<Rightarrow> unit imp" where
  "setProtocols r ps = updDecl r (\<lambda>d. d\<lparr>d_protocols := ps\<rparr>)"

definition VisitObjCCategoryDecl ::
    "importer \<Rightarrow> env \<Rightarrow> cdecl_id \<Rightarrow> cdecl \<Rightarrow> container_info \<Rightarrow> decl_ref option imp" where
  "VisitObjCCategoryDecl rec E decl cd ci =
     orNull (bnd (rec (ImportDeclReq (oc_classInterface ci))) (castOrNullDecl isClassDecl))
       (\<lambda>objcClass.
     orNull (importDeclContextOf rec E decl cd) (\<lambda>dc.
     bnd (newDecl ((mkDecl DeclKind_Extension [] (Some dc))
            \<lparr>d_type := Some (NominalType objcClass)\<rparr>)) (\<lambda>result.
     bnd (updDecl objcClass (\<lambda>d. d\<lparr>d_extensions := d_extensions d @ [result]\<rparr>)) (\<lambda>_.
     bnd (setImportedDecl (canonicalDecl cd) (Some result)) (\<lambda>_.
     bnd (setClangNode result (canonicalDecl cd)) (\<lambda>_.
     bnd (importObjCProtocols rec E result (oc_referencedProtocols ci)) (\<lambda>protocols.
     bnd (setProtocols result protocols) (\<lambda>_.
     bnd (importObjCMembers rec E (oc_decls ci) (DeclContextOf result) []) (\<lambda>members.
     bnd (getDecl result) (\<lambda>rd.
     bnd (importMirroredProtocolMembers rec E decl (DeclContextOf result) (d_protocols rd) members)
       (\<lambda>members'.
     bnd (setMembers result members') (\<lambda>_.
     ret (Some result)))))))))))))"

text \<open>\<open>VisitObjCProtocolDecl\<close> once the definition \<open>decl\<close> of the protocol is at hand.\<close>
definition VisitObjCProtocolDefinition :: "importer \<Rightarrow> env \<Rightarrow> cdecl_id \<Rightarrow> decl_ref option imp" where
  "VisitObjCProtocolDefinition rec E decl =
     bnd (nonNull (getCDecl E decl)) (\<lambda>cd.
       case declKind cd of
         ObjCProtocolDecl ci \<Rightarrow>
           (let name = importName E (declName cd) ''Proto'' in
            if name = [] then ret None
            else
              orNull (importDeclContextOf rec E decl cd) (\<lambda>dc.
              bnd (newDecl (mkDecl DeclKind_Protocol name (Some dc))) (\<lambda>result.
              bnd (computeType result) (\<lambda>_.
              bnd (setImportedDecl (canonicalDecl cd) (Some result)) (\<lambda>_.
              bnd (setClangNode result (canonicalDecl cd)) (\<lambda>_.
              bnd (importObjCProtocols rec E result (oc_referencedProtocols ci)) (\<lambda>protocols.
              bnd (setProtocols result protocols) (\<lambda>_.
              bnd (updDecl result (\<lambda>d.
                     d\<lparr>d_attrs := d_attrs d @ [''ObjC'', ''ClassProtocol''],
                       d_isObjC := True\<rparr>)) (\<lambda>_.
              bnd (newDecl ((mkDecl DeclKind_AssociatedType ''Self'' (Some (DeclContextOf result)))
                     \<lparr>d_isImplicit := True\<rparr>)) (\<lambda>selfDecl.
              bnd (setMembers result [selfDecl]) (\<lambda>_.
              bnd (importObjCMembers rec E (oc_decls ci) (DeclContextOf result) [selfDecl])
                (\<lambda>members.
              bnd (setMembers result members) (\<lambda>_.
              bnd (addedExternalDecl result) (\<lambda>_.
              ret (Some result)))))))))))))))
       | _ \<Rightarrow> abort)"

definition VisitObjCProtocolDecl ::
    "importer \<Rightarrow> env \<Rightarrow> container_info \<Rightarrow> (decl_ref option \<times> bool) imp" where
  "VisitObjCProtocolDecl rec E ci =
     (case oc_definition ci of
        None \<Rightarrow> ret (None, True)
      | Some decl \<Rightarrow> bnd (VisitObjCProtocolDefinition rec E decl) (\<lambda>r. ret (r, False)))"

text \<open>\<open>VisitObjCInterfaceDecl\<close> once the definition \<open>decl\<close> of the class is at hand.\<close>
definition VisitObjCInterfaceDefinition :: "importer \<Rightarrow> env \<Rightarrow> cdecl_id \<Rightarrow> decl_ref option imp" where
  "VisitObjCInterfaceDefinition rec E decl =
     bnd (nonNull (getCDecl E decl)) (\<lambda>cd.
       case declKind cd of
         ObjCInterfaceDecl ci \<Rightarrow>
           (let name = importName E (declName cd) [] in
            if name = [] then ret None
            else
              orNull (importDeclContextOf rec E decl cd) (\<lambda>dc.
              bnd (newDecl (mkDecl DeclKind_Class name (Some dc))) (\<lambda>result.
              bnd (computeType result) (\<lambda>_.
              bnd (setImportedDecl (canonicalDecl cd) (Some result)) (\<lambda>_.
              bnd (setClangNode result (canonicalDecl cd)) (\<lambda>_.
              orNull (case oc_superClass ci of
                        None \<Rightarrow> ret (Some ())
                      | Some objcSuper \<Rightarrow>
                          orNull (bnd (rec (ImportDeclReq (Some objcSuper)))
                                    (castOrNullDecl isClassDecl)) (\<lambda>super.
                          bnd (updDecl result (\<lambda>d. d\<lparr>d_superclass := Some (NominalType super)\<rparr>))
                            (\<lambda>_. ret (Some ())))) (\<lambda>_.
              bnd (importObjCProtocols rec E result (oc_referencedProtocols ci)) (\<lambda>protocols.
              bnd (setProtocols result protocols) (\<lambda>_.
              bnd (updDecl result (\<lambda>d. d\<lparr>d_attrs := d_attrs d @ [''ObjC''], d_isObjC := True\<rparr>))
                (\<lambda>_.
              bnd (importObjCMembers rec E (oc_decls ci) (DeclContextOf result) []) (\<lambda>members.
              bnd (importInheritedConstructors rec E decl ci (DeclContextOf result) members)
                (\<lambda>members'.
              bnd (getDecl result) (\<lambda>rd.
              bnd (importMirroredProtocolMembers rec E decl (DeclContextOf result)
                     (d_protocols rd) members') (\<lambda>members''.
              bnd (setMembers result members'') (\<lambda>_.
              bnd (addedExternalDecl result) (\<lambda>_.
              ret (Some result)))))))))))))))))
       | _ \<Rightarrow> abort)"

definition VisitObjCInterfaceDecl ::
    "importer \<Rightarrow> env \<Rightarrow> container_info \<Rightarrow> (decl_ref option \<times> bool) imp" where
  "VisitObjCInterfaceDecl rec E ci =
     (case oc_definition ci of
        None \<Rightarrow> ret (None, True)
      | Some decl \<Rightarrow> bnd (VisitObjCInterfaceDefinition rec E decl) (\<lambda>r. ret (r, False)))"

text \<open>
  The loop of \<open>VisitObjCPropertyDecl\<close> over the members that have the name of
  the property: \<open>None\<close> when one is a function, else the last variable among
  them.
\<close>
fun propertyLookup :: "decl_ref list \<Rightarrow> decl_ref option \<Rightarrow> decl_ref option option imp" where
  "propertyLookup [] overridden = ret (Some overridden)"
| "propertyLookup (r # rs) overridden =
     bnd (getDecl r) (\<lambda>d.
       if isFuncDecl d then ret None
       else if d_kind d = DeclKind_Var then propertyLookup rs (Some r)
       else propertyLookup rs overridden)"

definition VisitObjCPropertyDecl ::
    "importer \<Rightarrow> env \<Rightarrow> cdecl_id \<Rightarrow> cdecl \<Rightarrow> property_info \<Rightarrow> decl_ref option imp" where
  "VisitObjCPropertyDecl rec E decl cd pi =
     (if (case declContext cd of Ctx k c p \<Rightarrow> k = Ctx_ObjCProtocol | TranslationUnit \<Rightarrow> False)
      then ret None
      else
        orNull (importDeclContextOf rec E decl cd) (\<lambda>dc.
          let name = importName E (declName cd) [] in
          if name = [] then ret None
          else
            bnd (getDeclaredTypeOfContext dc) (\<lambda>containerTy.
            bnd getState (\<lambda>s.
            orNull (propertyLookup (lookupQualified E s containerTy name) None) (\<lambda>overridden.
            orNull (importType rec E (prop_type pi) Property) (\<lambda>type.
            bnd (bnd (rec (ImportDeclReq (prop_getterMethodDecl pi))) (castOrNullDecl isFuncDecl))
              (\<lambda>getter.
              if getter = None \<and> prop_getterMethodDecl pi \<noteq> None then ret None
              else
                bnd (bnd (rec (ImportDeclReq (prop_setterMethodDecl pi)))
                       (castOrNullDecl isFuncDecl)) (\<lambda>setter.
                  if setter = None \<and> prop_setterMethodDecl pi \<noteq> None then ret None
                  else
                    bnd (newDecl ((mkDecl DeclKind_Var name (Some dc))\<lparr>d_type := Some type\<rparr>))
                      (\<lambda>result.
                    bnd (nonNull getter) (\<lambda>g.
                    bnd (buildGetterThunk E g dc None) (\<lambda>getterThunk.
                    bnd (updDecl getterThunk (\<lambda>d. d\<lparr>d_accessorOf := Some result\<rparr>)) (\<lambda>_.
                    bnd (case setter of
                           None \<Rightarrow> ret None
                         | Some st \<Rightarrow>
                             bnd (buildSetterThunk E st dc None) (\<lambda>t.
                             bnd (updDecl t (\<lambda>d. d\<lparr>d_accessorOf := Some result\<rparr>)) (\<lambda>_.
                             ret (Some t)))) (\<lambda>setterThunk.
                    bnd (updDecl result (\<lambda>d.
                           d\<lparr>d_isComputed := True, d_getter := Some getterThunk,
                             d_setter := setterThunk, d_isObjC := True,
                             d_attrs := (if prop_hasIBOutletAttr pi then [''IBOutlet''] else []),
                             d_overridden := overridden\<rparr>)) (\<lambda>_.
                    ret (Some result)))))))))))))))"

subsection \<open>The dispatch of the converter and the entry points of the importer\<close>

text \<open>\<open>converter.Visit(decl)\<close>, with \<open>converter.hadForwardDeclaration()\<close> after it.\<close>
definition Visit :: "importer \<Rightarrow> env \<Rightarrow> cdecl_id \<Rightarrow> (decl_ref option \<times> bool) imp" where
  "Visit rec E decl =
     bnd (nonNull (getCDecl E decl)) (\<lambda>cd.
       let noForward = (\<lambda>m. bnd m (\<lambda>r. ret (r, False))) in
       case declKind cd of
         NeverImported k \<Rightarrow> ret (None, False)
       | TypedefNameDecl t \<Rightarrow> noForward (VisitTypedefNameDecl rec E decl cd t)
       | EnumDecl ei \<Rightarrow> VisitEnumDecl rec E ei
       | RecordDecl ri \<Rightarrow> VisitRecordDecl rec E ri
       | EnumConstantDecl initVal \<Rightarrow> noForward (VisitEnumConstantDecl rec E decl cd initVal)
       | IndirectFieldDecl chain t \<Rightarrow> noForward (VisitIndirectFieldDecl rec E decl cd chain t)
       | FunctionDecl fi \<Rightarrow> noForward (VisitFunctionDecl rec E fi)
       | FieldDecl fi \<Rightarrow> noForward (VisitFieldDecl rec E decl cd fi)
       | ObjCIvarDecl fi \<Rightarrow> noForward (VisitFieldDecl rec E decl cd fi)
       | VarDecl t \<Rightarrow> noForward (VisitVarDecl rec E decl cd t)
       | ObjCMethodDecl mi \<Rightarrow> noForward (VisitObjCMethodDecl rec E decl cd mi)
       | ObjCCategoryDecl ci \<Rightarrow> noForward (VisitObjCCategoryDecl rec E decl cd ci)
       | ObjCProtocolDecl ci \<Rightarrow> VisitObjCProtocolDecl rec E ci
       | ObjCInterfaceDecl ci \<Rightarrow> VisitObjCInterfaceDecl rec E ci
       | ObjCPropertyDecl pi \<Rightarrow> noForward (VisitObjCPropertyDecl rec E decl cd pi))"

text \<open>
  After the conversion: note that the declaration came from Clang (an
  assertion guards the node it already has), unless its context is the Swift
  module.
\<close>
definition noteClangNode :: "env \<Rightarrow> bool \<Rightarrow> cdecl_id \<Rightarrow> decl_ref option \<Rightarrow> unit imp" where
  "noteClangNode E always canon result =
     (case result of
        None \<Rightarrow> ret ()
      | Some r \<Rightarrow>
          bnd (getDecl r) (\<lambda>d.
            if always \<or> d_context d \<noteq> map_option ModuleContext (getSwiftModule E) then
              (if d_clangNode d \<noteq> None \<and> d_clangNode d \<noteq> Some canon then abort
               else setClangNode r canon)
            else ret ()))"

text \<open>The body of \<open>ClangImporter::Implementation::importDecl\<close>.\<close>
definition importDeclBody :: "importer \<Rightarrow> env \<Rightarrow> cdecl_id option \<Rightarrow> decl_ref option imp" where
  "importDeclBody rec E declOpt =
     (case declOpt of
        None \<Rightarrow> ret None
      | Some decl \<Rightarrow>
          bnd (nonNull (getCDecl E decl)) (\<lambda>cd.
          bnd (findImportedDecl (canonicalDecl cd)) (\<lambda>known.
            case known of
              Some k \<Rightarrow> ret k
            | None \<Rightarrow>
                bnd (Visit rec E decl) (\<lambda>(result, hadForwardDeclaration).
                bnd (noteClangNode E False (canonicalDecl cd) result) (\<lambda>_.
                bnd (if result \<noteq> None \<or> \<not> hadForwardDeclaration
                     then setImportedDecl (canonicalDecl cd) result
                     else ret ()) (\<lambda>_.
                ret result))))))"

text \<open>The body of \<open>ClangImporter::Implementation::importMirroredDecl\<close>.\<close>
definition importMirroredDeclBody ::
    "importer \<Rightarrow> env \<Rightarrow> cdecl_id option \<Rightarrow> sdeclctx \<Rightarrow> decl_ref option imp" where
  "importMirroredDeclBody rec E declOpt dc =
     (case declOpt of
        None \<Rightarrow> ret None
      | Some decl \<Rightarrow>
          bnd (nonNull (getCDecl E decl)) (\<lambda>cd.
          bnd getState (\<lambda>s.
            case map_of (ImportedProtocolDecls s) (canonicalDecl cd, dc) of
              Some k \<Rightarrow> ret k
            | None \<Rightarrow>
                (case declKind cd of
                   ObjCMethodDecl mi \<Rightarrow>
                     bnd (VisitObjCMethodDeclIn rec E cd mi dc) (\<lambda>result.
                     bnd (noteClangNode E True (canonicalDecl cd) result) (\<lambda>_.
                     bnd (\<lambda>s'. Some ((), s'\<lparr>ImportedProtocolDecls :=
                                 ((canonicalDecl cd, dc), result) # ImportedProtocolDecls s'\<rparr>))
                       (\<lambda>_.
                     ret result)))
                 | _ \<Rightarrow> abort))))"

text \<open>
  The importer that calls itself back. The first argument bounds the depth of
  the nested calls of \<open>importDecl\<close> and \<open>importMirroredDecl\<close>: a request that
  needs a deeper nesting does not return within the bound (\<open>None\<close>).
\<close>
primrec importer :: "nat \<Rightarrow> env \<Rightarrow> request \<Rightarrow> decl_ref option imp" where
  "importer 0 E = (\<lambda>r. abort)"
| "importer (Suc n) E =
     (\<lambda>r. case r of
        ImportDeclReq decl \<Rightarrow> importDeclBody (importer n E) E decl
      | ImportMirroredDeclReq decl dc \<Rightarrow> importMirroredDeclBody (importer n E) E decl dc)"

definition importDecl :: "nat \<Rightarrow> env \<Rightarrow> cdecl_id option \<Rightarrow> decl_ref option imp" where
  "importDecl n E decl = importer n E (ImportDeclReq decl)"

definition importMirroredDecl ::
    "nat \<Rightarrow> env \<Rightarrow> cdecl_id option \<Rightarrow> sdeclctx \<Rightarrow> decl_ref option imp" where
  "importMirroredDecl n E decl dc = importer n E (ImportMirroredDeclReq decl dc)"

section \<open>Example inputs\<close>

text \<open>
  A translation of names that keeps an identifier as it is and appends the
  suffix, and an environment with an empty Clang AST in which every
  collaborator declines; the examples below change the fields they need.
\<close>
definition exampleImportName :: "string option \<Rightarrow> string \<Rightarrow> ident" where
  "exampleImportName n suffix = (case n of None \<Rightarrow> [] | Some x \<Rightarrow> x @ suffix)"

definition exampleEnv :: env where
  "exampleEnv =
     \<lparr> ast = [], importName = exampleImportName,
       getClangModuleForDecl = (\<lambda>d. None), firstClangModule = Some 0,
       getSwiftModule = Some 1, getNamedModule = (\<lambda>n. None),
       getNamedSwiftType = (\<lambda>m n. None), mappedTypes = [],
       MappedLanguages_All = 1, MappedLanguages_ObjC1 = 1, LangOpts_ObjC1 = True,
       getTypeSize = (\<lambda>t. 0), isUnsignedIntegerType = (\<lambda>t. False),
       isSignedIntegerType = (\<lambda>t. False), isFloatingType = (\<lambda>t. False),
       getFloatTypeSemantics = (\<lambda>t. IEEEdouble), isObjCBuiltinBoolTy = (\<lambda>t. False),
       getAsPointerType = (\<lambda>t. None), isObjCSelBuiltinType = (\<lambda>t. False),
       importOtherType = (\<lambda>t k. None), importFunctionType = (\<lambda>r ps v sel c. None),
       lookupMethod = (\<lambda>c sel i. None), getMethod = (\<lambda>c sel i. None),
       lookupQualified = (\<lambda>s t n. []), unqualifiedLookup = (\<lambda>n. []),
       getUnlabeledType = (\<lambda>t. t), getImplicitProtocols = (\<lambda>s d. []) \<rparr>"

text \<open>The importer's state before anything is imported.\<close>
definition emptyImpl :: impl where
  "emptyImpl =
     \<lparr> arena = [], ImportedDecls = [], ImportedProtocolDecls = [], Subscripts = [],
       SpecialTypedefNames = [], externalDecls = [] \<rparr>"

text \<open>An Objective-C method without parameters, with the selector and kind given.\<close>
definition exampleMethod :: "selector \<Rightarrow> bool \<Rightarrow> method_family \<Rightarrow> method_info" where
  "exampleMethod sel isInstance family =
     \<lparr> meth_selector = sel, meth_isInstanceMethod = isInstance,
       meth_methodFamily = family, meth_resultType = OpaqueType 0, meth_params = [],
       meth_isVariadic = False, meth_hasIBActionAttr = False,
       meth_classInterface = None, meth_findPropertyDecl = None \<rparr>"

text \<open>An enum declaration that is its own definition, and its \<open>EnumDecl\<close> data.\<close>
definition exampleEnumInfo :: "string option \<Rightarrow> cdecl_id list \<Rightarrow> enum_info" where
  "exampleEnumInfo typedefName enumerators =
     \<lparr> enum_definition = None, enum_typedefNameForAnonDecl = typedefName,
       enum_integerType = OpaqueType 0, enum_enumerators = enumerators \<rparr>"

definition exampleDecl :: "string option \<Rightarrow> cdeclctx \<Rightarrow> cdecl_id \<Rightarrow> cdecl_kind \<Rightarrow> cdecl" where
  "exampleDecl n dc canon k =
     \<lparr> declName = n, declContext = dc, canonicalDecl = canon, declKind = k \<rparr>"

text \<open>
  A table of well-known types with the one entry of \<open>SEL\<close>, the opaque
  selector type of Objective-C, in an environment where no Clang type is a
  pointer and the module \<open>ObjectiveC\<close> is not loaded.
\<close>
definition selEnv :: env where
  "selEnv =
     exampleEnv\<lparr>mappedTypes :=
       [\<lparr> mt_cTypeName = ''SEL'', mt_cTypeKind = ObjCSel, mt_bitwidth = 0,
          mt_swiftModuleName = ''ObjectiveC'', mt_swiftTypeName = ''ObjCSel'',
          mt_languages = 1, mt_canBeMissing = False \<rparr>]\<rparr>"

text \<open>
  The enum \<open>Color\<close> with the enumerators \<open>Red = 0\<close>, \<open>Green = 1\<close> and
  \<open>Blue = 2\<close> at the translation unit. Its integer type is the opaque type 0,
  which the type translation of \<open>colorEnv\<close> maps to \<open>UInt32\<close>.
\<close>
definition colorAst :: "cdecl list" where
  "colorAst =
     [ exampleDecl (Some ''Color'') TranslationUnit 0
         (EnumDecl ((exampleEnumInfo None [1, 2, 3])\<lparr>enum_definition := Some 0\<rparr>)),
       exampleDecl (Some ''Red'') (Ctx Ctx_Enum 0 TranslationUnit) 1 (EnumConstantDecl 0),
       exampleDecl (Some ''Green'') (Ctx Ctx_Enum 0 TranslationUnit) 2 (EnumConstantDecl 1),
       exampleDecl (Some ''Blue'') (Ctx Ctx_Enum 0 TranslationUnit) 3 (EnumConstantDecl 2) ]"

definition colorEnv :: env where
  "colorEnv =
     exampleEnv\<lparr>ast := colorAst,
       importOtherType := (\<lambda>t k. if t = OpaqueType 0 then Some (StdlibType ''UInt32'') else None)\<rparr>"

section \<open>Notions of the properties\<close>



text \<open>
  A translation of types for the examples: the opaque Clang types 0 to 3 are
  an unsigned integer, \<open>id\<close>, \<open>NSInteger\<close> and \<open>void\<close>. A function type is
  translated parameter by parameter, each parameter with its own name.
\<close>
definition exampleImportOtherType :: "ctype \<Rightarrow> ImportTypeKind \<Rightarrow> stype option" where
  "exampleImportOtherType t k =
     (if t = OpaqueType 0 then Some (StdlibType ''UInt32'')
      else if t = OpaqueType 1 then Some (StdlibType ''DynamicLookup'')
      else if t = OpaqueType 2 then Some (StdlibType ''Int'')
      else if t = OpaqueType 3 then Some (TupleType [])
      else None)"

definition exampleParam :: "parm_info \<Rightarrow> (stype \<times> ident) option" where
  "exampleParam p =
     (case exampleImportOtherType (parm_type p) Parameter of
        None \<Rightarrow> None
      | Some t \<Rightarrow> Some (t, exampleImportName (parm_name p) []))"

definition exampleImportFunctionType ::
    "ctype \<Rightarrow> parm_info list \<Rightarrow> bool \<Rightarrow> selector option \<Rightarrow> bool
       \<Rightarrow> (stype \<times> pattern \<times> pattern) option" where
  "exampleImportFunctionType res ps variadic sel isConstructor =
     (if variadic \<or> None \<in> set (map exampleParam ps) then None
      else
        (case exampleImportOtherType res Result of
           None \<Rightarrow> None
         | Some r \<Rightarrow>
             (let elts = map (\<lambda>p. the (exampleParam p)) ps;
                  tuple = TuplePattern
                            (map (\<lambda>(t, n). TypedPattern
                                    (NamedPattern \<lparr>v_name = n, v_type = t, v_context = None\<rparr> t) t)
                                 elts)
                            (TupleType elts)
              in Some (FunctionType (TupleType elts) r, tuple, tuple))))"

text \<open>
  The interface \<open>Container\<close> at the translation unit, with the instance
  methods \<open>-(id)objectAtIndexedSubscript:(NSInteger)idx\<close> (declaration 1) and
  \<open>-(void)setObject:(id)obj atIndexedSubscript:(NSInteger)idx\<close> (declaration
  2). The list gives the methods that the interface declares, in their order.
\<close>
definition containerAst :: "cdecl_id list \<Rightarrow> cdecl list" where
  "containerAst methods =
     [ exampleDecl (Some ''Container'') TranslationUnit 0
         (ObjCInterfaceDecl
            \<lparr> oc_definition = Some 0, oc_superClass = None, oc_classInterface = None,
              oc_referencedProtocols = [], oc_visibleCategories = [], oc_decls = methods \<rparr>),
       exampleDecl None (Ctx Ctx_ObjCInterface 0 TranslationUnit) 1
         (ObjCMethodDecl
            ((exampleMethod objectAtIndexedSubscript True OMF_None)
               \<lparr> meth_resultType := OpaqueType 1,
                 meth_params := [\<lparr>parm_name = Some ''idx'', parm_type = OpaqueType 2\<rparr>],
                 meth_classInterface := Some 0 \<rparr>)),
       exampleDecl None (Ctx Ctx_ObjCInterface 0 TranslationUnit) 2
         (ObjCMethodDecl
            ((exampleMethod setObjectAtIndexedSubscript True OMF_None)
               \<lparr> meth_resultType := OpaqueType 3,
                 meth_params := [\<lparr>parm_name = Some ''obj'', parm_type = OpaqueType 1\<rparr>,
                                 \<lparr>parm_name = Some ''idx'', parm_type = OpaqueType 2\<rparr>],
                 meth_classInterface := Some 0 \<rparr>)) ]"

text \<open>The lookup of a method of \<open>Container\<close> among the methods it declares.\<close>
definition containerLookup :: "cdecl_id list \<Rightarrow> cdecl_id \<Rightarrow> selector \<Rightarrow> bool \<Rightarrow> cdecl_id option" where
  "containerLookup methods c sel isInstance =
     (if c = 0 \<and> isInstance \<and> sel = objectAtIndexedSubscript \<and> 1 \<in> set methods then Some 1
      else if c = 0 \<and> isInstance \<and> sel = setObjectAtIndexedSubscript \<and> 2 \<in> set methods
      then Some 2
      else None)"

definition containerEnv :: "cdecl_id list \<Rightarrow> env" where
  "containerEnv methods =
     exampleEnv\<lparr>ast := containerAst methods,
       importOtherType := exampleImportOtherType,
       importFunctionType := exampleImportFunctionType,
       lookupMethod := containerLookup methods,
       getMethod := containerLookup methods\<rparr>"

text \<open>
  The contexts around a declaration context, from the context itself
  outwards to the translation unit.
\<close>
fun ctxChain :: "cdeclctx \<Rightarrow> cdeclctx list" where
  "ctxChain TranslationUnit = [TranslationUnit]"
| "ctxChain (Ctx k d p) = Ctx k d p # ctxChain p"

text \<open>
  A struct \<open>Outer\<close> at the translation unit with a nested enum, which has the
  given name or none, and the enumerator \<open>A = 5\<close> of that enum.
\<close>
definition nestedEnumEnv :: "string option \<Rightarrow> env" where
  "nestedEnumEnv enumName =
     exampleEnv\<lparr>ast :=
       [ exampleDecl (Some ''Outer'') TranslationUnit 0
           (RecordDecl \<lparr> rec_isUnion = False, rec_isInterface = False,
                          rec_isAnonymousStructOrUnion = False, rec_definition = Some 0,
                          rec_typedefNameForAnonDecl = None, rec_decls = [1] \<rparr>),
         exampleDecl enumName (Ctx Ctx_Record 0 TranslationUnit) 1
           (EnumDecl ((exampleEnumInfo None [2])\<lparr>enum_definition := Some 1\<rparr>)),
         exampleDecl (Some ''A'') (Ctx Ctx_Enum 1 (Ctx Ctx_Record 0 TranslationUnit)) 2
           (EnumConstantDecl 5) ],
       importOtherType := exampleImportOtherType\<rparr>"

text \<open>
  The interface \<open>Widget\<close> at the translation unit, which declares the class
  method \<open>+(id)alloc\<close> (declaration 1), the instance methods \<open>-(id)init\<close>
  (declaration 2) and \<open>-(id)name\<close> (declaration 3), and the property \<open>name\<close>
  (declaration 4), whose getter is the method \<open>name\<close>.
\<close>
definition widgetAst :: "cdecl list" where
  "widgetAst =
     [ exampleDecl (Some ''Widget'') TranslationUnit 0
         (ObjCInterfaceDecl
            \<lparr> oc_definition = Some 0, oc_superClass = None, oc_classInterface = None,
              oc_referencedProtocols = [], oc_visibleCategories = [],
              oc_decls = [1, 2, 3, 4] \<rparr>),
       exampleDecl None (Ctx Ctx_ObjCInterface 0 TranslationUnit) 1
         (ObjCMethodDecl
            ((exampleMethod allocSel False OMF_alloc)
               \<lparr> meth_resultType := OpaqueType 1, meth_classInterface := Some 0 \<rparr>)),
       exampleDecl None (Ctx Ctx_ObjCInterface 0 TranslationUnit) 2
         (ObjCMethodDecl
            ((exampleMethod (Selector [Some ''init''] 0) True OMF_init)
               \<lparr> meth_resultType := OpaqueType 1, meth_classInterface := Some 0 \<rparr>)),
       exampleDecl None (Ctx Ctx_ObjCInterface 0 TranslationUnit) 3
         (ObjCMethodDecl
            ((exampleMethod (Selector [Some ''name''] 0) True OMF_None)
               \<lparr> meth_resultType := OpaqueType 1, meth_classInterface := Some 0,
                 meth_findPropertyDecl := Some 4 \<rparr>)),
       exampleDecl (Some ''name'') (Ctx Ctx_ObjCInterface 0 TranslationUnit) 4
         (ObjCPropertyDecl
            \<lparr> prop_type = OpaqueType 1, prop_getterMethodDecl = Some 3,
              prop_setterMethodDecl = None, prop_hasIBOutletAttr = False \<rparr>) ]"

text \<open>The lookup of a method of \<open>Widget\<close>.\<close>
definition widgetLookup :: "cdecl_id \<Rightarrow> selector \<Rightarrow> bool \<Rightarrow> cdecl_id option" where
  "widgetLookup c sel isInstance =
     (if c = 0 \<and> \<not> isInstance \<and> sel = allocSel then Some 1
      else if c = 0 \<and> isInstance \<and> sel = Selector [Some ''init''] 0 then Some 2
      else if c = 0 \<and> isInstance \<and> sel = Selector [Some ''name''] 0 then Some 3
      else None)"

definition widgetEnv :: env where
  "widgetEnv =
     exampleEnv\<lparr>ast := widgetAst,
       importOtherType := exampleImportOtherType,
       importFunctionType := exampleImportFunctionType,
       lookupMethod := widgetLookup,
       getMethod := widgetLookup\<rparr>"

text \<open>
  A constant, as \<open>createConstant\<close> makes it: the declaration \<open>c\<close> is a computed
  variable with the given name, context and type, and its getter, the next
  declaration, is a function whose body returns the expression \<open>e\<close>.
\<close>
definition constantAt ::
    "impl \<Rightarrow> decl_ref \<Rightarrow> ident \<Rightarrow> sdeclctx \<Rightarrow> stype \<Rightarrow> expr \<Rightarrow> bool" where
  "constantAt s c name dc type e =
     (Suc c < length (arena s)
      \<and> d_kind (arena s ! c) = DeclKind_Var \<and> d_name (arena s ! c) = name
      \<and> d_context (arena s ! c) = Some dc \<and> d_type (arena s ! c) = Some type
      \<and> d_isComputed (arena s ! c) \<and> d_getter (arena s ! c) = Some (Suc c)
      \<and> d_kind (arena s ! Suc c) = DeclKind_Func
      \<and> d_body (arena s ! Suc c) = Some [ReturnStmt e])"

text \<open>
  The context into which the importer puts the declaration \<open>D\<close> without
  importing anything, in the state \<open>s\<close>: the module, for a declaration at the
  translation unit; the import of the declaration around it, when the cache
  holds that import and it is a declaration context. In every other case the
  context has to be imported first, or there is none.
\<close>
definition importedContext :: "env \<Rightarrow> impl \<Rightarrow> cdecl_id \<Rightarrow> cdecl \<Rightarrow> sdeclctx option" where
  "importedContext E s D cd =
     (case declContext cd of
        TranslationUnit \<Rightarrow>
          (case getClangModuleForDecl E D of
             Some m \<Rightarrow> Some (ModuleContext m)
           | None \<Rightarrow> map_option ModuleContext (firstClangModule E))
      | Ctx k R p \<Rightarrow>
          (case asNamedDecl (Ctx k R p) of
             None \<Rightarrow> None
           | Some R' \<Rightarrow>
               (case getCDecl E R' of
                  None \<Rightarrow> None
                | Some rd \<Rightarrow>
                    (case map_of (ImportedDecls s) (canonicalDecl rd) of
                       Some (Some v) \<Rightarrow>
                         if v < length (arena s)
                            \<and> (isNominalTypeDecl (arena s ! v)
                               \<or> d_kind (arena s ! v) = DeclKind_Extension
                               \<or> d_kind (arena s ! v) = DeclKind_Constructor
                               \<or> d_kind (arena s ! v) = DeclKind_Destructor)
                         then Some (DeclContextOf v) else None
                     | _ \<Rightarrow> None))))"

text \<open>
  The functions named \<open>-\<close> among the declarations of the state \<open>s\<close> that the
  lookup of \<open>-\<close> finds, in the order of the lookup; and the lookup finds
  declarations of the state only, a function among them.
\<close>
definition minusFunctions :: "env \<Rightarrow> impl \<Rightarrow> decl_ref list" where
  "minusFunctions E s =
     filter (\<lambda>r. isFuncDecl (arena s ! r)) (List.map_filter id (unqualifiedLookup E ''-''))"

definition minusFound :: "env \<Rightarrow> impl \<Rightarrow> bool" where
  "minusFound E s =
     (list_all (\<lambda>r. r < length (arena s)) (List.map_filter id (unqualifiedLookup E ''-''))
      \<and> minusFunctions E s \<noteq> [])"

text \<open>
  The literal of the integer \<open>v\<close>, in closed form: the printed value; for a
  negative value the printed absolute value, negated by the function \<open>-\<close>, or
  by the overloaded functions \<open>-\<close> when there are several.
\<close>
definition integerLiteral :: "env \<Rightarrow> impl \<Rightarrow> int \<Rightarrow> expr" where
  "integerLiteral E s v =
     (if 0 \<le> v then IntegerLiteralExpr (intToString v)
      else PrefixUnaryExpr
             (if length (minusFunctions E s) = 1 then DeclRefExpr (hd (minusFunctions E s))
              else OverloadedDeclRefExpr (minusFunctions E s))
             (IntegerLiteralExpr (natToString (nat (- v)))))"

text \<open>
  An enumerator \<open>x\<close> of the enum with the definition \<open>d\<close>: an enum constant
  declared in \<open>d\<close> that is its own canonical declaration (an enumerator is
  declared once) and has a name that the importer can use; its value is not
  negative, or the functions \<open>-\<close> are found in the state \<open>s\<close>.
\<close>
definition optionEnumerator :: "env \<Rightarrow> impl \<Rightarrow> cdecl_id \<Rightarrow> cdecl_id \<Rightarrow> bool" where
  "optionEnumerator E s d x =
     (case getCDecl E x of
        None \<Rightarrow> False
      | Some xd \<Rightarrow>
          (case declKind xd of
             EnumConstantDecl v \<Rightarrow>
               (0 \<le> v \<or> minusFound E s)
               \<and> (case declContext xd of
                     Ctx k e p \<Rightarrow> k = Ctx_Enum \<and> e = d
                   | TranslationUnit \<Rightarrow> False)
               \<and> canonicalDecl xd = x \<and> importName E (declName xd) [] \<noteq> []
           | _ \<Rightarrow> False))"

text \<open>
  The declaration \<open>c\<close> of the state \<open>s'\<close> is the constant of the enumerator
  \<open>x\<close> of an enum that is imported as the struct \<open>st\<close>: a constant in the
  module \<open>M\<close> with the name of the enumerator and the type of the struct,
  whose value is constructed from the integer literal of the enumerator's
  value (\<open>s\<close> is the state in which the functions \<open>-\<close> were looked up).
\<close>
definition enumeratorConstant ::
    "env \<Rightarrow> impl \<Rightarrow> impl \<Rightarrow> decl_ref \<Rightarrow> module_ref \<Rightarrow> cdecl_id \<Rightarrow> decl_ref \<Rightarrow> bool" where
  "enumeratorConstant E s s' st M x c =
     (case getCDecl E x of
        None \<Rightarrow> False
      | Some xd \<Rightarrow>
          (case declKind xd of
             EnumConstantDecl v \<Rightarrow>
               constantAt s' c (importName E (declName xd) []) (ModuleContext M) (NominalType st)
                 (CallExpr (MetatypeExpr (MetaTypeType (NominalType st))) (integerLiteral E s v))
           | _ \<Rightarrow> False))"

text \<open>The enum \<open>Color\<close> when the type translation maps no type.\<close>
definition untypedColorEnv :: env where
  "untypedColorEnv = colorEnv\<lparr>importOtherType := (\<lambda>t k. None)\<rparr>"

text \<open>
  The enum \<open>Color\<close> when the importer has no module for the translation unit;
  when \<open>Red\<close> is \<open>-1\<close> (no function \<open>-\<close> is found in these environments);
  when \<open>Color\<close> is declared without a definition; and when the translation of
  names has no name for \<open>Red\<close>.
\<close>
definition moduleLessColorEnv :: env where
  "moduleLessColorEnv = colorEnv\<lparr>firstClangModule := None\<rparr>"

definition signedColorEnv :: env where
  "signedColorEnv =
     colorEnv\<lparr>ast := colorAst[1 := exampleDecl (Some ''Red'') (Ctx Ctx_Enum 0 TranslationUnit) 1
                                     (EnumConstantDecl (- 1))]\<rparr>"

definition forwardColorEnv :: env where
  "forwardColorEnv =
     colorEnv\<lparr>ast := colorAst[0 := exampleDecl (Some ''Color'') TranslationUnit 0
                                     (EnumDecl (exampleEnumInfo None [1, 2, 3]))]\<rparr>"

definition namelessRedEnv :: env where
  "namelessRedEnv =
     colorEnv\<lparr>importName :=
       (\<lambda>n suffix. if n = Some ''Red'' then [] else exampleImportName n suffix)\<rparr>"

text \<open>
  A struct \<open>Outer\<close> at the translation unit with the nested enum \<open>Flags\<close>,
  which is declared twice: declaration 1 is the first, canonical declaration,
  declaration 2 the definition, with the enumerators \<open>Zero = 0\<close> and
  \<open>All = -1\<close>. The lookup of \<open>-\<close> finds the declaration 1 of the arena. In
  the state \<open>flagsImpl\<close> the struct \<open>Outer\<close> is imported, and the declaration 1
  of the arena is a function \<open>-\<close> of the Swift module.
\<close>
definition flagsAst :: "cdecl list" where
  "flagsAst =
     [ exampleDecl (Some ''Outer'') TranslationUnit 0
         (RecordDecl \<lparr> rec_isUnion = False, rec_isInterface = False,
                        rec_isAnonymousStructOrUnion = False, rec_definition = Some 0,
                        rec_typedefNameForAnonDecl = None, rec_decls = [1, 2] \<rparr>),
       exampleDecl (Some ''Flags'') (Ctx Ctx_Record 0 TranslationUnit) 1
         (EnumDecl ((exampleEnumInfo None [])\<lparr>enum_definition := Some 2\<rparr>)),
       exampleDecl (Some ''Flags'') (Ctx Ctx_Record 0 TranslationUnit) 1
         (EnumDecl ((exampleEnumInfo None [3, 4])\<lparr>enum_definition := Some 2\<rparr>)),
       exampleDecl (Some ''Zero'') (Ctx Ctx_Enum 2 (Ctx Ctx_Record 0 TranslationUnit)) 3
         (EnumConstantDecl 0),
       exampleDecl (Some ''All'') (Ctx Ctx_Enum 2 (Ctx Ctx_Record 0 TranslationUnit)) 4
         (EnumConstantDecl (- 1)) ]"

definition flagsEnv :: env where
  "flagsEnv =
     exampleEnv\<lparr>ast := flagsAst, importOtherType := exampleImportOtherType,
       unqualifiedLookup := (\<lambda>n. if n = ''-'' then [Some 1] else [])\<rparr>"

definition flagsImpl :: impl where
  "flagsImpl =
     emptyImpl\<lparr>arena := [(mkDecl DeclKind_Struct ''Outer'' (Some (ModuleContext 0)))
                            \<lparr>d_clangNode := Some 0\<rparr>,
                          mkDecl DeclKind_Func ''-'' (Some (ModuleContext 1))],
               ImportedDecls := [(0, Some 0)]\<rparr>"

text \<open>
  The interface \<open>Gadget\<close> at the translation unit, which declares the class
  method \<open>+(id)alloc\<close> (declaration 1) and conforms to the protocol \<open>Maker\<close>
  (declaration 3), which declares the instance method \<open>-(id)init\<close>
  (declaration 2). \<open>Gadget\<close> does not declare \<open>init\<close> itself.
\<close>
definition gadgetAst :: "cdecl list" where
  "gadgetAst =
     [ exampleDecl (Some ''Gadget'') TranslationUnit 0
         (ObjCInterfaceDecl
            \<lparr> oc_definition = Some 0, oc_superClass = None, oc_classInterface = None,
              oc_referencedProtocols = [3], oc_visibleCategories = [], oc_decls = [1] \<rparr>),
       exampleDecl None (Ctx Ctx_ObjCInterface 0 TranslationUnit) 1
         (ObjCMethodDecl
            ((exampleMethod allocSel False OMF_alloc)
               \<lparr> meth_resultType := OpaqueType 1, meth_classInterface := Some 0 \<rparr>)),
       exampleDecl None (Ctx Ctx_ObjCProtocol 3 TranslationUnit) 2
         (ObjCMethodDecl
            ((exampleMethod (Selector [Some ''init''] 0) True OMF_init)
               \<lparr> meth_resultType := OpaqueType 1 \<rparr>)),
       exampleDecl (Some ''Maker'') TranslationUnit 3
         (ObjCProtocolDecl
            \<lparr> oc_definition = Some 3, oc_superClass = None, oc_classInterface = None,
              oc_referencedProtocols = [], oc_visibleCategories = [], oc_decls = [2] \<rparr>) ]"

text \<open>The lookup of a method of \<open>Gadget\<close> or of \<open>Maker\<close> among those it declares.\<close>
definition gadgetLookup :: "cdecl_id \<Rightarrow> selector \<Rightarrow> bool \<Rightarrow> cdecl_id option" where
  "gadgetLookup c sel isInstance =
     (if c = 0 \<and> \<not> isInstance \<and> sel = allocSel then Some 1
      else if c = 3 \<and> isInstance \<and> sel = Selector [Some ''init''] 0 then Some 2
      else None)"

definition gadgetEnv :: env where
  "gadgetEnv =
     exampleEnv\<lparr>ast := gadgetAst,
       importOtherType := exampleImportOtherType,
       importFunctionType := exampleImportFunctionType,
       lookupMethod := gadgetLookup,
       getMethod := gadgetLookup\<rparr>"

text \<open>
  The cache entry of the Clang declaration \<open>k\<close>, when it is a Swift
  declaration, is a declaration of the arena whose context is \<open>dc\<close>.
\<close>
definition cachedIn :: "cdecl_id \<Rightarrow> sdeclctx \<Rightarrow> impl \<Rightarrow> bool" where
  "cachedIn k dc s =
     (case map_of (ImportedDecls s) k of
        Some (Some v) \<Rightarrow> v < length (arena s) \<and> d_context (arena s ! v) = Some dc
      | _ \<Rightarrow> True)"

text \<open>
  From the state \<open>s\<close> to the state \<open>s'\<close> the arena has only grown, no
  declaration has changed its context, and the cache entry of \<open>k\<close> is still a
  declaration in \<open>dc\<close> if it was one.
\<close>
definition keeps :: "cdecl_id \<Rightarrow> sdeclctx \<Rightarrow> impl \<Rightarrow> impl \<Rightarrow> bool" where
  "keeps k dc s s' =
     (map d_context (take (length (arena s)) (arena s')) = map d_context (arena s)
      \<and> (cachedIn k dc s \<longrightarrow> cachedIn k dc s'))"

text \<open>A computation of the importer that, whenever it returns, keeps that.\<close>
definition pres :: "cdecl_id \<Rightarrow> sdeclctx \<Rightarrow> 'a imp \<Rightarrow> bool" where
  "pres k dc m = (\<forall>s r s'. m s = Some (r, s') \<longrightarrow> keeps k dc s s')"

section \<open>Running computations of the importer\<close>

lemma ret_apply: "ret x s = Some (x, s)"
  by (simp add: ret_def)

lemma abort_apply: "abort s = None"
  by (simp add: abort_def)

lemma bnd_apply: "bnd m f s = (case m s of None \<Rightarrow> None | Some (x, s') \<Rightarrow> f x s')"
  by (simp add: bnd_def)

lemma bnd_ret: "bnd (ret x) f = f x"
  by (rule ext) (simp add: bnd_def ret_def)

lemma bnd_abort: "bnd abort f = abort"
  by (rule ext) (simp add: bnd_def abort_def)

lemma bnd_eq_Some:
  "bnd m f s = Some (y, s'') \<longleftrightarrow> (\<exists>x s'. m s = Some (x, s') \<and> f x s' = Some (y, s''))"
  by (auto simp: bnd_def split: option.splits)

lemma bnd_Some: "m s = Some (x, s') \<Longrightarrow> bnd m f s = f x s'"
  by (simp add: bnd_def)

lemma orNull_apply:
  "orNull m f s =
     (case m s of
        None \<Rightarrow> None
      | Some (x, s') \<Rightarrow> (case x of None \<Rightarrow> Some (None, s') | Some v \<Rightarrow> f v s'))"
  by (simp add: orNull_def bnd_def ret_def split: option.splits)

lemma nonNull_apply: "nonNull x s = (case x of None \<Rightarrow> None | Some v \<Rightarrow> Some (v, s))"
  by (simp add: nonNull_def abort_def ret_def split: option.splits)

lemma nonNull_Some: "nonNull (Some v) = ret v"
  by (simp add: nonNull_def)

lemma findImportedDecl_apply:
  "findImportedDecl canon s = Some (map_of (ImportedDecls s) canon, s)"
  by (simp add: findImportedDecl_def)

lemma setImportedDecl_apply:
  "setImportedDecl canon r s = Some ((), s\<lparr>ImportedDecls := (canon, r) # ImportedDecls s\<rparr>)"
  by (simp add: setImportedDecl_def)

lemma getState_apply: "getState s = Some (s, s)"
  by (simp add: getState_def)

lemma getDecl_apply:
  "getDecl r s = (if r < length (arena s) then Some (arena s ! r, s) else None)"
  by (simp add: getDecl_def)

lemma newDecl_apply:
  "newDecl d s = Some (length (arena s), s\<lparr>arena := arena s @ [d]\<rparr>)"
  by (simp add: newDecl_def)

lemma updDecl_apply:
  "updDecl r f s =
     (if r < length (arena s)
      then Some ((), s\<lparr>arena := (arena s)[r := f (arena s ! r)]\<rparr>) else None)"
  by (simp add: updDecl_def)

lemma addedExternalDecl_apply:
  "addedExternalDecl r s = Some ((), s\<lparr>externalDecls := externalDecls s @ [r]\<rparr>)"
  by (simp add: addedExternalDecl_def)

lemmas run_simps =
  ret_apply abort_apply bnd_apply orNull_apply nonNull_apply findImportedDecl_apply
  setImportedDecl_apply getState_apply getDecl_apply newDecl_apply updDecl_apply
  addedExternalDecl_apply

section \<open>The forward-declaration flag\<close>

text \<open>
  The converter sets its flag only where it finds that an enum, a record, a
  protocol or a class has no definition; it then returns null at once,
  without a call of the importer and without a change of the state.
\<close>
lemma Visit_forward:
  assumes "Visit rec E decl s = Some ((r, True), s')"
  shows "r = None \<and> s' = s \<and> (\<forall>rec'. Visit rec' E decl s = Some ((None, True), s))"
proof -
  from assms obtain cd where cd: "getCDecl E decl = Some cd"
    by (auto simp: Visit_def run_simps split: option.splits)
  show ?thesis
    using assms cd
    by (cases "declKind cd")
       (auto simp: Visit_def run_simps VisitEnumDecl_def VisitRecordDecl_def
          VisitObjCProtocolDecl_def VisitObjCInterfaceDecl_def
          split: option.splits if_splits)
qed


section \<open>Constants\<close>

lemma nth_append_Suc_length: "(xs @ y0 # y # ys) ! Suc (length xs) = y"
  by (simp add: nth_append)

lemma update_append_length: "(xs @ y # ys)[length xs := z] = xs @ z # ys"
  by (simp add: list_update_append)

lemma update_append_Suc_length: "(xs @ y0 # y # ys)[Suc (length xs) := z] = xs @ y0 # z # ys"
  by (simp add: list_update_append)

lemmas arena_simps =
  nth_append_length nth_append_Suc_length update_append_length update_append_Suc_length

lemma foundFuncDecls_state:
  "foundFuncDecls rs s = Some (found, s') \<Longrightarrow> s' = s"
proof (induction rs arbitrary: found)
  case Nil
  then show ?case by (simp add: run_simps)
next
  case (Cons r rs)
  then show ?case
    by (cases r) (auto simp: run_simps split: option.splits if_splits)
qed

lemma literalExpr_state:
  "literalExpr E v s = Some (r, s') \<Longrightarrow> s' = s"
  by (cases v)
     (auto simp: literalExpr_def run_simps split: option.splits if_splits list.splits
        dest: foundFuncDecls_state)

text \<open>
  The positive literal: a value that is not negative is printed without a
  sign, and the literal is the printed value.
\<close>
lemma natToString_no_minus: "natToString n \<noteq> [] \<and> hd (natToString n) \<noteq> CHR ''-''"
proof (induction n rule: natToString.induct)
  case (1 n)
  show ?case
  proof (cases "n < 10")
    case True
    then have "n \<in> {0, 1, 2, 3, 4, 5, 6, 7, 8, 9}" by auto
    moreover from True have "natToString n = [''0123456789'' ! n]"
      by (simp add: natToString.simps [of n])
    ultimately show ?thesis by auto
  next
    case False
    with 1 show ?thesis by (simp add: natToString.simps [of n] hd_append)
  qed
qed

lemma literalExpr_nonneg:
  "0 \<le> i \<Longrightarrow> literalExpr E (APValue_Int i) s = Some (Some (IntegerLiteralExpr (intToString i)), s)"
  using natToString_no_minus [of "nat i"]
  by (cases "natToString (nat i)")
     (auto simp: literalExpr_def intToString_def run_simps)

text \<open>What \<open>createConstant\<close> makes, when it returns a declaration.\<close>
lemma createConstant_result:
  assumes "createConstant E name dc type val convertKind s = Some (Some v, s')"
  shows "v = length (arena s) \<and> length (arena s') = length (arena s) + 2
         \<and> take (length (arena s)) (arena s') = arena s
         \<and> d_kind (arena s' ! v) = DeclKind_Var \<and> d_name (arena s' ! v) = name
         \<and> d_context (arena s' ! v) = Some dc \<and> d_type (arena s' ! v) = Some type
         \<and> d_isComputed (arena s' ! v) \<and> d_getter (arena s' ! v) = Some (Suc v)
         \<and> d_clangNode (arena s' ! v) = None
         \<and> d_kind (arena s' ! Suc v) = DeclKind_Func
         \<and> (\<exists>e. d_body (arena s' ! Suc v) = Some [ReturnStmt (convertExpr convertKind type e)]
                \<and> (\<forall>i. val = APValue_Int i \<and> 0 \<le> i \<longrightarrow> e = IntegerLiteralExpr (intToString i)))
         \<and> ImportedDecls s' = ImportedDecls s"
proof -
  define n where "n = length (arena s)"
  define var0 where "var0 = (mkDecl DeclKind_Var name (Some dc))\<lparr>d_type := Some type\<rparr>"
  define func0 where
    "func0 = (mkDecl DeclKind_Func [] (Some dc))
                \<lparr>d_type := Some (curriedType [emptyTuplePattern] type),
                 d_argPatterns := [emptyTuplePattern], d_bodyPatterns := [emptyTuplePattern],
                 d_resultType := Some type\<rparr>"
  define func1 where
    "func1 = func0\<lparr>d_argPatterns := setVarDeclContexts (d_argPatterns func0)
                                        (Some (DeclContextOf (Suc n))),
                    d_bodyPatterns := setVarDeclContexts (d_bodyPatterns func0)
                                        (Some (DeclContextOf (Suc n)))\<rparr>"
  define s3 where "s3 = s\<lparr>arena := arena s @ [var0, func1]\<rparr>"
  define rest where
    "rest = (\<lambda>e. bnd (updDecl (Suc n)
               (\<lambda>d. d\<lparr>d_body := Some [ReturnStmt (convertExpr convertKind type e)],
                       d_accessorOf := Some n\<rparr>)) (\<lambda>_.
         bnd (updDecl n
               (\<lambda>d. d\<lparr>d_isComputed := True, d_getter := Some (Suc n), d_setter := None\<rparr>)) (\<lambda>_.
         bnd (addedExternalDecl (Suc n)) (\<lambda>_.
         ret (Some n)))))"
  have step: "createConstant E name dc type val convertKind s
                = orNull (literalExpr E val) rest s3"
    unfolding createConstant_def
    by (simp add: bnd_apply newDecl_apply setPatternContexts_def updDecl_apply arena_simps
          s3_def rest_def n_def var0_def func0_def func1_def)
  from assms obtain e where
    l: "literalExpr E val s3 = Some (Some e, s3)" and r: "rest e s3 = Some (Some v, s')"
    unfolding step
    by (auto simp: orNull_apply split: option.splits dest: literalExpr_state)
  have e: "\<forall>i. val = APValue_Int i \<and> 0 \<le> i \<longrightarrow> e = IntegerLiteralExpr (intToString i)"
    using l literalExpr_nonneg [of _ E s3] by auto
  have fin: "v = n \<and> arena s' = arena s @
      [var0\<lparr>d_isComputed := True, d_getter := Some (Suc n), d_setter := None\<rparr>,
       func1\<lparr>d_body := Some [ReturnStmt (convertExpr convertKind type e)],
              d_accessorOf := Some n\<rparr>]
      \<and> ImportedDecls s' = ImportedDecls s"
    using r unfolding rest_def s3_def
    by (auto simp: bnd_apply updDecl_apply addedExternalDecl_apply ret_apply arena_simps n_def)
  have k: "d_kind var0 = DeclKind_Var" "d_name var0 = name" "d_context var0 = Some dc"
    "d_type var0 = Some type" "d_clangNode var0 = None" "d_kind func1 = DeclKind_Func"
    by (simp_all add: var0_def func1_def func0_def mkDecl_def)
  from fin e k show ?thesis
    by (simp add: n_def arena_simps) (rule exI [of _ e], simp)
qed

section \<open>What every computation of the importer keeps\<close>

lemma keeps_length: "keeps k dc s s' \<Longrightarrow> length (arena s) \<le> length (arena s')"
proof -
  assume "keeps k dc s s'"
  then have "length (map d_context (take (length (arena s)) (arena s')))
               = length (map d_context (arena s))"
    by (simp add: keeps_def)
  then show ?thesis by simp
qed

lemma keeps_context:
  assumes "keeps k dc s s'" and "i < length (arena s)"
  shows "d_context (arena s' ! i) = d_context (arena s ! i)"
proof -
  from assms(1) have "map d_context (take (length (arena s)) (arena s')) ! i
                        = map d_context (arena s) ! i"
    by (simp add: keeps_def)
  with assms(2) keeps_length [OF assms(1)] show ?thesis by simp
qed

lemma keepsI:
  assumes "length (arena s) \<le> length (arena s')"
    and "\<And>i. i < length (arena s) \<Longrightarrow> d_context (arena s' ! i) = d_context (arena s ! i)"
    and "cachedIn k dc s \<Longrightarrow> cachedIn k dc s'"
  shows "keeps k dc s s'"
  unfolding keeps_def using assms by (auto intro!: nth_equalityI)

lemma keeps_refl: "keeps k dc s s"
  by (simp add: keeps_def)

lemma keeps_trans:
  assumes "keeps k dc s s1" and "keeps k dc s1 s2"
  shows "keeps k dc s s2"
proof (rule keepsI)
  show "length (arena s) \<le> length (arena s2)"
    using keeps_length [OF assms(1)] keeps_length [OF assms(2)] by simp
next
  fix i assume "i < length (arena s)"
  then show "d_context (arena s2 ! i) = d_context (arena s ! i)"
    using keeps_context [OF assms(1), of i] keeps_context [OF assms(2), of i]
      keeps_length [OF assms(1)] by simp
next
  assume "cachedIn k dc s"
  with assms show "cachedIn k dc s2" by (simp add: keeps_def)
qed

lemma keeps_cachedIn: "keeps k dc s s' \<Longrightarrow> cachedIn k dc s \<Longrightarrow> cachedIn k dc s'"
  by (simp add: keeps_def)

text \<open>A declaration in \<open>dc\<close> stays one.\<close>
lemma keeps_declaration:
  assumes "keeps k dc s s'" and "v < length (arena s)" and "d_context (arena s ! v) = Some dc'"
  shows "v < length (arena s') \<and> d_context (arena s' ! v) = Some dc'"
  using keeps_length [OF assms(1)] keeps_context [OF assms(1,2)] assms(2,3) by simp

named_theorems pres_intros

lemma presD: "pres k dc m \<Longrightarrow> m s = Some (r, s') \<Longrightarrow> keeps k dc s s'"
  by (auto simp: pres_def)

lemma pres_ret [pres_intros]: "pres k dc (ret x)"
  by (simp add: pres_def ret_apply keeps_refl)

lemma pres_abort [pres_intros]: "pres k dc abort"
  by (simp add: pres_def abort_apply)

lemma pres_bnd [pres_intros]:
  assumes "pres k dc m" and "\<And>x. pres k dc (f x)"
  shows "pres k dc (bnd m f)"
  unfolding pres_def
proof (intro allI impI)
  fix s r s' assume "bnd m f s = Some (r, s')"
  then obtain x s1 where "m s = Some (x, s1)" "f x s1 = Some (r, s')"
    by (auto simp: bnd_apply split: option.splits)
  with assms show "keeps k dc s s'"
    by (blast intro: keeps_trans dest: presD)
qed

lemma pres_orNull [pres_intros]:
  assumes "pres k dc m" and "\<And>x. pres k dc (f x)"
  shows "pres k dc (orNull m f)"
  unfolding pres_def
proof (intro allI impI)
  fix s r s' assume a: "orNull m f s = Some (r, s')"
  then obtain y s1 where m: "m s = Some (y, s1)"
    by (auto simp: orNull_apply split: option.splits)
  show "keeps k dc s s'"
  proof (cases y)
    case None
    with a m have "s' = s1" by (simp add: orNull_apply)
    with m assms(1) show ?thesis by (blast dest: presD)
  next
    case (Some x)
    with a m have "f x s1 = Some (r, s')" by (simp add: orNull_apply)
    with m assms show ?thesis by (blast intro: keeps_trans dest: presD)
  qed
qed

lemma pres_same:
  assumes "\<And>s r s'. m s = Some (r, s') \<Longrightarrow> s' = s"
  shows "pres k dc m"
  unfolding pres_def using assms by (blast intro: keeps_refl)

lemma pres_nonNull [pres_intros]: "pres k dc (nonNull x)"
  by (rule pres_same) (auto simp: nonNull_apply split: option.splits)

lemma pres_getState [pres_intros]: "pres k dc getState"
  by (rule pres_same) (simp add: getState_apply)

lemma pres_getDecl [pres_intros]: "pres k dc (getDecl r)"
  by (rule pres_same) (auto simp: getDecl_apply split: if_splits)

lemma pres_findImportedDecl [pres_intros]: "pres k dc (findImportedDecl c)"
  by (rule pres_same) (simp add: findImportedDecl_apply)

lemma pres_findSubscript [pres_intros]: "pres k dc (findSubscript c)"
  by (rule pres_same) (simp add: findSubscript_def)

lemma cachedIn_cong:
  assumes "ImportedDecls s' = ImportedDecls s" and "length (arena s) \<le> length (arena s')"
    and "\<And>i. i < length (arena s) \<Longrightarrow> d_context (arena s' ! i) = d_context (arena s ! i)"
    and "cachedIn k dc s"
  shows "cachedIn k dc s'"
  using assms by (auto simp: cachedIn_def split: option.splits)

text \<open>A change of the state that touches neither the arena nor the cache.\<close>
lemma pres_other:
  assumes "\<And>s r s'. m s = Some (r, s') \<Longrightarrow>
             arena s' = arena s \<and> ImportedDecls s' = ImportedDecls s"
  shows "pres k dc m"
  unfolding pres_def
proof (intro allI impI)
  fix s r s' assume "m s = Some (r, s')"
  from assms [OF this] show "keeps k dc s s'"
    by (intro keepsI cachedIn_cong [of s' s]) simp_all
qed

lemma pres_addedExternalDecl [pres_intros]: "pres k dc (addedExternalDecl r)"
  by (rule pres_other) (auto simp: addedExternalDecl_apply)

lemma pres_setSubscript [pres_intros]: "pres k dc (setSubscript c r)"
  by (rule pres_other) (auto simp: setSubscript_def)

lemma pres_insertSpecialTypedefName [pres_intros]: "pres k dc (insertSpecialTypedefName d)"
  by (rule pres_other) (auto simp: insertSpecialTypedefName_def)

lemma pres_newDecl [pres_intros]: "pres k dc (newDecl d)"
  unfolding pres_def
proof (intro allI impI)
  fix s r s' assume "newDecl d s = Some (r, s')"
  then have s': "s' = s\<lparr>arena := arena s @ [d]\<rparr>" by (simp add: newDecl_apply)
  show "keeps k dc s s'"
    by (intro keepsI cachedIn_cong [of s' s]) (simp_all add: s' nth_append)
qed

lemma pres_updDecl [pres_intros]:
  assumes "\<And>d. d_context (f d) = d_context d"
  shows "pres k dc (updDecl r f)"
  unfolding pres_def
proof (intro allI impI)
  fix s x s' assume "updDecl r f s = Some (x, s')"
  then have s': "s' = s\<lparr>arena := (arena s)[r := f (arena s ! r)]\<rparr>" and r: "r < length (arena s)"
    by (auto simp: updDecl_apply split: if_splits)
  have "d_context ((arena s)[r := f (arena s ! r)] ! i) = d_context (arena s ! i)" for i
    using r by (cases "i = r") (simp_all add: assms)
  then show "keeps k dc s s'"
    by (intro keepsI cachedIn_cong [of s' s]) (simp_all add: s')
qed

lemma pres_setImportedDecl_other [pres_intros]:
  assumes "c \<noteq> k"
  shows "pres k dc (setImportedDecl c r)"
  unfolding pres_def
proof (intro allI impI)
  fix s x s' assume "setImportedDecl c r s = Some (x, s')"
  then have s': "s' = s\<lparr>ImportedDecls := (c, r) # ImportedDecls s\<rparr>"
    by (simp add: setImportedDecl_apply)
  show "keeps k dc s s'"
    using assms by (intro keepsI) (auto simp: s' cachedIn_def split: option.splits)
qed

lemma pres_setClangNode [pres_intros]: "pres k dc (setClangNode r c)"
  unfolding setClangNode_def by (rule pres_updDecl) simp

lemma pres_setMembers [pres_intros]: "pres k dc (setMembers r ms)"
  unfolding setMembers_def by (rule pres_updDecl) simp

lemma pres_setOverriddenDecl [pres_intros]: "pres k dc (setOverriddenDecl r c)"
  unfolding setOverriddenDecl_def by (rule pres_updDecl) simp

lemma pres_computeType [pres_intros]: "pres k dc (computeType r)"
  unfolding computeType_def by (rule pres_updDecl) simp

lemma pres_setPatternContexts [pres_intros]: "pres k dc (setPatternContexts r)"
  unfolding setPatternContexts_def by (rule pres_updDecl) simp

lemma pres_setProtocols [pres_intros]: "pres k dc (setProtocols r ps)"
  unfolding setProtocols_def by (rule pres_updDecl) simp

lemma pres_getDeclaredTypeOfContext [pres_intros]: "pres k dc (getDeclaredTypeOfContext c)"
  unfolding getDeclaredTypeOfContext_def
  by (auto intro!: pres_intros split: sdeclctx.split)

lemma pres_getSelf [pres_intros]: "pres k dc (getSelf d)"
  unfolding getSelf_def by (auto intro!: pres_intros)

lemma pres_getSelfTypeForContext [pres_intros]: "pres k dc (getSelfTypeForContext c)"
  unfolding getSelfTypeForContext_def
  by (auto intro!: pres_intros split: sdeclctx.split)

lemma pres_getInput [pres_intros]: "pres k dc (getInput t)"
  unfolding getInput_def by (auto intro!: pres_intros split: stype.split)

lemma pres_getResult [pres_intros]: "pres k dc (getResult t)"
  unfolding getResult_def by (auto intro!: pres_intros split: stype.split)

lemma pres_dynCastDecl [pres_intros]: "pres k dc (dynCastDecl isa r)"
  unfolding dynCastDecl_def by (auto intro!: pres_intros split: option.split)

lemma pres_castOrNullDecl [pres_intros]: "pres k dc (castOrNullDecl isa r)"
  unfolding castOrNullDecl_def by (auto intro!: pres_intros split: option.split)

lemma pres_bnd_getCDecl:
  assumes "\<And>cd. getCDecl E d = Some cd \<Longrightarrow> pres k dc (f cd)"
  shows "pres k dc (bnd (nonNull (getCDecl E d)) f)"
  unfolding pres_def using assms
  by (auto simp: bnd_apply nonNull_apply split: option.splits dest: presD)

lemma pres_importType [pres_intros]:
  assumes rec: "\<And>req. pres k dc (rec req)"
  shows "pres k dc (importType rec E t kind)"
  unfolding importType_def
  by (auto intro!: pres_intros rec simp: Let_def
        split: ctype.split cdecl_kind.split EnumKind.split)

lemma pres_importDeclContext [pres_intros]:
  assumes rec: "\<And>req. pres k dc (rec req)"
  shows "pres k dc (importDeclContext rec E c)"
  unfolding importDeclContext_def
  by (auto intro!: pres_intros rec split: option.split)

lemma pres_importDeclContextOf [pres_intros]:
  assumes rec: "\<And>req. pres k dc (rec req)"
  shows "pres k dc (importDeclContextOf rec E D cd)"
  unfolding importDeclContextOf_def
  by (auto intro!: pres_intros rec simp: Let_def split: option.split)

lemma pres_foundFuncDecls [pres_intros]: "pres k dc (foundFuncDecls rs)"
  by (induction rs rule: foundFuncDecls.induct) (auto intro!: pres_intros)

lemma pres_literalExpr [pres_intros]: "pres k dc (literalExpr E v)"
  unfolding literalExpr_def
  by (auto intro!: pres_intros split: APValue.split list.split)

lemma pres_createConstant [pres_intros]: "pres k dc (createConstant E name c type v convertKind)"
  unfolding createConstant_def
  by (auto intro!: pres_intros)

lemma pres_storedVars [pres_intros]: "pres k dc (storedVars ms)"
  by (induction ms) (auto intro!: pres_intros)

lemma pres_createValueConstructor [pres_intros]: "pres k dc (createValueConstructor st ms)"
  unfolding createValueConstructor_def
  by (auto intro!: pres_intros simp: Let_def)

lemma pres_structDeclOfType [pres_intros]: "pres k dc (structDeclOfType t)"
  unfolding structDeclOfType_def
  by (auto intro!: pres_intros split: stype.split)

lemma pres_makeTypeAlias [pres_intros]:
  assumes rec: "\<And>req. pres k dc (rec req)"
  shows "pres k dc (makeTypeAlias rec E underlying Name DC found)"
  unfolding makeTypeAlias_def
  by (auto intro!: pres_intros rec split: option.split)

lemma pres_VisitTypedefNameDecl [pres_intros]:
  assumes rec: "\<And>req. pres k dc (rec req)"
  shows "pres k dc (VisitTypedefNameDecl rec E Decl cd underlying)"
  unfolding VisitTypedefNameDecl_def
  by (auto intro!: pres_intros rec simp: Let_def split: option.split prod.split)

lemma pres_importEach [pres_intros]:
  assumes rec: "\<And>req. pres k dc (rec req)"
  shows "pres k dc (importEach rec xs)"
  by (induction xs) (auto intro!: pres_intros rec)

lemma pres_makeOptionsStruct [pres_intros]:
  assumes rec: "\<And>req. pres k dc (rec req)"
  shows "pres k dc (makeOptionsStruct rec E ei name c)"
  unfolding makeOptionsStruct_def
  by (auto intro!: pres_intros rec simp: Let_def)

lemma pres_VisitEnumDefinition [pres_intros]:
  assumes rec: "\<And>req. pres k dc (rec req)"
    and notk: "\<And>D cd. getCDecl E D = Some cd \<Longrightarrow> canonicalDecl cd = k
                 \<Longrightarrow> \<exists>v. declKind cd = EnumConstantDecl v"
  shows "pres k dc (VisitEnumDefinition rec E decl)"
  unfolding VisitEnumDefinition_def
  apply (rule pres_bnd_getCDecl)
  by (auto intro!: pres_intros rec simp: Let_def split: cdecl_kind.split EnumKind.split
        dest: notk)

lemma pres_VisitEnumDecl [pres_intros]:
  assumes rec: "\<And>req. pres k dc (rec req)"
    and notk: "\<And>D cd. getCDecl E D = Some cd \<Longrightarrow> canonicalDecl cd = k
                 \<Longrightarrow> \<exists>v. declKind cd = EnumConstantDecl v"
  shows "pres k dc (VisitEnumDecl rec E ei)"
  unfolding VisitEnumDecl_def
  by (auto intro!: pres_intros pres_VisitEnumDefinition rec notk split: option.split)

lemma pres_importRecordMembers [pres_intros]:
  assumes rec: "\<And>req. pres k dc (rec req)"
  shows "pres k dc (importRecordMembers rec E ms)"
  by (induction ms) (auto intro!: pres_intros rec split: cdecl_kind.split)

lemma pres_VisitRecordDefinition [pres_intros]:
  assumes rec: "\<And>req. pres k dc (rec req)"
    and notk: "\<And>D cd. getCDecl E D = Some cd \<Longrightarrow> canonicalDecl cd = k
                 \<Longrightarrow> \<exists>v. declKind cd = EnumConstantDecl v"
  shows "pres k dc (VisitRecordDefinition rec E decl)"
  unfolding VisitRecordDefinition_def
  apply (rule pres_bnd_getCDecl)
  by (auto intro!: pres_intros rec simp: Let_def split: cdecl_kind.split dest: notk)

lemma pres_VisitRecordDecl [pres_intros]:
  assumes rec: "\<And>req. pres k dc (rec req)"
    and notk: "\<And>D cd. getCDecl E D = Some cd \<Longrightarrow> canonicalDecl cd = k
                 \<Longrightarrow> \<exists>v. declKind cd = EnumConstantDecl v"
  shows "pres k dc (VisitRecordDecl rec E ri)"
  unfolding VisitRecordDecl_def
  by (auto intro!: pres_intros pres_VisitRecordDefinition rec notk split: option.split)

lemma pres_enumOfContext [pres_intros]: "pres k dc (enumOfContext E c)"
  unfolding enumOfContext_def
  by (auto intro!: pres_intros split: cdeclctx.split cdecl_kind.split)

lemma pres_enumDeclOfContext [pres_intros]: "pres k dc (enumDeclOfContext c)"
  unfolding enumDeclOfContext_def
  by (auto intro!: pres_intros split: sdeclctx.split)

lemma pres_chainThroughUnion [pres_intros]: "pres k dc (chainThroughUnion E fs)"
  by (induction fs) (auto intro!: pres_intros split: cdeclctx.split cdecl_kind.split)

lemma pres_VisitIndirectFieldDecl [pres_intros]:
  assumes rec: "\<And>req. pres k dc (rec req)"
  shows "pres k dc (VisitIndirectFieldDecl rec E decl cd chain t)"
  unfolding VisitIndirectFieldDecl_def
  by (auto intro!: pres_intros rec simp: Let_def)

lemma pres_VisitFunctionDecl [pres_intros]:
  assumes rec: "\<And>req. pres k dc (rec req)"
  shows "pres k dc (VisitFunctionDecl rec E fi)"
  unfolding VisitFunctionDecl_def
  by (auto intro!: pres_intros rec simp: Let_def split: cdecl_kind.split option.split prod.split)

lemma pres_VisitFieldDecl [pres_intros]:
  assumes rec: "\<And>req. pres k dc (rec req)"
  shows "pres k dc (VisitFieldDecl rec E decl cd fi)"
  unfolding VisitFieldDecl_def
  by (auto intro!: pres_intros rec simp: Let_def)

lemma pres_VisitVarDecl [pres_intros]:
  assumes rec: "\<And>req. pres k dc (rec req)"
  shows "pres k dc (VisitVarDecl rec E decl cd t)"
  unfolding VisitVarDecl_def
  by (auto intro!: pres_intros rec simp: Let_def)

lemma pres_objcMethodOfDecl [pres_intros]: "pres k dc (objcMethodOfDecl E r)"
  unfolding objcMethodOfDecl_def
  by (auto intro!: pres_intros split: option.split cdecl_kind.split)

lemma pres_buildGetterThunk [pres_intros]: "pres k dc (buildGetterThunk E getter c indices)"
  unfolding buildGetterThunk_def
  by (auto intro!: pres_intros simp: Let_def)

lemma pres_buildSetterThunk [pres_intros]: "pres k dc (buildSetterThunk E setter c indices)"
  unfolding buildSetterThunk_def
  by (auto intro!: pres_intros simp: Let_def split: list.split)

lemma pres_castFuncDecl [pres_intros]: "pres k dc (castFuncDecl r)"
  unfolding castFuncDecl_def by (auto intro!: pres_intros)

lemma pres_importCounterpart [pres_intros]:
  assumes rec: "\<And>req. pres k dc (rec req)"
  shows "pres k dc (importCounterpart rec E interface sel)"
  unfolding importCounterpart_def
  by (auto intro!: pres_intros rec split: option.split)

lemma pres_subscriptAccessors [pres_intros]:
  assumes rec: "\<And>req. pres k dc (rec req)"
  shows "pres k dc (subscriptAccessors rec E decl interface sel)"
  unfolding subscriptAccessors_def
  by (auto intro!: pres_intros rec simp: Let_def split: option.split prod.split)

lemma pres_checkSetterForm [pres_intros]: "pres k dc (checkSetterForm setter elementTy indices)"
  unfolding checkSetterForm_def
  by (auto intro!: pres_intros split: option.split list.split pattern.split)

lemma pres_findOverriddenSubscript [pres_intros]:
  "pres k dc (findOverriddenSubscript E unlabeled rs)"
  by (induction rs) (auto intro!: pres_intros split: list.split)

lemma pres_markSubscriptOverride [pres_intros]:
  "pres k dc (markSubscriptOverride subscript getterThunk setterThunk parentSub)"
  unfolding markSubscriptOverride_def
  by (auto intro!: pres_intros split: option.split)

lemma pres_makeSubscript [pres_intros]: "pres k dc (makeSubscript E c getter setter)"
  unfolding makeSubscript_def
  by (auto intro!: pres_intros simp: Let_def split: option.split list.split pattern.split)

lemma pres_importSubscript [pres_intros]:
  assumes rec: "\<And>req. pres k dc (rec req)"
  shows "pres k dc (importSubscript rec E decl objcMethod c)"
  unfolding importSubscript_def
  by (auto intro!: pres_intros rec split: option.split prod.split)

lemma pres_importConstructor [pres_intros]:
  assumes rec: "\<And>req. pres k dc (rec req)"
  shows "pres k dc (importConstructor rec E decl objcMethod cd mi c)"
  unfolding importConstructor_def
  by (auto intro!: pres_intros rec simp: Let_def
        split: option.split prod.split cdeclctx.split ctx_kind.split stype.split
          cdecl_kind.split)

lemma pres_importSpecialMethod [pres_intros]:
  assumes rec: "\<And>req. pres k dc (rec req)"
  shows "pres k dc (importSpecialMethod rec E decl c)"
  unfolding importSpecialMethod_def
  by (auto intro!: pres_intros rec split: option.split prod.split method_family.split)

lemma pres_importOverriddenMethod [pres_intros]:
  assumes rec: "\<And>req. pres k dc (rec req)"
  shows "pres k dc (importOverriddenMethod rec E selfTy mi)"
  unfolding importOverriddenMethod_def
  by (auto intro!: pres_intros rec
        split: option.split stype.split cdecl_kind.split cdeclctx.split ctx_kind.split)

lemma pres_VisitObjCMethodDeclIn [pres_intros]:
  assumes rec: "\<And>req. pres k dc (rec req)"
    and notk: "canonicalDecl cd \<noteq> k"
  shows "pres k dc (VisitObjCMethodDeclIn rec E cd mi c)"
  unfolding VisitObjCMethodDeclIn_def
  by (auto intro!: pres_intros rec notk simp: Let_def split: option.split prod.split)

lemma pres_VisitObjCMethodDecl [pres_intros]:
  assumes rec: "\<And>req. pres k dc (rec req)"
    and notk: "canonicalDecl cd \<noteq> k"
  shows "pres k dc (VisitObjCMethodDecl rec E decl cd mi)"
  unfolding VisitObjCMethodDecl_def
  by (auto intro!: pres_intros pres_VisitObjCMethodDeclIn rec notk)

lemma pres_importProtocolList [pres_intros]:
  assumes rec: "\<And>req. pres k dc (rec req)"
  shows "pres k dc (importProtocolList rec cps protocols)"
  by (induction cps arbitrary: protocols) (auto intro!: pres_intros rec split: option.split)

lemma pres_importObjCProtocols [pres_intros]:
  assumes rec: "\<And>req. pres k dc (rec req)"
  shows "pres k dc (importObjCProtocols rec E decl cps)"
  unfolding importObjCProtocols_def
  by (auto intro!: pres_intros rec)

lemma pres_importObjCMember [pres_intros]:
  assumes rec: "\<And>req. pres k dc (rec req)"
  shows "pres k dc (importObjCMember rec E c m km)"
  unfolding importObjCMember_def
  by (auto intro!: pres_intros rec simp: Let_def split: option.split cdecl_kind.split)

lemma pres_importObjCMembersLoop [pres_intros]:
  assumes rec: "\<And>req. pres k dc (rec req)"
  shows "pres k dc (importObjCMembersLoop rec E c ms km)"
  by (induction ms arbitrary: km) (auto intro!: pres_intros rec)

lemma pres_importObjCMembers [pres_intros]:
  assumes rec: "\<And>req. pres k dc (rec req)"
  shows "pres k dc (importObjCMembers rec E decls c members)"
  unfolding importObjCMembers_def
  by (auto intro!: pres_intros rec)

lemma pres_mirrorMembers [pres_intros]:
  assumes rec: "\<And>req. pres k dc (rec req)"
  shows "pres k dc (mirrorMembers rec E decl c ms members)"
  by (induction ms arbitrary: members)
     (auto intro!: pres_intros rec split: option.split prod.split)

lemma pres_importMirroredProtocolMembers [pres_intros]:
  assumes rec: "\<And>req. pres k dc (rec req)"
  shows "pres k dc (importMirroredProtocolMembers rec E decl c protocols members)"
  by (induction protocols arbitrary: members) (auto intro!: pres_intros rec)

lemma pres_containerOf [pres_intros]: "pres k dc (containerOf E c)"
  unfolding containerOf_def
  by (auto intro!: pres_intros split: cdecl_kind.split)

lemma pres_inheritConstructors [pres_intros]:
  assumes rec: "\<And>req. pres k dc (rec req)"
  shows "pres k dc (inheritConstructors rec E objcClass ci c ms km)"
  by (induction ms arbitrary: km)
     (auto intro!: pres_intros rec split: option.split cdecl_kind.split)

lemma pres_inheritFromContainers [pres_intros]:
  assumes rec: "\<And>req. pres k dc (rec req)"
  shows "pres k dc (inheritFromContainers rec E objcClass ci c cs km)"
  by (induction cs arbitrary: km) (auto intro!: pres_intros rec)

lemma pres_inheritFromClasses [pres_intros]:
  assumes rec: "\<And>req. pres k dc (rec req)"
  shows "pres k dc (inheritFromClasses n rec E objcClass ci c cur km)"
  by (induction n arbitrary: cur km) (auto intro!: pres_intros rec split: option.split)

lemma pres_importInheritedConstructors [pres_intros]:
  assumes rec: "\<And>req. pres k dc (rec req)"
  shows "pres k dc (importInheritedConstructors rec E objcClass ci c members)"
  unfolding importInheritedConstructors_def
  by (auto intro!: pres_intros rec)

lemma pres_VisitObjCCategoryDecl [pres_intros]:
  assumes rec: "\<And>req. pres k dc (rec req)"
    and notk: "canonicalDecl cd \<noteq> k"
  shows "pres k dc (VisitObjCCategoryDecl rec E decl cd ci)"
  unfolding VisitObjCCategoryDecl_def
  by (auto intro!: pres_intros rec notk)

lemma pres_VisitObjCProtocolDefinition [pres_intros]:
  assumes rec: "\<And>req. pres k dc (rec req)"
    and notk: "\<And>D cd. getCDecl E D = Some cd \<Longrightarrow> canonicalDecl cd = k
                 \<Longrightarrow> \<exists>v. declKind cd = EnumConstantDecl v"
  shows "pres k dc (VisitObjCProtocolDefinition rec E decl)"
  unfolding VisitObjCProtocolDefinition_def
  apply (rule pres_bnd_getCDecl)
  by (auto intro!: pres_intros rec simp: Let_def split: cdecl_kind.split dest: notk)

lemma pres_VisitObjCProtocolDecl [pres_intros]:
  assumes rec: "\<And>req. pres k dc (rec req)"
    and notk: "\<And>D cd. getCDecl E D = Some cd \<Longrightarrow> canonicalDecl cd = k
                 \<Longrightarrow> \<exists>v. declKind cd = EnumConstantDecl v"
  shows "pres k dc (VisitObjCProtocolDecl rec E ci)"
  unfolding VisitObjCProtocolDecl_def
  by (auto intro!: pres_intros pres_VisitObjCProtocolDefinition rec notk split: option.split)

lemma pres_VisitObjCInterfaceDefinition [pres_intros]:
  assumes rec: "\<And>req. pres k dc (rec req)"
    and notk: "\<And>D cd. getCDecl E D = Some cd \<Longrightarrow> canonicalDecl cd = k
                 \<Longrightarrow> \<exists>v. declKind cd = EnumConstantDecl v"
  shows "pres k dc (VisitObjCInterfaceDefinition rec E decl)"
  unfolding VisitObjCInterfaceDefinition_def
  apply (rule pres_bnd_getCDecl)
  by (auto intro!: pres_intros rec simp: Let_def split: cdecl_kind.split option.split
        dest: notk)

lemma pres_VisitObjCInterfaceDecl [pres_intros]:
  assumes rec: "\<And>req. pres k dc (rec req)"
    and notk: "\<And>D cd. getCDecl E D = Some cd \<Longrightarrow> canonicalDecl cd = k
                 \<Longrightarrow> \<exists>v. declKind cd = EnumConstantDecl v"
  shows "pres k dc (VisitObjCInterfaceDecl rec E ci)"
  unfolding VisitObjCInterfaceDecl_def
  by (auto intro!: pres_intros pres_VisitObjCInterfaceDefinition rec notk split: option.split)

lemma pres_propertyLookup [pres_intros]: "pres k dc (propertyLookup rs overridden)"
  by (induction rs arbitrary: overridden) (auto intro!: pres_intros)

lemma pres_VisitObjCPropertyDecl [pres_intros]:
  assumes rec: "\<And>req. pres k dc (rec req)"
  shows "pres k dc (VisitObjCPropertyDecl rec E decl cd pi)"
  unfolding VisitObjCPropertyDecl_def
  by (auto intro!: pres_intros rec simp: Let_def split: option.split cdeclctx.split)

lemma pres_noteClangNode [pres_intros]: "pres k dc (noteClangNode E always canon result)"
  unfolding noteClangNode_def
  by (auto intro!: pres_intros split: option.split)

lemma pres_VisitEnumConstantDecl_other:
  assumes rec: "\<And>req. pres k dc (rec req)"
    and notk: "canonicalDecl cd \<noteq> k"
  shows "pres k dc (VisitEnumConstantDecl rec E decl cd initVal)"
  unfolding VisitEnumConstantDecl_def importEnumConstant_def
  by (auto intro!: pres_intros rec notk simp: Let_def
        split: option.split prod.split EnumKind.split)

lemma pres_Visit_other:
  assumes rec: "\<And>req. pres k dc (rec req)"
    and notk: "\<And>D cd. getCDecl E D = Some cd \<Longrightarrow> canonicalDecl cd = k
                 \<Longrightarrow> \<exists>v. declKind cd = EnumConstantDecl v"
    and other: "\<And>cd. getCDecl E decl = Some cd \<Longrightarrow> canonicalDecl cd \<noteq> k"
  shows "pres k dc (Visit rec E decl)"
  unfolding Visit_def
  apply (rule pres_bnd_getCDecl)
  by (auto intro!: pres_intros pres_VisitEnumConstantDecl_other rec other simp: Let_def
        split: cdecl_kind.split intro: notk)

lemma pres_protocolCache [pres_intros]:
  "pres k dc (\<lambda>s'. Some ((), s'\<lparr>ImportedProtocolDecls := f s'\<rparr>))"
  by (rule pres_other) auto

lemma pres_importMirroredDeclBody:
  assumes rec: "\<And>req. pres k dc (rec req)"
    and notk: "\<And>D cd. getCDecl E D = Some cd \<Longrightarrow> canonicalDecl cd = k
                 \<Longrightarrow> \<exists>v. declKind cd = EnumConstantDecl v"
  shows "pres k dc (importMirroredDeclBody rec E declOpt c)"
proof (cases declOpt)
  case None
  then show ?thesis by (simp add: importMirroredDeclBody_def pres_ret)
next
  case (Some decl)
  have nk: "canonicalDecl cd \<noteq> k"
    if "getCDecl E decl = Some cd" "declKind cd = ObjCMethodDecl mi" for cd mi
    using notk [OF that(1)] that(2) by auto
  show ?thesis
    unfolding importMirroredDeclBody_def Some option.case
    apply (rule pres_bnd_getCDecl)
    by (auto intro!: pres_intros rec simp: nk nk [symmetric]
          split: option.split cdecl_kind.split)
qed

text \<open>
  Recording a declaration in \<open>dc\<close>, or null, for \<open>k\<close> keeps what is kept.
\<close>
lemma keeps_record:
  assumes "keeps k dc s t"
    and "cachedIn k dc s \<Longrightarrow>
           (case r of None \<Rightarrow> True
            | Some w \<Rightarrow> w < length (arena t) \<and> d_context (arena t ! w) = Some dc)"
  shows "keeps k dc s (t\<lparr>ImportedDecls := (k, r) # ImportedDecls t\<rparr>)"
proof (rule keepsI)
  show "length (arena s) \<le> length (arena (t\<lparr>ImportedDecls := (k, r) # ImportedDecls t\<rparr>))"
    using keeps_length [OF assms(1)] by simp
next
  fix i assume "i < length (arena s)"
  then show "d_context (arena (t\<lparr>ImportedDecls := (k, r) # ImportedDecls t\<rparr>) ! i)
               = d_context (arena s ! i)"
    using keeps_context [OF assms(1)] by simp
next
  assume "cachedIn k dc s"
  from assms(2) [OF this] show "cachedIn k dc (t\<lparr>ImportedDecls := (k, r) # ImportedDecls t\<rparr>)"
    by (auto simp: cachedIn_def split: option.splits)
qed

text \<open>
  The conversion of an enum constant whose enum is not imported as an enum and
  stands, perhaps inside records, in the translation unit: what it returns is
  a declaration in the module, when the cache entry of the constant was one
  or none before.
\<close>
lemma VisitEnumConstantDecl_module:
  assumes rec: "\<And>req. pres (canonicalDecl xd) (ModuleContext M) (rec req)"
    and M: "firstClangModule E = Some M"
    and ctx: "declContext xd = Ctx Ctx_Enum e p" "getCDecl E e = Some ecd"
      "declKind ecd = EnumDecl ei" "enclosingFileContext (declContext ecd) = TranslationUnit"
    and run: "VisitEnumConstantDecl rec E x xd val s = Some (r, s')"
  shows "keeps (canonicalDecl xd) (ModuleContext M) s s'
         \<and> (cachedIn (canonicalDecl xd) (ModuleContext M) s \<longrightarrow>
              (case r of None \<Rightarrow> True
               | Some w \<Rightarrow> w < length (arena s')
                   \<and> d_context (arena s' ! w) = Some (ModuleContext M)))"
proof -
  let ?k = "canonicalDecl xd"
  let ?dc = "ModuleContext M"
  let ?good = "\<lambda>r t. case r of None \<Rightarrow> True
                 | Some w \<Rightarrow> w < length (arena t) \<and> d_context (arena t ! w) = Some ?dc"
  show ?thesis
  proof (cases "importName E (declName xd) [] = []")
    case True
    with run have "r = None" "s' = s"
      by (simp_all add: VisitEnumConstantDecl_def Let_def ret_apply)
    then show ?thesis by (simp add: keeps_refl)
  next
    case False
    have e: "enumOfContext E (declContext xd) s = Some ((e, ecd, ei), s)"
      using ctx by (simp add: enumOfContext_def bnd_apply nonNull_apply ret_apply)
    have "classifyEnum E ecd ei \<noteq> Enum"
      by (simp add: classifyEnum_def Let_def)
    with run False e obtain ck where
      i: "importEnumConstant rec E xd val (importName E (declName xd) []) e ecd ck s
            = Some (r, s')"
      by (cases "classifyEnum E ecd ei")
         (auto simp: VisitEnumConstantDecl_def Let_def bnd_apply)
    have c: "importDeclContext rec E (enclosingFileContext (declContext ecd)) s
               = Some (Some ?dc, s)"
      by (simp add: ctx importDeclContext_def ret_apply M)
    from i c obtain tyo s2 where
      t: "importType rec E (TagDeclType e) Normal s = Some (tyo, s2)"
      by (auto simp: importEnumConstant_def Let_def orNull_apply split: option.splits)
    from pres_importType [OF rec] t have k2: "keeps ?k ?dc s s2"
      by (rule presD)
    show ?thesis
    proof (cases tyo)
      case None
      with i c t have "r = None" "s' = s2"
        by (simp_all add: importEnumConstant_def Let_def orNull_apply)
      with k2 show ?thesis by simp
    next
      case (Some ty)
      show ?thesis
      proof (cases "map_of (ImportedDecls s2) ?k")
        case (Some known)
        with i c t \<open>tyo = Some ty\<close> have r: "r = known" "s' = s2"
          by (simp_all add: importEnumConstant_def Let_def orNull_apply bnd_apply
                findImportedDecl_apply ret_apply)
        have "?good r s'" if "cachedIn ?k ?dc s"
          using keeps_cachedIn [OF k2 that] Some r
          by (auto simp: cachedIn_def split: option.splits)
        with k2 r show ?thesis by simp
      next
        case None
        with i c t \<open>tyo = Some ty\<close> obtain s3 where
          m: "createConstant E (importName E (declName xd) []) ?dc ty (APValue_Int val) ck s2
                = Some (r, s3)"
          and s': "s' = s3\<lparr>ImportedDecls := (?k, r) # ImportedDecls s3\<rparr>"
          by (auto simp: importEnumConstant_def Let_def orNull_apply bnd_apply
                findImportedDecl_apply setImportedDecl_apply ret_apply split: option.splits)
        from pres_createConstant m have k3: "keeps ?k ?dc s2 s3"
          by (rule presD)
        have g: "?good r s3"
        proof (cases r)
          case None
          then show ?thesis by simp
        next
          case (Some w)
          from createConstant_result [OF m [unfolded Some]]
          have "w < length (arena s3)" "d_context (arena s3 ! w) = Some ?dc"
            by auto
          then show ?thesis by (simp add: Some)
        qed
        have "keeps ?k ?dc s s'"
          unfolding s' by (rule keeps_record [OF keeps_trans [OF k2 k3]]) (rule g)
        moreover from g have "?good r s'"
          by (simp add: s' split: option.splits)
        ultimately show ?thesis by simp
      qed
    qed
  qed
qed

lemma importDeclBody_module:
  assumes rec: "\<And>req. pres (canonicalDecl xd) (ModuleContext M) (rec req)"
    and M: "firstClangModule E = Some M"
    and x: "getCDecl E x = Some xd" "declKind xd = EnumConstantDecl val"
    and ctx: "declContext xd = Ctx Ctx_Enum e p" "getCDecl E e = Some ecd"
      "declKind ecd = EnumDecl ei" "enclosingFileContext (declContext ecd) = TranslationUnit"
    and run: "importDeclBody rec E (Some x) s = Some (r, s')"
  shows "keeps (canonicalDecl xd) (ModuleContext M) s s'
         \<and> (cachedIn (canonicalDecl xd) (ModuleContext M) s \<longrightarrow>
              (case r of None \<Rightarrow> True
               | Some w \<Rightarrow> w < length (arena s')
                   \<and> d_context (arena s' ! w) = Some (ModuleContext M)))"
proof (cases "map_of (ImportedDecls s) (canonicalDecl xd)")
  case (Some known)
  with run x have "r = known" "s' = s"
    by (simp_all add: importDeclBody_def bnd_apply nonNull_apply findImportedDecl_apply
          ret_apply)
  with Some show ?thesis
    by (auto simp: keeps_refl cachedIn_def split: option.splits)
next
  case None
  let ?k = "canonicalDecl xd"
  let ?dc = "ModuleContext M"
  from run x None obtain s1 s2 where
    v: "VisitEnumConstantDecl rec E x xd val s = Some (r, s1)"
    and n: "noteClangNode E False ?k r s1 = Some ((), s2)"
    and s': "s' = s2\<lparr>ImportedDecls := (?k, r) # ImportedDecls s2\<rparr>"
    by (auto simp: importDeclBody_def Visit_def Let_def bnd_apply nonNull_apply
          findImportedDecl_apply setImportedDecl_apply ret_apply split: option.splits)
  from VisitEnumConstantDecl_module [where rec = rec, OF rec M ctx v]
  have k1: "keeps ?k ?dc s s1"
    and g1: "cachedIn ?k ?dc s \<Longrightarrow>
               (case r of None \<Rightarrow> True
                | Some w \<Rightarrow> w < length (arena s1) \<and> d_context (arena s1 ! w) = Some ?dc)"
    by simp_all
  from pres_noteClangNode n have k2: "keeps ?k ?dc s1 s2"
    by (rule presD)
  have g2: "case r of None \<Rightarrow> True
            | Some w \<Rightarrow> w < length (arena s2) \<and> d_context (arena s2 ! w) = Some ?dc"
    if "cachedIn ?k ?dc s"
    using g1 [OF that] keeps_declaration [OF k2] by (auto split: option.splits)
  have "keeps ?k ?dc s s'"
    unfolding s' by (rule keeps_record [OF keeps_trans [OF k1 k2]]) (rule g2)
  moreover have "case r of None \<Rightarrow> True
            | Some w \<Rightarrow> w < length (arena s') \<and> d_context (arena s' ! w) = Some ?dc"
    if "cachedIn ?k ?dc s"
    using g2 [OF that] by (simp add: s' split: option.splits)
  ultimately show ?thesis by simp
qed

text \<open>Every import keeps that, whatever it imports.\<close>
lemma pres_importDeclBody:
  assumes rec: "\<And>req. pres (canonicalDecl xd) (ModuleContext M) (rec req)"
    and M: "firstClangModule E = Some M"
    and x: "getCDecl E x = Some xd" "declKind xd = EnumConstantDecl val"
    and ctx: "declContext xd = Ctx Ctx_Enum e p" "getCDecl E e = Some ecd"
      "declKind ecd = EnumDecl ei" "enclosingFileContext (declContext ecd) = TranslationUnit"
    and sole: "\<And>D cd. getCDecl E D = Some cd \<Longrightarrow> canonicalDecl cd = canonicalDecl xd
                 \<Longrightarrow> D = x"
  shows "pres (canonicalDecl xd) (ModuleContext M) (importDeclBody rec E d)"
proof (cases d)
  case None
  then show ?thesis by (simp add: importDeclBody_def pres_ret)
next
  case (Some D)
  let ?k = "canonicalDecl xd"
  let ?dc = "ModuleContext M"
  have notk: "\<exists>v. declKind cd = EnumConstantDecl v"
    if "getCDecl E D' = Some cd" "canonicalDecl cd = ?k" for D' cd
    using sole [OF that] that(1) x by auto
  show ?thesis
  proof (cases "D = x")
    case True
    show ?thesis
      unfolding pres_def Some True
      using importDeclBody_module [where rec = rec, OF rec M x ctx] by blast
  next
    case False
    have other: "canonicalDecl cd \<noteq> ?k" if "getCDecl E D = Some cd" for cd
      using sole [OF that] False by auto
    show ?thesis
      unfolding importDeclBody_def Some option.case
      apply (rule pres_bnd_getCDecl)
      by (auto intro!: pres_intros pres_Visit_other rec notk
            simp: other other [symmetric] split: option.split prod.split)
  qed
qed

lemma pres_importer:
  assumes M: "firstClangModule E = Some M"
    and x: "getCDecl E x = Some xd" "declKind xd = EnumConstantDecl val"
    and ctx: "declContext xd = Ctx Ctx_Enum e p" "getCDecl E e = Some ecd"
      "declKind ecd = EnumDecl ei" "enclosingFileContext (declContext ecd) = TranslationUnit"
    and sole: "\<And>D cd. getCDecl E D = Some cd \<Longrightarrow> canonicalDecl cd = canonicalDecl xd
                 \<Longrightarrow> D = x"
  shows "pres (canonicalDecl xd) (ModuleContext M) (importer n E req)"
proof (induction n arbitrary: req)
  case 0
  show ?case by (simp add: pres_abort)
next
  case (Suc n)
  have notk: "\<exists>v. declKind cd = EnumConstantDecl v"
    if "getCDecl E D' = Some cd" "canonicalDecl cd = canonicalDecl xd" for D' cd
    using sole [OF that] that(1) x by auto
  show ?case
  proof (cases req)
    case (ImportDeclReq d)
    then show ?thesis
      using pres_importDeclBody [where rec = "importer n E", OF Suc.IH M x ctx sole] by simp
  next
    case (ImportMirroredDeclReq d c)
    then show ?thesis
      using pres_importMirroredDeclBody [where rec = "importer n E", OF Suc.IH notk] by simp
  qed
qed

section \<open>Initializer recognition\<close>

lemma startsWithWord_init:
  "startsWithWord first ''init'' \<longleftrightarrow>
     (\<exists>rest. first = ''init'' @ rest \<and> (case rest of [] \<Rightarrow> True | c # cs \<Rightarrow> \<not> islower c))"
proof
  assume a: "startsWithWord first ''init''"
  then have pre: "take (length ''init'') first = ''init''"
    by (auto simp: startsWithWord_def startswith_def split: if_splits)
  define rest where "rest = drop (length ''init'') first"
  have f: "first = ''init'' @ rest"
    using pre by (metis append_take_drop_id rest_def)
  have "case rest of [] \<Rightarrow> True | c # cs \<Rightarrow> \<not> islower c"
    using a unfolding f
    by (cases rest) (auto simp: startsWithWord_def startswith_def split: if_splits)
  with f show "\<exists>rest. first = ''init'' @ rest \<and> (case rest of [] \<Rightarrow> True | c # cs \<Rightarrow> \<not> islower c)"
    by blast
next
  assume "\<exists>rest. first = ''init'' @ rest \<and> (case rest of [] \<Rightarrow> True | c # cs \<Rightarrow> \<not> islower c)"
  then obtain rest where f: "first = ''init'' @ rest"
    and r: "case rest of [] \<Rightarrow> True | c # cs \<Rightarrow> \<not> islower c" by blast
  show "startsWithWord first ''init''"
    using f r by (cases rest) (auto simp: startsWithWord_def startswith_def)
qed

text \<open>
  C3: an Objective-C method is really an initializer if and only if it is an
  instance method, the first slot of its selector has an identifier, that
  identifier starts with \<open>init\<close>, and the character after \<open>init\<close>, if there
  is one, is not a lowercase letter. So a method whose first slot is
  \<open>initialize\<close> is not an initializer, and an instance method whose first
  slot is \<open>initWithCapacity\<close> is one.
\<close>
theorem isReallyInitMethod_iff:
  "(isReallyInitMethod m \<longleftrightarrow>
      (meth_isInstanceMethod m \<and>
       (\<exists>rest. getIdentifierInfoForSlot (meth_selector m) 0 = Some (''init'' @ rest)
          \<and> (case rest of [] \<Rightarrow> True | c # cs \<Rightarrow> \<not> islower c))))
   \<and> (getIdentifierInfoForSlot (meth_selector m) 0 = Some ''initialize''
        \<longrightarrow> \<not> isReallyInitMethod m)
   \<and> (meth_isInstanceMethod m
        \<and> getIdentifierInfoForSlot (meth_selector m) 0 = Some ''initWithCapacity''
        \<longrightarrow> isReallyInitMethod m)"
proof -
  have 1: "isReallyInitMethod m \<longleftrightarrow>
      (meth_isInstanceMethod m \<and>
       (\<exists>rest. getIdentifierInfoForSlot (meth_selector m) 0 = Some (''init'' @ rest)
          \<and> (case rest of [] \<Rightarrow> True | c # cs \<Rightarrow> \<not> islower c)))"
    by (cases "getIdentifierInfoForSlot (meth_selector m) 0")
       (auto simp: isReallyInitMethod_def startsWithWord_init)
  have 2: "\<not> startsWithWord ''initialize'' ''init''"
    by (simp add: startsWithWord_def startswith_def islower_def)
  have 3: "startsWithWord ''initWithCapacity'' ''init''"
    by (simp add: startsWithWord_def startswith_def islower_def)
  show ?thesis
    using 1 2 3 by (auto simp: isReallyInitMethod_def)
qed

theorem isReallyInitMethod_iff_witness:
  "isReallyInitMethod (exampleMethod (Selector [Some ''initWithCapacity''] 1) True OMF_init)
   \<and> \<not> isReallyInitMethod (exampleMethod (Selector [Some ''initialize''] 0) True OMF_init)
   \<and> \<not> isReallyInitMethod (exampleMethod (Selector [Some ''initWithCapacity''] 1) False OMF_init)
   \<and> isReallyInitMethod (exampleMethod (Selector [Some ''init''] 0) True OMF_init)
   \<and> \<not> isReallyInitMethod (exampleMethod (Selector [None] 1) True OMF_init)"
  using isReallyInitMethod_iff [of "exampleMethod (Selector [Some ''initWithCapacity''] 1) True OMF_init"]
        isReallyInitMethod_iff [of "exampleMethod (Selector [Some ''initialize''] 0) True OMF_init"]
        isReallyInitMethod_iff [of "exampleMethod (Selector [Some ''initWithCapacity''] 1) False OMF_init"]
        isReallyInitMethod_iff [of "exampleMethod (Selector [Some ''init''] 0) True OMF_init"]
        isReallyInitMethod_iff [of "exampleMethod (Selector [None] 1) True OMF_init"]
  by (simp add: exampleMethod_def islower_def)

section \<open>Enum classification\<close>

text \<open>
  C7: the classification of an enum is a function of the name that the
  importer can use for it (the imported declaration name, else the imported
  name of its typedef): an enum without a declaration name and without a
  typedef name is classified as constants, every enum with a usable name as
  options, and no enum is classified as a Swift enum.
\<close>
theorem classifyEnum_by_name:
  "classifyEnum E d ei =
     (if importTagName E (declName d) (enum_typedefNameForAnonDecl ei) = [] then Constants
      else Options)
   \<and> (importTagName E (declName d) (enum_typedefNameForAnonDecl ei)
        = importTagName E' (declName d') (enum_typedefNameForAnonDecl ei')
        \<longrightarrow> classifyEnum E d ei = classifyEnum E' d' ei')
   \<and> (declName d = None \<and> enum_typedefNameForAnonDecl ei = None
        \<longrightarrow> classifyEnum E d ei = Constants)
   \<and> (importTagName E (declName d) (enum_typedefNameForAnonDecl ei) \<noteq> []
        \<longrightarrow> classifyEnum E d ei = Options)
   \<and> classifyEnum E d ei \<noteq> Enum"
  by (simp add: classifyEnum_def importTagName_def)

theorem classifyEnum_by_name_witness:
  "classifyEnum exampleEnv (exampleDecl None TranslationUnit 0 (EnumDecl (exampleEnumInfo None [])))
      (exampleEnumInfo None []) = Constants
   \<and> classifyEnum exampleEnv
        (exampleDecl (Some ''Color'') TranslationUnit 0 (EnumDecl (exampleEnumInfo None [])))
        (exampleEnumInfo None []) = Options
   \<and> classifyEnum exampleEnv
        (exampleDecl None TranslationUnit 0 (EnumDecl (exampleEnumInfo (Some ''Color'') [])))
        (exampleEnumInfo (Some ''Color'') []) = Options"
  using classifyEnum_by_name [of exampleEnv
          "exampleDecl None TranslationUnit 0 (EnumDecl (exampleEnumInfo None []))"
          "exampleEnumInfo None []" exampleEnv
          "exampleDecl None TranslationUnit 0 (EnumDecl (exampleEnumInfo None []))"
          "exampleEnumInfo None []"]
        classifyEnum_by_name [of exampleEnv
          "exampleDecl (Some ''Color'') TranslationUnit 0 (EnumDecl (exampleEnumInfo None []))"
          "exampleEnumInfo None []" exampleEnv
          "exampleDecl (Some ''Color'') TranslationUnit 0 (EnumDecl (exampleEnumInfo None []))"
          "exampleEnumInfo None []"]
        classifyEnum_by_name [of exampleEnv
          "exampleDecl None TranslationUnit 0 (EnumDecl (exampleEnumInfo (Some ''Color'') []))"
          "exampleEnumInfo (Some ''Color'') []" exampleEnv
          "exampleDecl None TranslationUnit 0 (EnumDecl (exampleEnumInfo (Some ''Color'') []))"
          "exampleEnumInfo (Some ''Color'') []"]
  by (simp add: importTagName_def exampleEnv_def exampleImportName_def exampleDecl_def
        exampleEnumInfo_def)

section \<open>Well-known C types\<close>

text \<open>
  C4, at a typedef named \<open>SEL\<close> whose underlying type is not a pointer: the
  table entry of \<open>SEL\<close> has the kind of the opaque selector, the underlying
  type is no pointer to the builtin selector type, and yet
  \<open>getSwiftStdlibType\<close> goes on to look for the module and, not finding it,
  sets the error flag.
\<close>
theorem getSwiftStdlibType_selector_not_pointer:
  "getAsPointerType selEnv (OpaqueType 0) = None
   \<and> getSwiftStdlibType selEnv (OpaqueType 0) ''SEL'' = Some ((None, []), True)"
  by (simp add: getSwiftStdlibType_def checkCTypeKind_def selEnv_def exampleEnv_def)

section \<open>The cache of imported declarations\<close>

lemma importDecl_again:
  assumes "importDecl n E D s = Some (r, s')" and "0 < m"
  shows "importDecl m E D s' = Some (r, s')"
proof -
  from assms(2) obtain m' where m: "m = Suc m'" by (cases m) auto
  from assms(1) obtain n' where n: "n = Suc n'"
    by (cases n) (auto simp: importDecl_def abort_apply)
  show ?thesis
  proof (cases D)
    case None
    with assms(1) show ?thesis
      by (simp add: m n importDecl_def importDeclBody_def run_simps)
  next
    case (Some decl)
    from assms(1) Some obtain cd where cd: "getCDecl E decl = Some cd"
      by (auto simp: n importDecl_def importDeclBody_def run_simps split: option.splits)
    show ?thesis
    proof (cases "map_of (ImportedDecls s) (canonicalDecl cd)")
      case (Some k)
      with assms(1) \<open>D = Some decl\<close> cd show ?thesis
        by (simp add: m n importDecl_def importDeclBody_def run_simps)
    next
      case None
      with assms(1) \<open>D = Some decl\<close> cd obtain result fwd s1 s2 where
        v: "Visit (importer n' E) E decl s = Some ((result, fwd), s1)" and
        c: "noteClangNode E False (canonicalDecl cd) result s1 = Some ((), s2)" and
        f: "(if result \<noteq> None \<or> \<not> fwd then setImportedDecl (canonicalDecl cd) result
             else ret ()) s2 = Some ((), s')" and
        r: "r = result"
        by (auto simp: n importDecl_def importDeclBody_def run_simps
              split: option.splits prod.splits)
      show ?thesis
      proof (cases "result \<noteq> None \<or> \<not> fwd")
        case True
        with f have "map_of (ImportedDecls s') (canonicalDecl cd) = Some result"
          by (auto simp: run_simps)
        with \<open>D = Some decl\<close> cd r show ?thesis
          by (simp add: m importDecl_def importDeclBody_def run_simps)
      next
        case False
        then have res: "result = None" and fwd: "fwd" by auto
        from v fwd have "Visit (importer n' E) E decl s = Some ((result, True), s1)" by simp
        from Visit_forward [OF this] have s1: "s1 = s"
          and again: "Visit (importer m' E) E decl s = Some ((None, True), s)" by auto
        from c res have "s2 = s1" by (simp add: noteClangNode_def run_simps)
        moreover from f res fwd have "s' = s2" by (simp add: run_simps)
        ultimately have "s' = s" using s1 by simp
        with \<open>D = Some decl\<close> cd None again r res show ?thesis
          by (simp add: m importDecl_def importDeclBody_def run_simps noteClangNode_def)
      qed
    qed
  qed
qed

text \<open>
  C1: when \<open>importDecl\<close> has returned for a declaration, a second call for the
  same declaration returns the same Swift declaration (the same index of the
  arena, or null again) without converting anything: one level of the
  importer is enough for it and the state, with its arena, stays as it is.
\<close>
theorem importDecl_twice:
  assumes "importDecl n E D s = Some (r, s')" and "0 < m"
  shows "importDecl m E D s' = Some (r, s')"
  using assms by (rule importDecl_again)

lemma importDecl_Color:
  "case importDecl 5 colorEnv (Some 0) emptyImpl of
     None \<Rightarrow> False
   | Some (r, s') \<Rightarrow> r = Some 0"
  by code_simp

theorem importDecl_twice_witness:
  "case importDecl 5 colorEnv (Some 0) emptyImpl of
     None \<Rightarrow> False
   | Some (r, s') \<Rightarrow> r = Some 0 \<and> importDecl 1 colorEnv (Some 0) s' = Some (Some 0, s')"
proof -
  from importDecl_Color obtain s' where
    e: "importDecl 5 colorEnv (Some 0) emptyImpl = Some (Some 0, s')"
    by (auto split: option.splits)
  from importDecl_twice [OF e, of 1] e show ?thesis by simp
qed

section \<open>Forward declarations\<close>







section \<open>Subscripts from a setter alone\<close>

lemma subscript_selectors_distinct:
  "setObjectAtIndexedSubscript \<noteq> objectAtIndexedSubscript"
  "setObjectForKeyedSubscript \<noteq> objectAtIndexedSubscript"
  "setObjectForKeyedSubscript \<noteq> setObjectAtIndexedSubscript"
  "setObjectForKeyedSubscript \<noteq> objectForKeyedSubscript"
  "objectForKeyedSubscript \<noteq> objectAtIndexedSubscript"
  "objectForKeyedSubscript \<noteq> setObjectAtIndexedSubscript"
  by (simp_all add: objectAtIndexedSubscript_def setObjectAtIndexedSubscript_def
        objectForKeyedSubscript_def setObjectForKeyedSubscript_def)

lemmas subscript_selectors_neq =
  subscript_selectors_distinct subscript_selectors_distinct [symmetric]

text \<open>
  C6: for a set-by-index or set-by-key instance method of an interface,
  imported as a function, \<open>importSubscript\<close> returns null when the interface
  has no instance method with the matching getter selector (and then changes
  nothing), and when the import of that getter yields null (and then changes
  nothing beyond that import): no subscript is made from a setter alone. A
  method without an interface yields null as well.
\<close>
theorem importSubscript_setter_alone:
  "(meth_isInstanceMethod mi \<and> decl < length (arena s) \<and> isFuncDecl (arena s ! decl)
      \<and> ((meth_selector mi = setObjectAtIndexedSubscript \<and> getterSel = objectAtIndexedSubscript)
          \<or> (meth_selector mi = setObjectForKeyedSubscript \<and> getterSel = objectForKeyedSubscript))
      \<and> meth_classInterface mi = Some interface
      \<and> lookupMethod E interface getterSel True = None
      \<longrightarrow> importSubscript rec E decl mi dc s = Some (None, s))
   \<and> (meth_isInstanceMethod mi \<and> decl < length (arena s) \<and> isFuncDecl (arena s ! decl)
      \<and> ((meth_selector mi = setObjectAtIndexedSubscript \<and> getterSel = objectAtIndexedSubscript)
          \<or> (meth_selector mi = setObjectForKeyedSubscript \<and> getterSel = objectForKeyedSubscript))
      \<and> meth_classInterface mi = Some interface
      \<and> lookupMethod E interface getterSel True = Some objcGetter
      \<and> rec (ImportDeclReq (Some objcGetter)) s = Some (None, s1)
      \<longrightarrow> importSubscript rec E decl mi dc s = Some (None, s1))
   \<and> (meth_isInstanceMethod mi \<and> meth_classInterface mi = None
      \<longrightarrow> importSubscript rec E decl mi dc s = Some (None, s))"
  by (auto simp: importSubscript_def subscriptAccessors_def importCounterpart_def
        castFuncDecl_def castOrNullDecl_def run_simps subscript_selectors_neq Let_def)

lemma importDecl_Container_setter_only:
  "case importDecl 3 (containerEnv [2]) (Some 0) emptyImpl of
     None \<Rightarrow> False
   | Some (r, s') \<Rightarrow>
       r = Some 0 \<and> length (arena s') = 2 \<and> isFuncDecl (arena s' ! 1)
       \<and> isClassDecl (arena s' ! 0) \<and> d_members (arena s' ! 0) = [1]
       \<and> Subscripts s' = []"
  by code_simp

theorem importSubscript_setter_alone_witness:
  "case importDecl 3 (containerEnv [2]) (Some 0) emptyImpl of
     None \<Rightarrow> False
   | Some (r, s') \<Rightarrow>
       isFuncDecl (arena s' ! 1)
       \<and> importSubscript (importer 2 (containerEnv [2])) (containerEnv [2]) 1
            (exampleMethod setObjectAtIndexedSubscript True OMF_None\<lparr>meth_classInterface := Some 0\<rparr>)
            (DeclContextOf 0) s' = Some (None, s')
       \<and> importSubscript (importer 2 (containerEnv [2])) (containerEnv [2]) 1
            (exampleMethod setObjectAtIndexedSubscript True OMF_None)
            (DeclContextOf 0) s' = Some (None, s')"
proof -
  from importDecl_Container_setter_only obtain s' where
    e: "importDecl 3 (containerEnv [2]) (Some 0) emptyImpl = Some (Some 0, s')"
    and a: "length (arena s') = 2" "isFuncDecl (arena s' ! 1)"
    by (auto split: option.splits)
  have l: "lookupMethod (containerEnv [2]) 0 objectAtIndexedSubscript True = None"
    by (simp add: containerEnv_def containerLookup_def exampleEnv_def
          subscript_selectors_neq)
  from importSubscript_setter_alone
         [where mi = "exampleMethod setObjectAtIndexedSubscript True OMF_None\<lparr>meth_classInterface := Some 0\<rparr>"
            and decl = 1 and s = s' and getterSel = objectAtIndexedSubscript
            and interface = 0 and E = "containerEnv [2]"
            and rec = "importer 2 (containerEnv [2])" and dc = "DeclContextOf 0"]
       importSubscript_setter_alone
         [where mi = "exampleMethod setObjectAtIndexedSubscript True OMF_None"
            and decl = 1 and s = s' and getterSel = objectAtIndexedSubscript
            and E = "containerEnv [2]"
            and rec = "importer 2 (containerEnv [2])" and dc = "DeclContextOf 0"]
       e a l
  show ?thesis
    by (simp add: exampleMethod_def)
qed

section \<open>The context of an enum constant\<close>

lemma enclosingFileContext_isFileContext: "isFileContext (enclosingFileContext c)"
  by (induction c) auto

lemma enclosingFileContext_nearest:
  "find isFileContext (ctxChain c) = Some (enclosingFileContext c)"
  by (induction c) auto

lemma importDeclContext_TranslationUnit:
  "isTranslationUnit fc \<Longrightarrow>
   importDeclContext rec E fc s = Some (map_option ModuleContext (firstClangModule E), s)"
  by (simp add: importDeclContext_def ret_apply)

lemma importEnumConstant_context:
  assumes "importEnumConstant rec E cd initVal name clangEnum ecd k s = Some (Some v, s')"
  shows "\<exists>dc s1 type s2.
           importDeclContext rec E (enclosingFileContext (declContext ecd)) s = Some (Some dc, s1)
         \<and> importType rec E (TagDeclType clangEnum) Normal s1 = Some (Some type, s2)
         \<and> ((map_of (ImportedDecls s2) (canonicalDecl cd) = Some (Some v) \<and> s' = s2)
            \<or> (map_of (ImportedDecls s2) (canonicalDecl cd) = None
               \<and> v = length (arena s2)
               \<and> d_kind (arena s' ! v) = DeclKind_Var
               \<and> d_name (arena s' ! v) = name
               \<and> d_context (arena s' ! v) = Some dc
               \<and> d_type (arena s' ! v) = Some type))"
proof -
  let ?fc = "enclosingFileContext (declContext ecd)"
  from assms obtain dc s1 where
    c: "importDeclContext rec E ?fc s = Some (Some dc, s1)"
    by (auto simp: importEnumConstant_def Let_def orNull_apply split: option.splits)
  with assms obtain type s2 where
    t: "importType rec E (TagDeclType clangEnum) Normal s1 = Some (Some type, s2)"
    by (auto simp: importEnumConstant_def Let_def orNull_apply split: option.splits)
  show ?thesis
  proof (cases "map_of (ImportedDecls s2) (canonicalDecl cd)")
    case (Some k)
    with assms c t have "k = Some v \<and> s' = s2"
      by (simp add: importEnumConstant_def Let_def orNull_apply bnd_apply
            findImportedDecl_apply ret_apply)
    with Some c t show ?thesis by blast
  next
    case None
    with assms c t obtain s3 where
      m: "createConstant E name dc type (APValue_Int initVal) k s2 = Some (Some v, s3)"
      and s': "s' = s3\<lparr>ImportedDecls := (canonicalDecl cd, Some v) # ImportedDecls s3\<rparr>"
      by (auto simp: importEnumConstant_def Let_def orNull_apply bnd_apply
            findImportedDecl_apply setImportedDecl_apply ret_apply split: option.splits)
    from createConstant_result [OF m] s' None c t show ?thesis
      by auto
  qed
qed

lemma VisitEnumConstantDecl_no_module:
  assumes "firstClangModule E = None"
    and "declContext xd = Ctx Ctx_Enum e p" "getCDecl E e = Some ecd"
      "declKind ecd = EnumDecl ei" "enclosingFileContext (declContext ecd) = TranslationUnit"
    and "VisitEnumConstantDecl rec E x xd val s = Some (r, s')"
  shows "r = None"
proof -
  have "classifyEnum E ecd ei \<noteq> Enum"
    by (simp add: classifyEnum_def Let_def)
  with assms show ?thesis
    by (cases "classifyEnum E ecd ei")
       (auto simp: VisitEnumConstantDecl_def importEnumConstant_def enumOfContext_def
          importDeclContext_def Let_def bnd_apply nonNull_apply orNull_apply ret_apply
          split: if_splits)
qed

text \<open>A namespace is never imported: its import is nil, unless the cache says otherwise.\<close>
lemma importer_namespace:
  assumes "getCDecl E ns = Some nd" and "declKind nd = NeverImported k"
    and "\<forall>w. map_of (ImportedDecls s) (canonicalDecl nd) \<noteq> Some (Some w)"
    and "importer n E (ImportDeclReq (Some ns)) s = Some (r, s')"
  shows "r = None"
proof (cases n)
  case 0
  with assms(4) show ?thesis by (simp add: abort_apply)
next
  case (Suc m)
  with assms show ?thesis
    by (cases "map_of (ImportedDecls s) (canonicalDecl nd)")
       (auto simp: importDeclBody_def Visit_def noteClangNode_def Let_def bnd_apply
          nonNull_apply findImportedDecl_apply setImportedDecl_apply ret_apply)
qed

lemma VisitEnumConstantDecl_namespace:
  assumes "declContext xd = Ctx Ctx_Enum e p" "getCDecl E e = Some ecd"
      "declKind ecd = EnumDecl ei" "enclosingFileContext (declContext ecd) = Ctx c ns q"
    and "getCDecl E ns = Some nd" and "declKind nd = NeverImported k"
    and "\<forall>w. map_of (ImportedDecls s) (canonicalDecl nd) \<noteq> Some (Some w)"
    and "VisitEnumConstantDecl (importer n E) E x xd val s = Some (r, s')"
  shows "r = None"
proof -
  have k: "classifyEnum E ecd ei \<noteq> Enum"
    by (simp add: classifyEnum_def Let_def)
  from enclosingFileContext_isFileContext [of "declContext ecd"] assms(4)
  have c: "c = Ctx_Namespace" by simp
  have "r' = None" if "importDeclContext (importer n E) E (Ctx c ns q) s = Some (r', t)" for r' t
    using that importer_namespace [OF assms(5,6,7), of n]
    by (auto simp: importDeclContext_def c orNull_apply split: option.splits)
  with assms(1-4,8) k show ?thesis
    by (cases "classifyEnum E ecd ei")
       (auto simp: VisitEnumConstantDecl_def importEnumConstant_def enumOfContext_def
          Let_def bnd_apply nonNull_apply orNull_apply ret_apply
          split: if_splits option.splits)
qed

text \<open>
  C10: an enum constant \<open>x\<close>, declared once and not imported yet, whose enum is
  classified as constants or as options. The nearest file context \<open>fc\<close> is
  found going outwards from the context of the enum, through the records
  around it. It is the translation unit or a namespace; a namespace is a
  declaration that is never imported and has not been recorded as imported.
  Whatever else the importer has imported before, and however the import of
  the constant re-enters the importer (the import of the enum's type may import
  the enum, the records around it and the constant itself, whose declaration
  is then taken from the cache): a declaration that \<open>importDecl\<close> returns for
  the constant has the import of \<open>fc\<close> as its context. This is the module of
  the importer, for \<open>fc\<close> is then the translation unit; it is not a declaration
  of the arena, as the import of the enum or of a record is.
\<close>
theorem enum_constant_file_context:
  assumes "getCDecl E x = Some xd" and "declKind xd = EnumConstantDecl val"
    and "declContext xd = Ctx Ctx_Enum e p" and "getCDecl E e = Some ecd"
    and "declKind ecd = EnumDecl ei"
    and "classifyEnum E ecd ei = Constants \<or> classifyEnum E ecd ei = Options"
    and "find isFileContext (ctxChain (declContext ecd)) = Some fc"
    and "\<forall>c ns q. fc = Ctx c ns q \<longrightarrow>
           (\<exists>nd. getCDecl E ns = Some nd \<and> declKind nd = NeverImported NamespaceDecl
                \<and> (\<forall>w. map_of (ImportedDecls s) (canonicalDecl nd) \<noteq> Some (Some w)))"
    and "\<forall>D cd. getCDecl E D = Some cd \<and> canonicalDecl cd = canonicalDecl xd \<longrightarrow> D = x"
    and "map_of (ImportedDecls s) (canonicalDecl xd) = None"
    and "importDecl n E (Some x) s = Some (Some v, s')"
  shows "v < length (arena s')
         \<and> (\<forall>rec t. importDeclContext rec E fc t = Some (d_context (arena s' ! v), t))
         \<and> fc = TranslationUnit
         \<and> (\<exists>M. firstClangModule E = Some M \<and> d_context (arena s' ! v) = Some (ModuleContext M))
         \<and> (\<forall>r. d_context (arena s' ! v) \<noteq> Some (DeclContextOf r))"
proof -
  from assms(7) have fc: "enclosingFileContext (declContext ecd) = fc"
    by (simp add: enclosingFileContext_nearest)
  from assms(11) obtain m where n: "n = Suc m"
    by (cases n) (auto simp: importDecl_def abort_apply)
  from assms(1,2,10,11) obtain s1 where
    visit: "VisitEnumConstantDecl (importer m E) E x xd val s = Some (Some v, s1)"
    by (auto simp: n importDecl_def importDeclBody_def Visit_def Let_def bnd_apply
          nonNull_apply findImportedDecl_apply ret_apply split: option.splits)
  have sole: "D = x" if "getCDecl E D = Some cd" "canonicalDecl cd = canonicalDecl xd" for D cd
    using assms(9) that by blast
  have tu: "fc = TranslationUnit"
  proof (cases fc)
    case (Ctx c ns q)
    with assms(8) obtain nd where
      nd: "getCDecl E ns = Some nd" "declKind nd = NeverImported NamespaceDecl"
        "\<forall>w. map_of (ImportedDecls s) (canonicalDecl nd) \<noteq> Some (Some w)"
      by blast
    from VisitEnumConstantDecl_namespace [OF assms(3-5) fc [unfolded Ctx] nd visit]
    show ?thesis by simp
  qed
  note fc = fc [unfolded tu]
  show ?thesis
  proof (cases "firstClangModule E")
    case None
    from VisitEnumConstantDecl_no_module [OF None assms(3-5) fc visit] show ?thesis
      by simp
  next
    case (Some M)
    have rec: "pres (canonicalDecl xd) (ModuleContext M) (importer m E req)" for req
      by (rule pres_importer [OF Some assms(1,2,3,4,5) fc sole])
    from assms(11) have run: "importDeclBody (importer m E) E (Some x) s = Some (Some v, s')"
      by (simp add: n importDecl_def)
    have "cachedIn (canonicalDecl xd) (ModuleContext M) s"
      using assms(10) by (simp add: cachedIn_def)
    with importDeclBody_module [where rec = "importer m E", OF rec Some assms(1,2,3,4,5) fc run]
    have "v < length (arena s')" "d_context (arena s' ! v) = Some (ModuleContext M)"
      by simp_all
    with Some tu show ?thesis
      by (simp add: importDeclContext_def ret_apply)
  qed
qed

lemma importDecl_nested_enumerator:
  "case importDecl 6 (nestedEnumEnv (Some ''Inner'')) (Some 2) emptyImpl of
     None \<Rightarrow> False
   | Some (r, s') \<Rightarrow>
       r = Some 5 \<and> map_of (ImportedDecls s') 1 = Some (Some 7)
       \<and> d_kind (arena s' ! 7) = DeclKind_Struct
       \<and> d_context (arena s' ! 7) = Some (DeclContextOf 0)
       \<and> d_kind (arena s' ! 5) = DeclKind_Var \<and> d_name (arena s' ! 5) = ''A''"
  by code_simp

theorem enum_constant_file_context_witness:
  "\<exists>s'. importDecl 6 (nestedEnumEnv (Some ''Inner'')) (Some 2) emptyImpl = Some (Some 5, s')
       \<and> classifyEnum (nestedEnumEnv (Some ''Inner'')) (ast (nestedEnumEnv (Some ''Inner'')) ! 1)
            ((exampleEnumInfo None [2])\<lparr>enum_definition := Some 1\<rparr>) = Options
       \<and> declContext (ast (nestedEnumEnv (Some ''Inner'')) ! 1) = Ctx Ctx_Record 0 TranslationUnit
       \<and> d_kind (arena s' ! 5) = DeclKind_Var \<and> d_name (arena s' ! 5) = ''A''
       \<and> d_context (arena s' ! 5) = Some (ModuleContext 0)
       \<and> d_context (arena s' ! 7) = Some (DeclContextOf 0)"
proof -
  let ?E = "nestedEnumEnv (Some ''Inner'')"
  let ?ei = "(exampleEnumInfo None [2])\<lparr>enum_definition := Some 1\<rparr>"
  from importDecl_nested_enumerator obtain s' where
    r: "importDecl 6 ?E (Some 2) emptyImpl = Some (Some 5, s')"
    and k: "d_kind (arena s' ! 5) = DeclKind_Var" "d_name (arena s' ! 5) = ''A''"
      "d_context (arena s' ! 7) = Some (DeclContextOf 0)"
    by (auto split: option.splits)
  have a: "getCDecl ?E 2 = Some (ast ?E ! 2)"
    "declKind (ast ?E ! 2) = EnumConstantDecl 5"
    "declContext (ast ?E ! 2) = Ctx Ctx_Enum 1 (Ctx Ctx_Record 0 TranslationUnit)"
    "getCDecl ?E 1 = Some (ast ?E ! 1)"
    "declKind (ast ?E ! 1) = EnumDecl ?ei"
    by (simp_all add: nestedEnumEnv_def getCDecl_def exampleDecl_def)
  have c: "classifyEnum ?E (ast ?E ! 1) ?ei = Options"
    by code_simp
  have d: "declContext (ast ?E ! 1) = Ctx Ctx_Record 0 TranslationUnit"
    "canonicalDecl (ast ?E ! 2) = 2" "firstClangModule ?E = Some 0"
    by (simp_all add: nestedEnumEnv_def exampleDecl_def exampleEnv_def)
  have f: "find isFileContext (ctxChain (declContext (ast ?E ! 1))) = Some TranslationUnit"
    unfolding d by simp
  have g: "\<forall>c ns q. TranslationUnit = Ctx c ns q \<longrightarrow>
           (\<exists>nd. getCDecl ?E ns = Some nd \<and> declKind nd = NeverImported NamespaceDecl
                \<and> (\<forall>w. map_of (ImportedDecls emptyImpl) (canonicalDecl nd) \<noteq> Some (Some w)))"
    by simp
  have o: "\<forall>D cd. getCDecl ?E D = Some cd \<and> canonicalDecl cd = canonicalDecl (ast ?E ! 2)
             \<longrightarrow> D = 2"
    unfolding d
    by (auto simp: nestedEnumEnv_def getCDecl_def exampleDecl_def less_Suc_eq
          split: if_splits)
  have u: "map_of (ImportedDecls emptyImpl) (canonicalDecl (ast ?E ! 2)) = None"
    by (simp add: emptyImpl_def)
  from enum_constant_file_context [OF a disjI2 [OF c] f g o u r] d(3)
  have "d_context (arena s' ! 5) = Some (ModuleContext 0)"
    by auto
  with r c d(1) k show ?thesis by blast
qed

section \<open>The members of an Objective-C container\<close>

text \<open>
  One turn of the loop of \<open>importObjCMembers\<close>, on a method \<open>m\<close> of the
  container whose import is the declaration \<open>member\<close>. When the method has a
  property and the import of that property is a declaration, the turn leaves
  the known members and the member list as they were: the method is not
  added. When no property was imported and \<open>importSpecialMethod\<close> makes a
  constructor from the imported method, the turn adds the constructor (once:
  not when it is known already) and does not add the method.
\<close>
lemma importObjCMember_hidden:
  assumes "getCDecl E m = Some nd"
    and "declKind nd = ObjCMethodDecl objcMethod"
    and "rec (ImportDeclReq (Some m)) s = Some (Some member, s1)"
  shows "(meth_findPropertyDecl objcMethod = Some property
          \<and> rec (ImportDeclReq (Some property)) s1 = Some (Some pv, s2)
          \<longrightarrow> importObjCMember rec E swiftContext m (knownMembers, members) s
                = Some ((knownMembers, members), s2))
       \<and> ((meth_findPropertyDecl objcMethod = None \<and> s2 = s1
            \<or> meth_findPropertyDecl objcMethod = Some property
              \<and> rec (ImportDeclReq (Some property)) s1 = Some (None, s2))
          \<and> importSpecialMethod rec E member swiftContext s2 = Some (Some special, s3)
          \<and> special < length (arena s3) \<and> isConstructorDecl (arena s3 ! special)
          \<longrightarrow> importObjCMember rec E swiftContext m (knownMembers, members) s
                = Some ((List.insert special knownMembers,
                         if special \<in> set knownMembers then members else members @ [special]),
                        s3))"
  using assms
  by (auto simp: importObjCMember_def isNamedDecl_def Let_def bnd_apply nonNull_apply
        ret_apply getDecl_apply)

lemma importDecl_Widget:
  "case importDecl 6 widgetEnv (Some 0) emptyImpl of
     None \<Rightarrow> False
   | Some (r, s') \<Rightarrow>
       r = Some 0
       \<and> map d_kind (arena s') = [DeclKind_Class, DeclKind_Func, DeclKind_Func,
            DeclKind_Constructor, DeclKind_Func, DeclKind_Var, DeclKind_Func]
       \<and> map d_clangNode (arena s') = [Some 0, Some 1, Some 2, Some 2, Some 3, Some 4, None]
       \<and> d_members (arena s' ! 0) = [1, 3, 5]
       \<and> importer 5 widgetEnv (ImportDeclReq (Some 3)) s' = Some (Some 4, s')
       \<and> importer 5 widgetEnv (ImportDeclReq (Some 4)) s' = Some (Some 5, s')
       \<and> importer 5 widgetEnv (ImportDeclReq (Some 2)) s' = Some (Some 2, s')
       \<and> (case importSpecialMethod (importer 5 widgetEnv) widgetEnv 2 (DeclContextOf 0) s' of
            None \<Rightarrow> False
          | Some (sp, s3) \<Rightarrow>
              sp = Some 7 \<and> length (arena s3) = 8 \<and> isConstructorDecl (arena s3 ! 7))"
  by code_simp

lemma importObjCMember_hidden_Widget:
  "\<exists>s' s3. importDecl 6 widgetEnv (Some 0) emptyImpl = Some (Some 0, s')
     \<and> d_members (arena s' ! 0) = [1, 3, 5]
     \<and> importObjCMember (importer 5 widgetEnv) widgetEnv (DeclContextOf 0) 3 ([], [1]) s'
          = Some (([], [1]), s')
     \<and> importObjCMember (importer 5 widgetEnv) widgetEnv (DeclContextOf 0) 2 ([], [1]) s'
          = Some (([7], [1, 7]), s3)"
proof -
  from importDecl_Widget obtain s' s3 where
    e: "importDecl 6 widgetEnv (Some 0) emptyImpl = Some (Some 0, s')"
       "d_members (arena s' ! 0) = [1, 3, 5]"
    and r: "importer 5 widgetEnv (ImportDeclReq (Some 3)) s' = Some (Some 4, s')"
       "importer 5 widgetEnv (ImportDeclReq (Some 4)) s' = Some (Some 5, s')"
       "importer 5 widgetEnv (ImportDeclReq (Some 2)) s' = Some (Some 2, s')"
    and c: "importSpecialMethod (importer 5 widgetEnv) widgetEnv 2 (DeclContextOf 0) s'
              = Some (Some 7, s3)"
       "length (arena s3) = 8" "isConstructorDecl (arena s3 ! 7)"
    by (auto split: option.splits)
  have a: "getCDecl widgetEnv 3 = Some (widgetAst ! 3)"
    "declKind (widgetAst ! 3) = ObjCMethodDecl
       ((exampleMethod (Selector [Some ''name''] 0) True OMF_None)
          \<lparr> meth_resultType := OpaqueType 1, meth_classInterface := Some 0,
            meth_findPropertyDecl := Some 4 \<rparr>)"
    "getCDecl widgetEnv 2 = Some (widgetAst ! 2)"
    "declKind (widgetAst ! 2) = ObjCMethodDecl
       ((exampleMethod (Selector [Some ''init''] 0) True OMF_init)
          \<lparr> meth_resultType := OpaqueType 1, meth_classInterface := Some 0 \<rparr>)"
    by (simp_all add: widgetEnv_def widgetAst_def getCDecl_def exampleDecl_def exampleEnv_def)
  have p: "meth_findPropertyDecl
       ((exampleMethod (Selector [Some ''name''] 0) True OMF_None)
          \<lparr> meth_resultType := OpaqueType 1, meth_classInterface := Some 0,
            meth_findPropertyDecl := Some 4 \<rparr>) = Some 4"
    "meth_findPropertyDecl
       ((exampleMethod (Selector [Some ''init''] 0) True OMF_init)
          \<lparr> meth_resultType := OpaqueType 1, meth_classInterface := Some 0 \<rparr>) = None"
    by (simp_all add: exampleMethod_def)
  from importObjCMember_hidden [where rec = "importer 5 widgetEnv" and s = s'
         and property = 4 and pv = 5 and ?s2.0 = s'
         and swiftContext = "DeclContextOf 0" and knownMembers = "[]" and members = "[1]",
         OF a(1) a(2) r(1)]
       importObjCMember_hidden [where rec = "importer 5 widgetEnv" and s = s'
         and ?s2.0 = s' and special = 7 and ?s3.0 = s3
         and swiftContext = "DeclContextOf 0" and knownMembers = "[]" and members = "[1]",
         OF a(3) a(4) r(3)]
       p r c e
  show ?thesis by auto
qed

text \<open>
  C9: the interface \<open>Gadget\<close> declares \<open>alloc\<close> and conforms to the protocol
  \<open>Maker\<close>, which declares \<open>init\<close>. The members of the class that the import
  of \<open>Gadget\<close> makes are the function \<open>alloc\<close> (4), the function \<open>init\<close>
  that mirrors the method of the protocol (5), and the constructor that is
  synthesized from that function (6): the member list holds the plain method
  of an init method together with the constructor made from it.
\<close>
theorem mirrored_init_method_is_member:
  "case importDecl 6 gadgetEnv (Some 0) emptyImpl of
     None \<Rightarrow> False
   | Some (r, s') \<Rightarrow>
       r = Some 0
       \<and> map d_kind (arena s') = [DeclKind_Class, DeclKind_Protocol, DeclKind_AssociatedType,
            DeclKind_Func, DeclKind_Func, DeclKind_Func, DeclKind_Constructor]
       \<and> map d_name (arena s') = [''Gadget'', ''MakerProto'', ''Self'', ''init'', ''alloc'',
            ''init'', ''init'']
       \<and> map d_clangNode (arena s') = [Some 0, Some 3, None, Some 2, Some 1, Some 2, Some 2]
       \<and> d_context (arena s' ! 5) = Some (DeclContextOf 0)
       \<and> d_context (arena s' ! 6) = Some (DeclContextOf 0)
       \<and> d_members (arena s' ! 0) = [4, 5, 6]
       \<and> ImportedProtocolDecls s' = [((2, DeclContextOf 0), Some 5)]"
  by code_simp

section \<open>Subscripts\<close>

text \<open>
  C5: the interface \<open>Container\<close> declares the get-by-index method \<open>M\<close>
  (declaration 1) and the matching set-by-index method \<open>N\<close> (declaration 2).
  When \<open>M\<close> is imported first and then \<open>N\<close>, the importer has made two
  subscript declarations (5 and 9), each with a getter and a setter of its
  own: the first for the pair of functions (1, 2) while the members of
  \<open>Container\<close> were imported, the second for the pair (6, 2), where 6 is a
  second function made for \<open>M\<close> after the import of its context. When \<open>N\<close>
  is imported first and then \<open>M\<close>, the two subscripts are made for the pairs
  (1, 2) and (1, 6), where 6 is a second function made for \<open>N\<close>.
\<close>
theorem importSubscript_duplicated:
  "(case importDecl 5 (containerEnv [1, 2]) (Some 1) emptyImpl of
      None \<Rightarrow> False
    | Some (m, s1) \<Rightarrow>
        (case importDecl 5 (containerEnv [1, 2]) (Some 2) s1 of
           None \<Rightarrow> False
         | Some (n, s2) \<Rightarrow>
             m = Some 6 \<and> n = Some 2
             \<and> filter (\<lambda>i. isSubscriptDecl (arena s2 ! i)) [0..<length (arena s2)] = [5, 9]
             \<and> (d_getter (arena s2 ! 5), d_setter (arena s2 ! 5)) = (Some 3, Some 4)
             \<and> (d_getter (arena s2 ! 9), d_setter (arena s2 ! 9)) = (Some 7, Some 8)
             \<and> Subscripts s2 = [((Some 7, None), 9), ((Some 6, Some 2), 9),
                                ((Some 3, None), 5), ((Some 1, Some 2), 5)]
             \<and> map d_clangNode (arena s2) = [Some 0, Some 1, Some 2, None, None, None,
                                              Some 1, None, None, None]
             \<and> d_members (arena s2 ! 0) = [5, 1, 2]))
   \<and> (case importDecl 5 (containerEnv [1, 2]) (Some 2) emptyImpl of
      None \<Rightarrow> False
    | Some (n, s1) \<Rightarrow>
        (case importDecl 5 (containerEnv [1, 2]) (Some 1) s1 of
           None \<Rightarrow> False
         | Some (m, s2) \<Rightarrow>
             n = Some 6 \<and> m = Some 1
             \<and> filter (\<lambda>i. isSubscriptDecl (arena s2 ! i)) [0..<length (arena s2)] = [5, 9]
             \<and> Subscripts s2 = [((Some 7, None), 9), ((Some 1, Some 6), 9),
                                ((Some 3, None), 5), ((Some 1, Some 2), 5)]
             \<and> map d_clangNode (arena s2) = [Some 0, Some 1, Some 2, None, None, None,
                                              Some 2, None, None, None]
             \<and> d_members (arena s2 ! 0) = [5, 1, 2]))"
  by code_simp

section \<open>Enums that are imported as options\<close>

lemma foundFuncDecls_filter:
  "list_all (\<lambda>r. r < length (arena t)) (List.map_filter id rs) \<Longrightarrow>
   foundFuncDecls rs t
     = Some (filter (\<lambda>r. isFuncDecl (arena t ! r)) (List.map_filter id rs), t)"
proof (induction rs)
  case Nil
  show ?case by (simp add: ret_apply List.map_filter_simps)
next
  case (Cons r rs)
  then show ?case
    by (cases r) (simp_all add: List.map_filter_simps bnd_apply getDecl_apply ret_apply)
qed

text \<open>
  The literal that \<open>createConstant\<close> makes of an integer is the one of the
  closed form, in every state that has grown out of the state in which the
  functions \<open>-\<close> are found.
\<close>
lemma literalExpr_int:
  assumes "0 \<le> v \<or> minusFound E s" and "arena t = arena s @ ext"
  shows "literalExpr E (APValue_Int v) t = Some (Some (integerLiteral E s v), t)"
proof (cases "0 \<le> v")
  case True
  then show ?thesis
    by (simp add: literalExpr_nonneg integerLiteral_def)
next
  case False
  with assms(1) have m: "minusFound E s" by simp
  let ?rs = "List.map_filter id (unqualifiedLookup E ''-'')"
  from m have r: "list_all (\<lambda>r. r < length (arena s)) ?rs" and f: "minusFunctions E s \<noteq> []"
    by (simp_all add: minusFound_def)
  from r have "list_all (\<lambda>r. r < length (arena t)) ?rs"
    by (auto simp: list_all_iff assms(2))
  from foundFuncDecls_filter [OF this]
  have "foundFuncDecls (unqualifiedLookup E ''-'') t
          = Some (filter (\<lambda>r. isFuncDecl (arena t ! r)) ?rs, t)" .
  moreover from r have "filter (\<lambda>r. isFuncDecl (arena t ! r)) ?rs = minusFunctions E s"
    unfolding minusFunctions_def
    by (intro filter_cong) (auto simp: list_all_iff assms(2) nth_append)
  ultimately have found: "foundFuncDecls (unqualifiedLookup E ''-'') t
          = Some (minusFunctions E s, t)"
    by simp
  from f have ne: "unqualifiedLookup E ''-'' \<noteq> []"
    by (auto simp: minusFunctions_def List.map_filter_simps)
  from False have p: "intToString v = CHR ''-'' # natToString (nat (- v))"
    by (simp add: intToString_def)
  show ?thesis
    using False f ne
    by (simp add: literalExpr_def p found bnd_apply ret_apply integerLiteral_def)
qed

lemma createConstant_literal:
  assumes "\<And>t ext. arena t = arena s @ ext \<Longrightarrow> literalExpr E val t = Some (Some l, t)"
  shows "\<exists>a b. createConstant E name dc type val k s
             = Some (Some (length (arena s)),
                     s\<lparr>arena := arena s @ [a, b],
                       externalDecls := externalDecls s @ [Suc (length (arena s))]\<rparr>)
         \<and> d_kind a = DeclKind_Var \<and> d_name a = name \<and> d_context a = Some dc
         \<and> d_type a = Some type \<and> d_clangNode a = None \<and> d_isComputed a
         \<and> d_getter a = Some (Suc (length (arena s)))
         \<and> d_kind b = DeclKind_Func
         \<and> d_body b = Some [ReturnStmt (convertExpr k type l)]"
proof -
  define n where "n = length (arena s)"
  define a where
    "a = (mkDecl DeclKind_Var name (Some dc))
           \<lparr>d_type := Some type, d_isComputed := True, d_getter := Some (Suc n),
            d_setter := None\<rparr>"
  define b where
    "b = (mkDecl DeclKind_Func [] (Some dc))
           \<lparr>d_type := Some (curriedType [emptyTuplePattern] type),
            d_argPatterns := setVarDeclContexts [emptyTuplePattern] (Some (DeclContextOf (Suc n))),
            d_bodyPatterns := setVarDeclContexts [emptyTuplePattern] (Some (DeclContextOf (Suc n))),
            d_resultType := Some type,
            d_body := Some [ReturnStmt (convertExpr k type l)],
            d_accessorOf := Some n\<rparr>"
  have l: "literalExpr E val (s\<lparr>arena := arena s @ ext\<rparr>)
             = Some (Some l, s\<lparr>arena := arena s @ ext\<rparr>)" for ext
    by (rule assms) simp
  have "createConstant E name dc type val k s
          = Some (Some n, s\<lparr>arena := arena s @ [a, b],
                            externalDecls := externalDecls s @ [Suc n]\<rparr>)"
    unfolding createConstant_def
    by (simp add: bnd_apply newDecl_apply setPatternContexts_def updDecl_apply orNull_apply l
          ret_apply addedExternalDecl_apply arena_simps a_def b_def n_def mkDecl_def)
  moreover have "d_kind a = DeclKind_Var \<and> d_name a = name \<and> d_context a = Some dc
         \<and> d_type a = Some type \<and> d_clangNode a = None \<and> d_isComputed a
         \<and> d_getter a = Some (Suc n) \<and> d_kind b = DeclKind_Func
         \<and> d_body b = Some [ReturnStmt (convertExpr k type l)]"
    by (simp add: a_def b_def mkDecl_def)
  ultimately show ?thesis unfolding n_def by blast
qed

text \<open>The struct of an enum of options, with its three members.\<close>
lemma makeOptionsStruct_result:
  assumes "enum_integerType ei = OpaqueType k"
    and "importOtherType E (OpaqueType k) Normal = Some ty"
  shows "\<exists>s' S V P C. makeOptionsStruct rec E ei name dc s = Some (Some (length (arena s)), s')
         \<and> arena s' = arena s @ [S, V, P, C] \<and> ImportedDecls s' = ImportedDecls s
         \<and> d_kind S = DeclKind_Struct \<and> d_name S = name \<and> d_context S = Some dc
         \<and> d_clangNode S = None
         \<and> d_members S = [length (arena s) + 3, length (arena s) + 2, length (arena s) + 1]
         \<and> d_kind V = DeclKind_Var \<and> d_name V = ''value'' \<and> d_type V = Some ty
         \<and> \<not> d_isComputed V \<and> d_context V = Some (DeclContextOf (length (arena s)))
         \<and> d_kind P = DeclKind_PatternBinding
         \<and> d_context P = Some (DeclContextOf (length (arena s)))
         \<and> d_kind C = DeclKind_Constructor
         \<and> d_context C = Some (DeclContextOf (length (arena s)))
         \<and> d_type C = Some (FunctionType (MetaTypeType (NominalType (length (arena s))))
                              (FunctionType (TupleType [(ty, ''value'')])
                                 (NominalType (length (arena s)))))"
  unfolding makeOptionsStruct_def createValueConstructor_def
  by (simp add: bnd_apply newDecl_apply computeType_def updDecl_apply orNull_apply
        importType_def assms ret_apply Let_def getDecl_apply nonNull_apply setMembers_def
        addedExternalDecl_apply nth_append list_update_append mkDecl_def)

lemma importer_cached:
  assumes "getCDecl E d = Some cd"
    and "map_of (ImportedDecls s) (canonicalDecl cd) = Some k"
  shows "importer (Suc n) E (ImportDeclReq (Some d)) s = Some (k, s)"
  using assms
  by (simp add: importDeclBody_def bnd_apply nonNull_apply findImportedDecl_apply ret_apply)

text \<open>
  The context of a declaration at the translation unit of a module, or in a
  declaration that is imported already, is at hand without any import.
\<close>
lemma importDeclContextOf_imported:
  assumes "importedContext E s D cd = Some dc"
  shows "importDeclContextOf (importer (Suc n) E) E D cd s = Some (Some dc, s)"
proof (cases "declContext cd")
  case TranslationUnit
  with assms show ?thesis
    by (auto simp del: importer.simps
          simp: importedContext_def importDeclContextOf_def importDeclContext_def ret_apply
            Let_def split: option.splits)
next
  case (Ctx k R p)
  with assms obtain R' rd v where
    a: "asNamedDecl (Ctx k R p) = Some R'" "getCDecl E R' = Some rd"
      "map_of (ImportedDecls s) (canonicalDecl rd) = Some (Some v)" "v < length (arena s)"
      "isNominalTypeDecl (arena s ! v) \<or> d_kind (arena s ! v) = DeclKind_Extension
       \<or> d_kind (arena s ! v) = DeclKind_Constructor \<or> d_kind (arena s ! v) = DeclKind_Destructor"
      "dc = DeclContextOf v"
    by (auto simp: importedContext_def split: option.splits if_splits)
  from importer_cached [OF a(2,3), of n] a Ctx show ?thesis
    by (auto simp del: importer.simps
          simp: importDeclContextOf_def importDeclContext_def Let_def orNull_apply bnd_apply
            getDecl_apply ret_apply)
qed

lemma importType_options_cached:
  assumes "getCDecl E e = Some cd" and "declKind cd = EnumDecl ei"
    and "classifyEnum E cd ei = Options"
    and "map_of (ImportedDecls s) (canonicalDecl cd) = Some (Some st)"
    and "st < length (arena s)" and "isTypeDecl (arena s ! st)"
  shows "importType (importer (Suc n) E) E (TagDeclType e) k s = Some (Some (NominalType st), s)"
  using assms importer_cached [OF assms(1) assms(4), of n]
  by (simp add: importType_def bnd_apply nonNull_apply orNull_apply getDecl_apply ret_apply
        Let_def)

text \<open>
  The import of an enumerator of an enum of options, once the enum is imported
  as the struct \<open>st\<close>: a new constant of the type of the struct.
\<close>
lemma import_enumerator:
  assumes x: "getCDecl E x = Some xd" "declKind xd = EnumConstantDecl v"
      "declContext xd = Ctx Ctx_Enum d p" "canonicalDecl xd = x"
      "importName E (declName xd) [] \<noteq> []"
    and lit: "0 \<le> v \<or> minusFound E s" "arena t = arena s @ ext"
    and enum: "getCDecl E d = Some dd" "declKind dd = EnumDecl di"
      "enclosingFileContext (declContext dd) = TranslationUnit"
      "classifyEnum E dd di = Options"
    and M: "firstClangModule E = Some M"
    and cached: "map_of (ImportedDecls t) (canonicalDecl dd) = Some (Some st)"
      "st < length (arena t)" "isTypeDecl (arena t ! st)"
    and fresh: "map_of (ImportedDecls t) x = None"
  shows "\<exists>t' a b. importer (Suc (Suc n)) E (ImportDeclReq (Some x)) t
                    = Some (Some (length (arena t)), t')
         \<and> arena t' = arena t @ [a, b]
         \<and> constantAt t' (length (arena t)) (importName E (declName xd) []) (ModuleContext M)
              (NominalType st)
              (CallExpr (MetatypeExpr (MetaTypeType (NominalType st))) (integerLiteral E s v))
         \<and> (\<forall>y. map_of (ImportedDecls t') y
                  = (if y = x then Some (Some (length (arena t))) else map_of (ImportedDecls t) y))"
proof -
  let ?rec = "importer (Suc n) E"
  let ?name = "importName E (declName xd) []"
  let ?ty = "NominalType st"
  let ?l = "integerLiteral E s v"
  define c where "c = length (arena t)"
  have lt: "literalExpr E (APValue_Int v) t' = Some (Some ?l, t')"
    if "arena t' = arena t @ ext'" for t' ext'
    by (rule literalExpr_int [OF lit(1), of _ "ext @ ext'"]) (simp add: that lit(2))
  have "\<exists>a b. createConstant E ?name (ModuleContext M) ?ty (APValue_Int v) Construction t
             = Some (Some (length (arena t)),
                     t\<lparr>arena := arena t @ [a, b],
                       externalDecls := externalDecls t @ [Suc (length (arena t))]\<rparr>)
         \<and> d_kind a = DeclKind_Var \<and> d_name a = ?name \<and> d_context a = Some (ModuleContext M)
         \<and> d_type a = Some ?ty \<and> d_clangNode a = None \<and> d_isComputed a
         \<and> d_getter a = Some (Suc (length (arena t)))
         \<and> d_kind b = DeclKind_Func
         \<and> d_body b = Some [ReturnStmt (convertExpr Construction ?ty ?l)]"
    by (rule createConstant_literal) (erule lt)
  then obtain a b where
    k: "createConstant E ?name (ModuleContext M) ?ty (APValue_Int v) Construction t
          = Some (Some c, t\<lparr>arena := arena t @ [a, b],
                            externalDecls := externalDecls t @ [Suc c]\<rparr>)"
    and a: "d_kind a = DeclKind_Var" "d_name a = ?name" "d_context a = Some (ModuleContext M)"
      "d_type a = Some ?ty" "d_clangNode a = None" "d_isComputed a" "d_getter a = Some (Suc c)"
    and b: "d_kind b = DeclKind_Func"
      "d_body b = Some [ReturnStmt (convertExpr Construction ?ty ?l)]"
    unfolding c_def by blast
  define t1 where
    "t1 = t\<lparr>arena := arena t @ [a, b], externalDecls := externalDecls t @ [Suc c],
            ImportedDecls := (x, Some c) # ImportedDecls t\<rparr>"
  have ty: "importType ?rec E (TagDeclType d) Normal t = Some (Some ?ty, t)"
    by (rule importType_options_cached [OF enum(1) enum(2) enum(4) cached])
  have "importEnumConstant ?rec E xd v ?name d dd Construction t = Some (Some c, t1)"
    unfolding importEnumConstant_def
    by (simp del: importer.simps
          add: enum M importDeclContext_def orNull_apply ret_apply ty bnd_apply
            findImportedDecl_apply x fresh k setImportedDecl_apply t1_def)
  then have v: "Visit ?rec E x t = Some ((Some c, False), t1)"
    unfolding Visit_def VisitEnumConstantDecl_def enumOfContext_def
    by (simp del: importer.simps add: x enum bnd_apply nonNull_apply ret_apply Let_def)
  obtain a' where
    n: "noteClangNode E False x (Some c) t1
          = Some ((), t1\<lparr>arena := arena t @ [a', b]\<rparr>)"
    and a': "d_kind a' = DeclKind_Var" "d_name a' = ?name"
      "d_context a' = Some (ModuleContext M)" "d_type a' = Some ?ty" "d_isComputed a'"
      "d_getter a' = Some (Suc c)"
  proof (cases "Some (ModuleContext M) = map_option ModuleContext (getSwiftModule E)")
    case True
    then have "noteClangNode E False x (Some c) t1 = Some ((), t1\<lparr>arena := arena t @ [a, b]\<rparr>)"
      by (simp add: noteClangNode_def bnd_apply getDecl_apply ret_apply t1_def c_def a)
    with a that show ?thesis by blast
  next
    case False
    then have "noteClangNode E False x (Some c) t1
                 = Some ((), t1\<lparr>arena := arena t @ [a\<lparr>d_clangNode := Some x\<rparr>, b]\<rparr>)"
      by (simp add: noteClangNode_def bnd_apply getDecl_apply ret_apply t1_def c_def a
            setClangNode_def updDecl_apply arena_simps)
    with a that [of "a\<lparr>d_clangNode := Some x\<rparr>"] show ?thesis by simp
  qed
  define t' where
    "t' = t1\<lparr>arena := arena t @ [a', b],
             ImportedDecls := (x, Some c) # (x, Some c) # ImportedDecls t\<rparr>"
  have "importer (Suc (Suc n)) E (ImportDeclReq (Some x)) t = Some (Some c, t')"
    by (subst importer.simps)
       (simp del: importer.simps
          add: importDeclBody_def bnd_apply nonNull_apply x findImportedDecl_apply fresh
            v [unfolded t1_def] n [unfolded t1_def] setImportedDecl_apply ret_apply
            t'_def t1_def)
  moreover have "arena t' = arena t @ [a', b]"
    by (simp add: t'_def)
  moreover have "constantAt t' c ?name (ModuleContext M) ?ty
              (CallExpr (MetatypeExpr (MetaTypeType ?ty)) ?l)"
    using a' b by (simp add: constantAt_def t'_def c_def arena_simps convertExpr_def)
  moreover have "\<forall>y. map_of (ImportedDecls t') y
                  = (if y = x then Some (Some c) else map_of (ImportedDecls t) y)"
    by (simp add: t'_def)
  ultimately show ?thesis unfolding c_def by blast
qed

lemma constantAt_append:
  "constantAt s c name dc type e \<Longrightarrow> arena s' = arena s @ new \<Longrightarrow>
   constantAt s' c name dc type e"
  by (auto simp: constantAt_def nth_append)

lemma enumeratorConstant_append:
  "enumeratorConstant E s0 s st M x c \<Longrightarrow> arena s' = arena s @ new \<Longrightarrow>
   enumeratorConstant E s0 s' st M x c"
  by (auto simp: enumeratorConstant_def split: option.splits cdecl_kind.splits
        intro: constantAt_append)

text \<open>The imports of the enumerators, one after the other.\<close>
lemma import_enumerators:
  assumes enum: "getCDecl E d = Some dd" "declKind dd = EnumDecl di"
      "enclosingFileContext (declContext dd) = TranslationUnit"
      "classifyEnum E dd di = Options"
    and M: "firstClangModule E = Some M"
    and xs: "\<forall>x\<in>set xs. optionEnumerator E s d x" "canonicalDecl dd \<notin> set xs"
  shows "distinct xs \<Longrightarrow> arena t = arena s @ ext \<Longrightarrow>
         map_of (ImportedDecls t) (canonicalDecl dd) = Some (Some st) \<Longrightarrow>
         st < length (arena t) \<Longrightarrow> isTypeDecl (arena t ! st) \<Longrightarrow>
         \<forall>x\<in>set xs. map_of (ImportedDecls t) x = None \<Longrightarrow>
         \<exists>t' ms new. importEach (importer (Suc (Suc n)) E) xs t = Some (ms, t')
           \<and> arena t' = arena t @ new
           \<and> (\<forall>d\<in>set new. d_kind d = DeclKind_Var \<or> d_kind d = DeclKind_Func)
           \<and> (\<forall>y. y \<notin> set xs \<longrightarrow> map_of (ImportedDecls t') y = map_of (ImportedDecls t) y)
           \<and> (\<forall>x\<in>set xs. \<exists>c. map_of (ImportedDecls t') x = Some (Some c)
                              \<and> enumeratorConstant E s t' st M x c)"
  using xs
proof (induction xs arbitrary: t ext)
  case Nil
  then show ?case by (simp add: ret_apply)
next
  case (Cons x xs)
  from Cons.prems(7) have "optionEnumerator E s d x" by simp
  then obtain xd v p where
    x: "getCDecl E x = Some xd" "declKind xd = EnumConstantDecl v"
      "declContext xd = Ctx Ctx_Enum d p" "canonicalDecl xd = x"
      "importName E (declName xd) [] \<noteq> []"
    and lit: "0 \<le> v \<or> minusFound E s"
    by (auto simp: optionEnumerator_def split: option.splits cdecl_kind.splits cdeclctx.splits)
  from Cons.prems(8) have xe: "x \<noteq> canonicalDecl dd" by auto
  from Cons.prems(6) have fresh: "map_of (ImportedDecls t) x = None" by simp
  from import_enumerator [OF x lit Cons.prems(2) enum M Cons.prems(3,4,5) fresh, of n]
  obtain t1 a b where
    r: "importer (Suc (Suc n)) E (ImportDeclReq (Some x)) t = Some (Some (length (arena t)), t1)"
    and ar: "arena t1 = arena t @ [a, b]"
    and k: "constantAt t1 (length (arena t)) (importName E (declName xd) []) (ModuleContext M)
              (NominalType st)
              (CallExpr (MetatypeExpr (MetaTypeType (NominalType st))) (integerLiteral E s v))"
    and c: "\<forall>y. map_of (ImportedDecls t1) y
                  = (if y = x then Some (Some (length (arena t))) else map_of (ImportedDecls t) y)"
    by blast
  from k have kinds: "d_kind a = DeclKind_Var" "d_kind b = DeclKind_Func"
    by (simp_all add: constantAt_def ar arena_simps)
  from k x have ec: "enumeratorConstant E s t1 st M x (length (arena t))"
    by (simp add: enumeratorConstant_def)
  have p0: "distinct xs" "arena t1 = arena s @ (ext @ [a, b])"
    using Cons.prems(1,2) by (simp_all add: ar)
  have p1: "\<forall>x\<in>set xs. optionEnumerator E s d x" "canonicalDecl dd \<notin> set xs"
    using Cons.prems(7,8) by simp_all
  have p2: "map_of (ImportedDecls t1) (canonicalDecl dd) = Some (Some st)"
    using c xe Cons.prems(3) by simp
  have p3: "st < length (arena t1)" "isTypeDecl (arena t1 ! st)"
    using Cons.prems(4,5) by (simp_all add: ar nth_append)
  have p4: "\<forall>y\<in>set xs. map_of (ImportedDecls t1) y = None"
    using c Cons.prems(1,6) by auto
  from Cons.IH [OF p0 p2 p3 p4 p1] obtain t' ms new where
    e: "importEach (importer (Suc (Suc n)) E) xs t1 = Some (ms, t')"
    and ar': "arena t' = arena t1 @ new"
    and kn: "\<forall>d\<in>set new. d_kind d = DeclKind_Var \<or> d_kind d = DeclKind_Func"
    and c': "\<forall>y. y \<notin> set xs \<longrightarrow> map_of (ImportedDecls t') y = map_of (ImportedDecls t1) y"
    and g: "\<forall>x\<in>set xs. \<exists>c. map_of (ImportedDecls t') x = Some (Some c)
                              \<and> enumeratorConstant E s t' st M x c"
    by blast
  have 1: "importEach (importer (Suc (Suc n)) E) (x # xs) t
             = Some (length (arena t) # ms, t')"
    using r e by (simp del: importer.simps add: bnd_apply ret_apply)
  have 2: "arena t' = arena t @ ([a, b] @ new)"
    by (simp add: ar ar')
  have 3: "\<forall>d\<in>set ([a, b] @ new). d_kind d = DeclKind_Var \<or> d_kind d = DeclKind_Func"
    using kinds kn by simp
  have 4: "\<forall>y. y \<notin> set (x # xs) \<longrightarrow> map_of (ImportedDecls t') y = map_of (ImportedDecls t) y"
    using c c' by simp
  from Cons.prems(1) have "x \<notin> set xs" by simp
  with c c' have "map_of (ImportedDecls t') x = Some (Some (length (arena t)))" by simp
  moreover from ec ar' have "enumeratorConstant E s t' st M x (length (arena t))"
    by (rule enumeratorConstant_append)
  ultimately have 5: "\<forall>x\<in>set (x # xs). \<exists>c. map_of (ImportedDecls t') x = Some (Some c)
                              \<and> enumeratorConstant E s t' st M x c"
    using g by auto
  from 1 2 3 4 5 show ?case by blast
qed

text \<open>
  The first import of an enum of options whose context is at hand and whose
  integer type has a translation: the struct with its three members, and the
  constants of the enumerators after it.
\<close>
lemma importDecl_options_enum:
  assumes decl: "getCDecl E e = Some cd" "declKind cd = EnumDecl ei" "enum_definition ei = Some d"
    and defn: "getCDecl E d = Some dd" "declKind dd = EnumDecl di"
      "canonicalDecl dd = canonicalDecl cd"
    and opts: "classifyEnum E dd di = Options"
    and ty: "enum_integerType di = OpaqueType k"
      "importOtherType E (OpaqueType k) Normal = Some ty"
    and ctx: "importedContext E s d dd = Some dc"
      "enclosingFileContext (declContext dd) = TranslationUnit" "firstClangModule E = Some M"
    and xs: "\<forall>x\<in>set (enum_enumerators di). optionEnumerator E s d x"
      "distinct (enum_enumerators di)"
    and fresh: "map_of (ImportedDecls s) (canonicalDecl cd) = None"
      "\<forall>x\<in>set (enum_enumerators di). map_of (ImportedDecls s) x = None"
      "canonicalDecl cd \<notin> set (enum_enumerators di)"
  shows "\<exists>s' S V P C new.
           importDecl (Suc (Suc (Suc n))) E (Some e) s = Some (Some (length (arena s)), s')
         \<and> arena s' = arena s @ [S, V, P, C] @ new
         \<and> (\<forall>d\<in>set new. d_kind d = DeclKind_Var \<or> d_kind d = DeclKind_Func)
         \<and> map_of (ImportedDecls s') (canonicalDecl cd) = Some (Some (length (arena s)))
         \<and> d_kind S = DeclKind_Struct
         \<and> d_name S = importTagName E (declName dd) (enum_typedefNameForAnonDecl di)
         \<and> d_context S = Some dc
         \<and> d_members S = [length (arena s) + 3, length (arena s) + 2, length (arena s) + 1]
         \<and> d_kind V = DeclKind_Var \<and> d_name V = ''value'' \<and> d_type V = Some ty
         \<and> \<not> d_isComputed V
         \<and> d_kind P = DeclKind_PatternBinding
         \<and> d_kind C = DeclKind_Constructor
         \<and> d_type C = Some (FunctionType (MetaTypeType (NominalType (length (arena s))))
                              (FunctionType (TupleType [(ty, ''value'')])
                                 (NominalType (length (arena s)))))
         \<and> (\<forall>x\<in>set (enum_enumerators di).
               \<exists>c. importDecl (Suc (Suc (Suc n))) E (Some x) s' = Some (Some c, s')
                  \<and> enumeratorConstant E s s' (length (arena s)) M x c)"
proof -
  let ?rec = "importer (Suc (Suc n)) E"
  let ?name = "importTagName E (declName dd) (enum_typedefNameForAnonDecl di)"
  let ?c = "canonicalDecl cd"
  define st where "st = length (arena s)"
  from opts have name: "?name \<noteq> []"
    by (auto simp: classifyEnum_def Let_def split: if_splits)
  have ctx': "importDeclContextOf ?rec E d dd s = Some (Some dc, s)"
    by (rule importDeclContextOf_imported [OF ctx(1)])
  from makeOptionsStruct_result [OF ty, of ?rec ?name dc s]
  obtain sA S V P C where
    m: "makeOptionsStruct ?rec E di ?name dc s = Some (Some st, sA)"
    and arA: "arena sA = arena s @ [S, V, P, C]"
    and idA: "ImportedDecls sA = ImportedDecls s"
    and S: "d_kind S = DeclKind_Struct" "d_name S = ?name" "d_clangNode S = None"
      "d_members S = [st + 3, st + 2, st + 1]" "d_context S = Some dc"
    and V: "d_kind V = DeclKind_Var" "d_name V = ''value''" "d_type V = Some ty"
      "\<not> d_isComputed V"
    and P: "d_kind P = DeclKind_PatternBinding"
    and C: "d_kind C = DeclKind_Constructor"
      "d_type C = Some (FunctionType (MetaTypeType (NominalType st))
                          (FunctionType (TupleType [(ty, ''value'')]) (NominalType st)))"
    unfolding st_def by blast
  define S' where "S' = S\<lparr>d_clangNode := Some ?c\<rparr>"
  define sB where
    "sB = sA\<lparr>ImportedDecls := (?c, Some st) # ImportedDecls s,
             arena := arena s @ [S', V, P, C]\<rparr>"
  have xe: "\<forall>x\<in>set (enum_enumerators di). x \<noteq> ?c"
    using fresh(3) by auto
  have b0: "arena sB = arena s @ [S', V, P, C]"
    by (simp add: sB_def)
  have b1: "map_of (ImportedDecls sB) (canonicalDecl dd) = Some (Some st)"
    by (simp add: sB_def defn)
  have b2: "st < length (arena sB)" "isTypeDecl (arena sB ! st)"
    by (simp_all add: sB_def st_def S'_def S isTypeDecl_def isNominalTypeDecl_def)
  have b3: "\<forall>x\<in>set (enum_enumerators di). map_of (ImportedDecls sB) x = None"
    using fresh(2) xe by (simp add: sB_def)
  have b4: "canonicalDecl dd \<notin> set (enum_enumerators di)"
    using fresh(3) by (simp add: defn)
  from import_enumerators [OF defn(1,2) ctx(2) opts ctx(3) xs(1) b4 xs(2) b0 b1 b2 b3, of n]
  obtain t' ms new where
    e: "importEach ?rec (enum_enumerators di) sB = Some (ms, t')"
    and ar': "arena t' = arena sB @ new"
    and kn: "\<forall>d\<in>set new. d_kind d = DeclKind_Var \<or> d_kind d = DeclKind_Func"
    and c': "\<forall>y. y \<notin> set (enum_enumerators di)
                 \<longrightarrow> map_of (ImportedDecls t') y = map_of (ImportedDecls sB) y"
    and g: "\<forall>x\<in>set (enum_enumerators di).
              \<exists>c. map_of (ImportedDecls t') x = Some (Some c)
                 \<and> enumeratorConstant E s t' st M x c"
    by blast
  have art: "arena t' = arena s @ [S', V, P, C] @ new"
    by (simp add: ar' sB_def)
  have upd: "(arena s @ [S, V, P, C])[st := ((arena s @ [S, V, P, C]) ! st)\<lparr>d_clangNode := Some ?c\<rparr>]
               = arena s @ [S', V, P, C]"
    by (simp add: st_def S'_def arena_simps)
  have "VisitEnumDefinition ?rec E d s = Some (Some st, t')"
    unfolding VisitEnumDefinition_def
    by (simp del: importer.simps
          add: defn opts name ctx' m bnd_apply nonNull_apply orNull_apply ret_apply Let_def
            setImportedDecl_apply setClangNode_def updDecl_apply arA idA st_def [symmetric]
            upd e [unfolded sB_def])
  then have v: "Visit ?rec E e s = Some ((Some st, False), t')"
    unfolding Visit_def VisitEnumDecl_def
    by (simp del: importer.simps add: decl bnd_apply nonNull_apply ret_apply Let_def)
  have "\<exists>t''. noteClangNode E False ?c (Some st) t' = Some ((), t'')
          \<and> arena t'' = arena t' \<and> ImportedDecls t'' = ImportedDecls t'"
    by (simp add: noteClangNode_def bnd_apply getDecl_apply ret_apply art st_def
          setClangNode_def updDecl_apply S'_def update_append_length)
  then obtain t'' where
    n: "noteClangNode E False ?c (Some st) t' = Some ((), t'')"
    and t'': "arena t'' = arena t'" "ImportedDecls t'' = ImportedDecls t'"
    by blast
  define s' where "s' = t''\<lparr>ImportedDecls := (?c, Some st) # ImportedDecls t''\<rparr>"
  have r: "importDecl (Suc (Suc (Suc n))) E (Some e) s = Some (Some st, s')"
    unfolding importDecl_def
    by (subst importer.simps)
       (simp del: importer.simps
          add: importDeclBody_def bnd_apply nonNull_apply decl findImportedDecl_apply fresh v n
            setImportedDecl_apply ret_apply s'_def)
  have ars: "arena s' = arena s @ [S', V, P, C] @ new"
    by (simp add: s'_def t'' art)
  have cs: "map_of (ImportedDecls s') ?c = Some (Some st)"
    by (simp add: s'_def)
  have "\<exists>c. importDecl (Suc (Suc (Suc n))) E (Some x) s' = Some (Some c, s')
           \<and> enumeratorConstant E s s' st M x c"
    if x: "x \<in> set (enum_enumerators di)" for x
  proof -
    from g x obtain c where
      c: "map_of (ImportedDecls t') x = Some (Some c)" "enumeratorConstant E s t' st M x c"
      by blast
    from xs(1) x have "optionEnumerator E s d x" by blast
    then obtain xd where xd: "getCDecl E x = Some xd" "canonicalDecl xd = x"
      by (auto simp: optionEnumerator_def split: option.splits cdecl_kind.splits)
    from xe x c(1) have "map_of (ImportedDecls s') (canonicalDecl xd) = Some (Some c)"
      by (simp add: s'_def t'' xd)
    from importer_cached [OF xd(1) this]
    have "importDecl (Suc (Suc (Suc n))) E (Some x) s' = Some (Some c, s')"
      by (simp only: importDecl_def)
    moreover have "enumeratorConstant E s s' st M x c"
      by (rule enumeratorConstant_append [OF c(2), of _ "[]"]) (simp add: s'_def t'')
    ultimately show ?thesis by blast
  qed
  with r ars kn cs S V P C show ?thesis
    unfolding st_def [symmetric]
    by (intro exI [of _ s'] exI [of _ S'] exI [of _ V] exI [of _ P] exI [of _ C] exI [of _ new])
       (simp add: S'_def)
qed

text \<open>
  C8, the claim as stated fails. The enum \<open>Color\<close> is classified as options,
  but when its integer type has no translation its import is null, the struct
  that was allocated has no members, and the import of the enumerator \<open>Red\<close>
  is null as well and makes no declaration. The import of \<open>Color\<close> is null,
  too, when the importer has no module for the translation unit, and when
  \<open>Color\<close> has no definition. When \<open>Red\<close> is \<open>-1\<close> and no function \<open>-\<close> is
  found, or when \<open>Red\<close> has no name that the importer can use, \<open>Color\<close> is
  imported and the import of \<open>Red\<close> is null. An enum \<open>Inner\<close> of options
  in a struct \<open>Outer\<close> that is not imported yet is imported as two structs
  \<open>Inner\<close>: the import of \<open>Outer\<close>, for the context, imports \<open>Inner\<close> already.
\<close>
theorem options_enum_counterexample:
  "classifyEnum untypedColorEnv (colorAst ! 0)
      ((exampleEnumInfo None [1, 2, 3])\<lparr>enum_definition := Some 0\<rparr>) = Options
   \<and> importDecl 5 untypedColorEnv (Some 0) emptyImpl
       = Some (None,
               emptyImpl\<lparr>arena := [(mkDecl DeclKind_Struct ''Color'' (Some (ModuleContext 0)))
                                      \<lparr>d_type := Some (MetaTypeType (NominalType 0))\<rparr>],
                         ImportedDecls := [(0, None)]\<rparr>)
   \<and> importDecl 5 untypedColorEnv (Some 1)
        (emptyImpl\<lparr>arena := [(mkDecl DeclKind_Struct ''Color'' (Some (ModuleContext 0)))
                               \<lparr>d_type := Some (MetaTypeType (NominalType 0))\<rparr>],
                  ImportedDecls := [(0, None)]\<rparr>)
       = Some (None,
               emptyImpl\<lparr>arena := [(mkDecl DeclKind_Struct ''Color'' (Some (ModuleContext 0)))
                                      \<lparr>d_type := Some (MetaTypeType (NominalType 0))\<rparr>],
                         ImportedDecls := [(1, None), (0, None)]\<rparr>)
   \<and> importDecl 5 moduleLessColorEnv (Some 0) emptyImpl
       = Some (None, emptyImpl\<lparr>ImportedDecls := [(0, None)]\<rparr>)
   \<and> importDecl 5 forwardColorEnv (Some 0) emptyImpl = Some (None, emptyImpl)
   \<and> map_option fst (importDecl 5 signedColorEnv (Some 0) emptyImpl) = Some (Some 0)
   \<and> map_option fst
       (importDecl 5 signedColorEnv (Some 1)
          (snd (the (importDecl 5 signedColorEnv (Some 0) emptyImpl)))) = Some None
   \<and> map_option fst (importDecl 5 namelessRedEnv (Some 0) emptyImpl) = Some (Some 0)
   \<and> map_option fst
       (importDecl 5 namelessRedEnv (Some 1)
          (snd (the (importDecl 5 namelessRedEnv (Some 0) emptyImpl)))) = Some None
   \<and> map_option fst (importDecl 5 (nestedEnumEnv (Some ''Inner'')) (Some 1) emptyImpl)
       = Some (Some 7)
   \<and> map_option (map d_kind \<circ> arena \<circ> snd)
       (importDecl 5 (nestedEnumEnv (Some ''Inner'')) (Some 1) emptyImpl)
       = Some [DeclKind_Struct, DeclKind_Struct, DeclKind_Var, DeclKind_PatternBinding,
               DeclKind_Constructor, DeclKind_Var, DeclKind_Func, DeclKind_Struct,
               DeclKind_Var, DeclKind_PatternBinding, DeclKind_Constructor]
   \<and> map_option (map d_name \<circ> arena \<circ> snd)
       (importDecl 5 (nestedEnumEnv (Some ''Inner'')) (Some 1) emptyImpl)
       = Some [''Outer'', ''Inner'', ''value'', [], ''init'', ''A'', [], ''Inner'',
               ''value'', [], ''init'']"
  by code_simp

text \<open>
  C8, amended. Let \<open>e\<close> be a declaration of an enum whose definition \<open>d\<close> is
  visible and classified as options; \<open>e\<close> and \<open>d\<close> have the same canonical
  declaration. The integer type of \<open>d\<close> is not a tag type and the type
  translation maps it to \<open>ty\<close>. The context \<open>dc\<close> of \<open>d\<close> is at hand: \<open>d\<close> is
  at the translation unit, for which the importer has a module, or in a
  declaration whose import, a declaration context, is in the cache; the nearest
  file context around \<open>d\<close> is the translation unit, and \<open>M\<close> is the module
  that the importer has for it. The enumerators of \<open>d\<close> are distinct enum
  constants declared in \<open>d\<close>, each its own canonical declaration, with a name
  that the importer can use, and with a value that is not negative unless the
  lookup of \<open>-\<close> finds declarations of the state only, a function among them.
  The cache has no entry for the canonical declaration of the enum, which is
  not an enumerator, nor for an enumerator.

  Then the import of \<open>e\<close>, with three levels of the importer or more, returns
  a new struct in \<open>dc\<close> and records it in the cache. The declarations made by
  the import are this one struct, the stored variable \<open>value\<close> of type \<open>ty\<close>,
  a pattern binding, the constructor that takes a \<open>ty\<close>, and after them
  variables and functions only; the members of the struct are the
  constructor, the pattern binding and the variable. The import of each
  enumerator then returns, without a change of the state, a constant of the
  type of the struct, in the module \<open>M\<close>, whose value is constructed from the
  integer literal of the enumerator's value.
\<close>
theorem options_enum_import:
  assumes "getCDecl E e = Some cd" and "declKind cd = EnumDecl ei"
    and "enum_definition ei = Some d"
    and "getCDecl E d = Some dd" and "declKind dd = EnumDecl di"
    and "canonicalDecl dd = canonicalDecl cd"
    and "classifyEnum E dd di = Options"
    and "enum_integerType di = OpaqueType k"
    and "importOtherType E (OpaqueType k) Normal = Some ty"
    and "importedContext E s d dd = Some dc"
    and "enclosingFileContext (declContext dd) = TranslationUnit"
    and "firstClangModule E = Some M"
    and "\<forall>x\<in>set (enum_enumerators di). optionEnumerator E s d x"
    and "distinct (enum_enumerators di)"
    and "map_of (ImportedDecls s) (canonicalDecl cd) = None"
    and "\<forall>x\<in>set (enum_enumerators di). map_of (ImportedDecls s) x = None"
    and "canonicalDecl cd \<notin> set (enum_enumerators di)"
  shows "\<exists>s' S V P C new.
           importDecl (Suc (Suc (Suc n))) E (Some e) s = Some (Some (length (arena s)), s')
         \<and> arena s' = arena s @ [S, V, P, C] @ new
         \<and> (\<forall>d\<in>set new. d_kind d = DeclKind_Var \<or> d_kind d = DeclKind_Func)
         \<and> map_of (ImportedDecls s') (canonicalDecl cd) = Some (Some (length (arena s)))
         \<and> d_kind S = DeclKind_Struct
         \<and> d_name S = importTagName E (declName dd) (enum_typedefNameForAnonDecl di)
         \<and> d_context S = Some dc
         \<and> d_members S = [length (arena s) + 3, length (arena s) + 2, length (arena s) + 1]
         \<and> d_kind V = DeclKind_Var \<and> d_name V = ''value'' \<and> d_type V = Some ty
         \<and> \<not> d_isComputed V
         \<and> d_kind P = DeclKind_PatternBinding
         \<and> d_kind C = DeclKind_Constructor
         \<and> d_type C = Some (FunctionType (MetaTypeType (NominalType (length (arena s))))
                              (FunctionType (TupleType [(ty, ''value'')])
                                 (NominalType (length (arena s)))))
         \<and> (\<forall>x\<in>set (enum_enumerators di).
               \<exists>c. importDecl (Suc (Suc (Suc n))) E (Some x) s' = Some (Some c, s')
                  \<and> enumeratorConstant E s s' (length (arena s)) M x c)"
  using assms by (rule importDecl_options_enum)

theorem options_enum_import_witness:
  "\<exists>s' S V P C new.
      importDecl 3 flagsEnv (Some 1) flagsImpl = Some (Some 2, s')
    \<and> arena s' = arena flagsImpl @ [S, V, P, C] @ new
    \<and> map_of (ImportedDecls s') 1 = Some (Some 2)
    \<and> d_kind S = DeclKind_Struct \<and> d_name S = ''Flags'' \<and> d_context S = Some (DeclContextOf 0)
    \<and> d_members S = [5, 4, 3]
    \<and> d_kind V = DeclKind_Var \<and> d_type V = Some (StdlibType ''UInt32'')
    \<and> d_kind P = DeclKind_PatternBinding
    \<and> d_kind C = DeclKind_Constructor
    \<and> (\<exists>c. importDecl 3 flagsEnv (Some 3) s' = Some (Some c, s')
            \<and> enumeratorConstant flagsEnv flagsImpl s' 2 0 3 c)
    \<and> (\<exists>c. importDecl 3 flagsEnv (Some 4) s' = Some (Some c, s')
            \<and> enumeratorConstant flagsEnv flagsImpl s' 2 0 4 c)
    \<and> integerLiteral flagsEnv flagsImpl 0 = IntegerLiteralExpr ''0''
    \<and> integerLiteral flagsEnv flagsImpl (- 1)
        = PrefixUnaryExpr (DeclRefExpr 1) (IntegerLiteralExpr ''1'')"
proof -
  let ?ei = "(exampleEnumInfo None [])\<lparr>enum_definition := Some 2\<rparr>"
  let ?di = "(exampleEnumInfo None [3, 4])\<lparr>enum_definition := Some 2\<rparr>"
  have a: "getCDecl flagsEnv 1 = Some (flagsAst ! 1)"
    "declKind (flagsAst ! 1) = EnumDecl ?ei"
    "enum_definition ?ei = Some 2"
    "getCDecl flagsEnv 2 = Some (flagsAst ! 2)"
    "declKind (flagsAst ! 2) = EnumDecl ?di"
    "canonicalDecl (flagsAst ! 2) = canonicalDecl (flagsAst ! 1)"
    by (simp_all add: flagsEnv_def flagsAst_def getCDecl_def exampleDecl_def exampleEnv_def)
  have o: "classifyEnum flagsEnv (flagsAst ! 2) ?di = Options"
    by code_simp
  have t: "enum_integerType ?di = OpaqueType 0"
    "importOtherType flagsEnv (OpaqueType 0) Normal = Some (StdlibType ''UInt32'')"
    by (simp_all add: flagsEnv_def exampleEnumInfo_def exampleEnv_def
          exampleImportOtherType_def)
  have c: "importedContext flagsEnv flagsImpl 2 (flagsAst ! 2) = Some (DeclContextOf 0)"
    by code_simp
  have f: "enclosingFileContext (declContext (flagsAst ! 2)) = TranslationUnit"
    "firstClangModule flagsEnv = Some 0"
    by (simp_all add: flagsEnv_def flagsAst_def exampleDecl_def exampleEnv_def)
  have xs: "enum_enumerators ?di = [3, 4]"
    by (simp add: exampleEnumInfo_def)
  have x: "\<forall>x\<in>set (enum_enumerators ?di). optionEnumerator flagsEnv flagsImpl 2 x"
    unfolding xs by code_simp
  have d: "distinct (enum_enumerators ?di)"
    unfolding xs by simp
  have k: "canonicalDecl (flagsAst ! 1) = 1"
    by (simp add: flagsAst_def exampleDecl_def)
  have u: "map_of (ImportedDecls flagsImpl) (canonicalDecl (flagsAst ! 1)) = None"
    "\<forall>x\<in>set (enum_enumerators ?di). map_of (ImportedDecls flagsImpl) x = None"
    "canonicalDecl (flagsAst ! 1) \<notin> set (enum_enumerators ?di)"
    unfolding xs k by (simp_all add: flagsImpl_def emptyImpl_def)
  have n: "importTagName flagsEnv (declName (flagsAst ! 2)) (enum_typedefNameForAnonDecl ?di)
             = ''Flags''"
    by code_simp
  have l: "length (arena flagsImpl) = 2"
    by (simp add: flagsImpl_def)
  have i: "integerLiteral flagsEnv flagsImpl 0 = IntegerLiteralExpr ''0''"
    "integerLiteral flagsEnv flagsImpl (- 1)
       = PrefixUnaryExpr (DeclRefExpr 1) (IntegerLiteralExpr ''1'')"
    by code_simp+
  have m: "Suc (Suc (Suc 0)) = 3"
    by simp
  from options_enum_import [OF a o t c f x d u, of 0]
  obtain s' S V P C new where
    "importDecl 3 flagsEnv (Some 1) flagsImpl = Some (Some 2, s')"
    "arena s' = arena flagsImpl @ [S, V, P, C] @ new"
    "map_of (ImportedDecls s') 1 = Some (Some 2)"
    "d_kind S = DeclKind_Struct" "d_name S = ''Flags''" "d_context S = Some (DeclContextOf 0)"
    "d_members S = [5, 4, 3]"
    "d_kind V = DeclKind_Var" "d_type V = Some (StdlibType ''UInt32'')"
    "d_kind P = DeclKind_PatternBinding" "d_kind C = DeclKind_Constructor"
    "\<forall>x\<in>set [3, 4]. \<exists>c. importDecl 3 flagsEnv (Some x) s' = Some (Some c, s')
                           \<and> enumeratorConstant flagsEnv flagsImpl s' 2 0 x c"
    unfolding xs n l k m by (elim exE conjE) simp
  with i show ?thesis
    by (intro exI [of _ s'] exI [of _ S] exI [of _ V] exI [of _ P] exI [of _ C]
          exI [of _ new]) simp
qed

end
